(* ===== verification/Prelude.thy ===== *)
theory Prelude
  imports Complex_Main "HOL-Library.Multiset"
begin

text \<open>
  Shared vocabulary of the development.  Python exceptions are values of
  \<open>py_error\<close>; a computation that may raise returns \<open>py_error + 'a\<close>, with
  \<open>Inl\<close> the exception.  \<open>rbind\<close> sequences such computations (the first
  exception wins, as an uncaught raise does), \<open>rmap\<close> is a list comprehension
  \<open>[f(x) for x in xs]\<close> whose element function may raise, \<open>py_get\<close> is
  Python's indexing \<open>xs[i]\<close> (negative indices count from the end, out of
  range raises \<open>IndexError\<close>) and \<open>py_index\<close> is \<open>list.index\<close>.
  The collection \<open>py_eval\<close> gathers the rules that evaluate the runtime model on
  concrete inputs; the list lemmas at the end are shared by the permutation
  arguments of the component theories.
\<close>

named_theorems py_eval "rules evaluating the Python runtime model"

datatype py_error = ValueError | IndexError | KeyError | OSError

type_synonym 'a py_result = "py_error + 'a"

definition rbind :: "'e + 'a \<Rightarrow> ('a \<Rightarrow> 'e + 'b) \<Rightarrow> 'e + 'b" where
  "rbind r f = (case r of Inl e \<Rightarrow> Inl e | Inr a \<Rightarrow> f a)"

fun rmap :: "('a \<Rightarrow> 'e + 'b) \<Rightarrow> 'a list \<Rightarrow> 'e + 'b list" where
  "rmap f [] = Inr []"
| "rmap f (x # xs) = rbind (f x) (\<lambda>y. rbind (rmap f xs) (\<lambda>ys. Inr (y # ys)))"

definition py_get :: "'a list \<Rightarrow> int \<Rightarrow> py_error + 'a" where
  "py_get xs i =
     (let k = (if 0 \<le> i then i else i + int (length xs))
      in if k < 0 \<or> int (length xs) \<le> k then Inl IndexError else Inr (xs ! nat k))"

fun py_index :: "'a list \<Rightarrow> 'a \<Rightarrow> py_error + nat" where
  "py_index [] a = Inl ValueError"
| "py_index (x # xs) a = (if x = a then Inr 0 else rbind (py_index xs a) (\<lambda>i. Inr (Suc i)))"

subsection \<open>Sequencing raising computations\<close>

lemma rbind_Inl [simp, py_eval]: "rbind (Inl e) f = Inl e"
  by (simp add: rbind_def)

lemma rbind_Inr [simp, py_eval]: "rbind (Inr a) f = f a"
  by (simp add: rbind_def)

lemma rbind_eq_Inr_iff:
  "rbind r f = Inr b \<longleftrightarrow> (\<exists>a. r = Inr a \<and> f a = Inr b)"
  by (cases r) auto

lemma rbind_eq_Inl_iff:
  "rbind r f = Inl e \<longleftrightarrow> r = Inl e \<or> (\<exists>a. r = Inr a \<and> f a = Inl e)"
  by (cases r) auto

lemma rmap_eq_Inr_iff:
  "rmap f xs = Inr ys \<longleftrightarrow> list_all2 (\<lambda>x y. f x = Inr y) xs ys"
proof (induction xs arbitrary: ys)
  case Nil
  then show ?case by auto
next
  case (Cons x xs)
  then show ?case
    by (cases ys) (auto simp: rbind_eq_Inr_iff)
qed

lemma rmap_Inr_map:
  "(\<And>x. x \<in> set xs \<Longrightarrow> f x = Inr (g x)) \<Longrightarrow> rmap f xs = Inr (map g xs)"
  by (induction xs) auto

lemma rmap_isl_iff:
  "isl (rmap f xs) \<longleftrightarrow> (\<exists>x \<in> set xs. isl (f x))"
proof (induction xs)
  case Nil
  then show ?case by simp
next
  case (Cons x xs)
  then show ?case
    by (cases "f x"; cases "rmap f xs") auto
qed

text \<open>
  When the element function can only raise one exception, the outcome of the
  comprehension depends on the set of elements alone, not on their order or
  multiplicity.
\<close>

lemma rmap_single_error:
  assumes "\<And>x e. f x = Inl e \<Longrightarrow> e = e0"
  shows "rmap f xs = (if \<exists>x \<in> set xs. isl (f x) then Inl e0 else Inr (map (projr \<circ> f) xs))"
proof (induction xs)
  case Nil
  then show ?case by simp
next
  case (Cons x xs)
  then show ?case
    using assms by (cases "f x") auto
qed

text \<open>
  Two comprehensions whose elements agree up to a projection \<open>h\<close> of their results
  agree up to \<open>map h\<close>, errors included.
\<close>

lemma rmap_rel:
  "list_all2 (\<lambda>x y. map_sum id h (f x) = map_sum id h (g y)) xs ys \<Longrightarrow>
   map_sum id (map h) (rmap f xs) = map_sum id (map h) (rmap g ys)"
proof (induction xs ys rule: list_all2_induct)
  case Nil
  then show ?case by simp
next
  case (Cons x xs y ys)
  then show ?case
    by (cases "f x"; cases "g y"; cases "rmap f xs"; cases "rmap g ys") auto
qed

lemma length_rmap:
  "rmap f xs = Inr ys \<Longrightarrow> length ys = length xs"
  by (auto simp: rmap_eq_Inr_iff dest: list_all2_lengthD)

subsection \<open>Indexing\<close>

lemma py_get_nat [simp]:
  "py_get xs (int i) = (if i < length xs then Inr (xs ! i) else Inl IndexError)"
  by (simp add: py_get_def)

lemma py_get_succ [simp]:
  "py_get xs (1 + int i) = (if Suc i < length xs then Inr (xs ! Suc i) else Inl IndexError)"
  by (simp add: py_get_def nat_add_distrib)

lemma py_get_nonneg:
  "0 \<le> i \<Longrightarrow> i < int (length xs) \<Longrightarrow> py_get xs i = Inr (xs ! nat i)"
  by (simp add: py_get_def)

lemma py_get_Cons_0 [simp]: "py_get (x # xs) 0 = Inr x"
  by (simp add: py_get_def)

lemma py_index_nth:
  "distinct xs \<Longrightarrow> i < length xs \<Longrightarrow> py_index xs (xs ! i) = Inr i"
proof (induction xs arbitrary: i)
  case Nil
  then show ?case by simp
next
  case (Cons x xs)
  then show ?case
    by (cases i) (auto simp: nth_mem)
qed

lemma py_index_in:
  "a \<in> set xs \<Longrightarrow> \<exists>i. py_index xs a = Inr i \<and> i < length xs"
  by (induction xs) auto

subsection \<open>Lists read through an index list\<close>

text \<open>
  A consistent reordering of parallel columns reads every column through the same
  list of row indices \<open>p\<close>.
\<close>

definition reorder :: "nat list \<Rightarrow> 'a list \<Rightarrow> 'a list" where
  "reorder p xs = map ((!) xs) p"

lemma zip_reorder:
  "(\<And>i. i \<in> set p \<Longrightarrow> i < length xs \<and> i < length ys) \<Longrightarrow>
   zip (reorder p xs) (reorder p ys) = reorder p (zip xs ys)"
  by (induction p) (auto simp: reorder_def)

lemma set_reorder_perm:
  "mset p = mset [0..<length xs] \<Longrightarrow> set (reorder p xs) = set xs"
proof -
  assume "mset p = mset [0..<length xs]"
  then have "set p = {0..<length xs}"
    by (metis set_mset_mset set_upt)
  then show ?thesis
    by (auto simp: reorder_def in_set_conv_nth)
qed

lemma map_reorder:
  "(\<And>i. i \<in> set p \<Longrightarrow> i < length xs) \<Longrightarrow> map f (reorder p xs) = reorder p (map f xs)"
  by (induction p) (auto simp: reorder_def)

lemma length_reorder [simp]: "length (reorder p xs) = length p"
  by (simp add: reorder_def)

lemma reorder_perm_bound:
  "mset p = mset [0..<n] \<Longrightarrow> i \<in> set p \<Longrightarrow> i < n"
  by (metis atLeastLessThan_iff set_mset_mset set_upt)

lemma length_perm:
  "mset p = mset [0..<n] \<Longrightarrow> length p = n"
  by (metis length_upt minus_nat.diff_0 size_mset)

lemma find_upt_first:
  "k < n \<Longrightarrow> P k \<Longrightarrow> (\<And>i. i < k \<Longrightarrow> \<not> P i) \<Longrightarrow> find P [0..<n] = Some k"
  by (subst find_Some_iff) auto

lemma rmap_pairs:
  "(\<And>z. z \<in> set zs \<Longrightarrow> f (snd z) = Inr (fst z)) \<Longrightarrow> rmap f (map snd zs) = Inr (map fst zs)"
  by (induction zs) auto

lemma rmap_zip:
  assumes "rmap f xs = Inr ks" "z \<in> set (zip ks xs)"
  shows "f (snd z) = Inr (fst z)"
proof -
  have "list_all2 (\<lambda>x y. f x = Inr y) xs ks"
    using assms(1) by (simp add: rmap_eq_Inr_iff)
  with assms(2) show ?thesis
    by (auto simp: in_set_zip list_all2_conv_all_nth)
qed

lemma sort_by_keys:
  assumes "rmap f xs = Inr ks"
  defines "ys \<equiv> map snd (sort_key fst (zip ks xs))"
  shows "rmap f ys = Inr (map fst (sort_key fst (zip ks xs)))" "mset ys = mset xs"
proof -
  show "rmap f ys = Inr (map fst (sort_key fst (zip ks xs)))"
    unfolding ys_def using rmap_zip [OF assms(1)] by (intro rmap_pairs) (simp add: set_sort)
  have "length ks = length xs" using length_rmap [OF assms(1)] by simp
  then show "mset ys = mset xs"
    unfolding ys_def by (metis map_snd_zip mset_map mset_sort)
qed

end
