(* ===== verification/PyStr.thy ===== *)
theory PyStr
  imports Prelude
begin

text \<open>
  The part of Python's \<open>str\<close> type and of text-mode file reading that the three
  scripts use.  A string is a list of code points below 256 (Latin-1), so
  \<open>py_isspace\<close> is exactly \<open>str.isspace\<close> on that range: the ASCII controls
  \<open>\t \n \v \f \r\<close>, the separators \<open>\x1c\<close>..\<open>\x1f\<close>, the space, \<open>\x85\<close> and
  \<open>\xa0\<close>.  \<open>py_strip\<close> is \<open>str.strip()\<close>, \<open>py_split\<close> is \<open>str.split()\<close> (runs
  of whitespace separate, no empty fields), \<open>py_split_sep\<close> is \<open>str.split(sep)\<close>
  for a one-character separator (empty fields kept), \<open>py_join\<close> is
  \<open>sep.join(ws)\<close>, and \<open>py_readlines\<close> is the list of lines a file opened with
  \<open>open(path, 'r')\<close> yields: \<open>\r\n\<close> and \<open>\r\<close> become \<open>\n\<close> (universal
  newlines), every line keeps its terminating \<open>\n\<close>, the last one may lack it.
\<close>

definition py_isspace :: "char \<Rightarrow> bool" where
  "py_isspace c \<longleftrightarrow>
     (let n = (of_char c :: nat) in (9 \<le> n \<and> n \<le> 13) \<or> (28 \<le> n \<and> n \<le> 32) \<or> n = 133 \<or> n = 160)"

definition py_strip :: "string \<Rightarrow> string" where
  "py_strip s = rev (dropWhile py_isspace (rev (dropWhile py_isspace s)))"

fun split_words :: "string \<Rightarrow> string \<Rightarrow> string list" where
  "split_words cur [] = (if cur = [] then [] else [rev cur])"
| "split_words cur (c # cs) =
     (if py_isspace c
      then (if cur = [] then split_words [] cs else rev cur # split_words [] cs)
      else split_words (c # cur) cs)"

definition py_split :: "string \<Rightarrow> string list" where
  "py_split s = split_words [] s"

fun py_split_sep :: "char \<Rightarrow> string \<Rightarrow> string list" where
  "py_split_sep d [] = [[]]"
| "py_split_sep d (c # cs) =
     (if c = d then [] # py_split_sep d cs
      else (let r = py_split_sep d cs in (c # hd r) # tl r))"

fun py_join :: "string \<Rightarrow> string list \<Rightarrow> string" where
  "py_join sep [] = []"
| "py_join sep [w] = w"
| "py_join sep (w # ws) = w @ sep @ py_join sep ws"

definition py_startswith :: "string \<Rightarrow> string \<Rightarrow> bool" where
  "py_startswith s p \<longleftrightarrow> take (length p) s = p"

abbreviation LF :: char where "LF \<equiv> CHR 0x0A"
abbreviation CR :: char where "CR \<equiv> CHR 0x0D"
abbreviation TAB :: char where "TAB \<equiv> CHR 0x09"

fun univ_newlines :: "string \<Rightarrow> string" where
  "univ_newlines [] = []"
| "univ_newlines (c # cs) =
     (if c = CR
      then LF # univ_newlines (if cs \<noteq> [] \<and> hd cs = LF then tl cs else cs)
      else c # univ_newlines cs)"

fun lines_acc :: "string \<Rightarrow> string \<Rightarrow> string list" where
  "lines_acc cur [] = (if cur = [] then [] else [rev cur])"
| "lines_acc cur (c # cs) =
     (if c = LF then rev (c # cur) # lines_acc [] cs else lines_acc (c # cur) cs)"

definition py_readlines :: "string \<Rightarrow> string list" where
  "py_readlines s = lines_acc [] (univ_newlines s)"

subsection \<open>Evaluation\<close>

lemma py_isspace_ascii [py_eval]:
  "py_isspace c \<longleftrightarrow> of_char c \<in> ({9..13} \<union> {28..32} \<union> {133, 160} :: nat set)"
  by (auto simp: py_isspace_def Let_def)

lemmas py_str_defs [py_eval] = py_strip_def py_split_def py_startswith_def py_readlines_def

subsection \<open>str.split()\<close>

lemma split_words_words:
  "w \<in> set (split_words cur s) \<Longrightarrow> (\<forall>x \<in> set cur. \<not> py_isspace x) \<Longrightarrow>
   w \<noteq> [] \<and> (\<forall>x \<in> set w. \<not> py_isspace x)"
proof (induction cur s rule: split_words.induct)
  case (1 cur)
  then show ?case by (simp split: if_splits)
next
  case (2 cur c cs)
  show ?case
  proof (cases "py_isspace c")
    case True
    show ?thesis
    proof (cases "cur = []")
      case True
      with \<open>py_isspace c\<close> "2.prems" "2.IH"(1) show ?thesis by simp
    next
      case False
      with \<open>py_isspace c\<close> "2.prems" "2.IH"(2) show ?thesis by (cases "w = rev cur") simp_all
    qed
  next
    case False
    with "2.prems" "2.IH"(3) show ?thesis by simp
  qed
qed

lemma py_split_words:
  "w \<in> set (py_split s) \<Longrightarrow> w \<noteq> [] \<and> (\<forall>c \<in> set w. \<not> py_isspace c)"
  using split_words_words [of w "[]" s] by (simp add: py_split_def)

lemma split_words_word:
  "\<forall>x \<in> set w. \<not> py_isspace x \<Longrightarrow> split_words cur (w @ s) = split_words (rev w @ cur) s"
  by (induction w arbitrary: cur) auto

lemma split_words_spaces:
  "\<forall>x \<in> set sp. py_isspace x \<Longrightarrow> split_words [] (sp @ s) = split_words [] s"
  by (induction sp) auto

lemma split_words_dropWhile:
  "split_words [] (dropWhile py_isspace s) = split_words [] s"
  by (induction s) simp_all

lemma split_words_all_space:
  "\<forall>x \<in> set sp. py_isspace x \<Longrightarrow> split_words cur sp = split_words cur []"
  by (induction sp arbitrary: cur) simp_all

lemma split_words_trailing:
  "\<forall>x \<in> set sp. py_isspace x \<Longrightarrow> split_words cur (u @ sp) = split_words cur u"
  by (induction u arbitrary: cur) (simp_all add: split_words_all_space)

lemma py_split_strip [simp]: "py_split (py_strip s) = py_split s"
proof -
  let ?t = "dropWhile py_isspace s"
  let ?m = "rev (dropWhile py_isspace (rev ?t))"
  let ?sp = "rev (takeWhile py_isspace (rev ?t))"
  have split: "?m @ ?sp = ?t"
    by (simp flip: rev_append)
  have sp: "\<forall>x \<in> set ?sp. py_isspace x"
    by (auto dest: set_takeWhileD)
  have "split_words [] ?t = split_words [] ?m"
    using split_words_trailing [OF sp, of "[]" ?m] split by simp
  then show ?thesis
    by (simp add: py_split_def py_strip_def split_words_dropWhile)
qed

lemma set_py_join: "set (py_join sep ws) \<subseteq> set (concat ws) \<union> set sep"
  by (induction sep ws rule: py_join.induct) auto

lemma py_split_sep_append:
  "d \<notin> set a \<Longrightarrow> py_split_sep d (a @ d # b) = a # py_split_sep d b"
  by (induction a) auto

lemma py_split_sep_single: "d \<notin> set w \<Longrightarrow> py_split_sep d w = [w]"
  by (induction w) auto

lemma py_split_sep_join:
  "ws \<noteq> [] \<Longrightarrow> \<forall>w \<in> set ws. d \<notin> set w \<Longrightarrow> py_split_sep d (py_join [d] ws) = ws"
proof (induction ws rule: induct_list012)
  case (3 x y zs)
  then have "py_split_sep d (x @ d # py_join [d] (y # zs)) = x # py_split_sep d (py_join [d] (y # zs))"
    by (intro py_split_sep_append) simp
  with 3 show ?case by simp
qed (simp_all add: py_split_sep_single)

lemma univ_newlines_id:
  "CR \<notin> set s \<Longrightarrow> univ_newlines s = s"
  by (induction s) auto

lemma lines_acc_append:
  "LF \<notin> set r \<Longrightarrow> lines_acc cur (r @ s) = lines_acc (rev r @ cur) s"
  by (induction r arbitrary: cur) auto

lemma py_readlines_rows:
  "\<forall>r \<in> set rs. LF \<notin> set r \<and> CR \<notin> set r \<Longrightarrow>
   py_readlines (concat (map (\<lambda>r. r @ [LF]) rs)) = map (\<lambda>r. r @ [LF]) rs"
proof -
  assume h: "\<forall>r \<in> set rs. LF \<notin> set r \<and> CR \<notin> set r"
  have "CR \<notin> set (concat (map (\<lambda>r. r @ [LF]) rs))" using h by auto
  moreover have "lines_acc [] (concat (map (\<lambda>r. r @ [LF]) rs)) = map (\<lambda>r. r @ [LF]) rs"
    using h by (induction rs) (simp_all add: lines_acc_append)
  ultimately show ?thesis by (simp add: py_readlines_def univ_newlines_id)
qed

lemma py_split_join:
  "\<forall>w \<in> set ws. w \<noteq> [] \<and> (\<forall>x \<in> set w. \<not> py_isspace x) \<Longrightarrow>
   sep \<noteq> [] \<Longrightarrow> \<forall>x \<in> set sep. py_isspace x \<Longrightarrow> py_split (py_join sep ws) = ws"
proof (induction sep ws rule: py_join.induct)
  case (1 sep)
  then show ?case by (simp add: py_split_def)
next
  case (2 sep w)
  then show ?case
    using split_words_word [of w "[]" "[]"] by (simp add: py_split_def)
next
  case (3 sep w v vs)
  obtain c sp where sep: "sep = c # sp" using "3.prems"(2) by (cases sep) auto
  have "split_words [] (w @ sep @ py_join sep (v # vs)) =
        split_words (rev w) (sep @ py_join sep (v # vs))"
    using "3.prems"(1) split_words_word [of w "[]"] by simp
  also have "\<dots> = w # split_words [] (sp @ py_join sep (v # vs))"
    using sep "3.prems" by simp
  also have "\<dots> = w # py_split (py_join sep (v # vs))"
    using sep "3.prems"(3) by (simp add: split_words_spaces py_split_def)
  finally show ?case
    using "3.IH" "3.prems" by (simp add: py_split_def)
qed

end
