(* ===== verification/PyFloat.thy ===== *)
theory PyFloat
  imports PyStr
begin

text \<open>
  Python's \<open>float\<close> as far as the scripts use it: the constructor \<open>float(s)\<close>
  on strings, the comparisons \<open><\<close>, \<open><=\<close>, \<open>==\<close> between floats and between a
  float and an \<open>int\<close>, the builtin \<open>max(a, b)\<close>, \<open>abs\<close> and multiplication by
  an integer constant.  A float is \<open>NaN\<close> or a number of the extended line
  \<open>xfloat\<close> (\<open>-inf\<close>, a finite real, \<open>inf\<close>); \<open>xfloat\<close> is a linear order, so
  the library's \<open>Max\<close> and \<open>max\<close> apply to it.  Every comparison involving
  \<open>NaN\<close> is false, as in IEEE 754.

  Finite values are kept exact: rounding to the nearest double is not modelled,
  overflow is.  A finite result of magnitude at least \<open>2^1024 - 2^970\<close> (the
  smallest magnitude that rounds to infinity under round-to-nearest-even) becomes
  \<open>inf\<close> or \<open>-inf\<close>, which is what \<open>float('1e400')\<close> and \<open>1e308 * 10\<close> give.

  There is one zero: \<open>float('-0.0')\<close> and \<open>float('0.0')\<close> are both \<open>Fin 0\<close>.
  Python keeps the sign of a zero; the two compare equal, so comparisons and the
  builtin \<open>max\<close> decide the same way, but \<open>max\<close> then returns whichever came
  first and \<open>str()\<close> prints them differently.  Statements about which of two equal
  values a computation keeps are therefore restricted to inputs without zero cells
  (see the reordering theorem of \<open>StrainReduce\<close>).

  \<open>py_float\<close> follows CPython's \<open>float_from_string\<close>: surrounding whitespace is
  stripped, an optional sign, then either \<open>inf\<close>, \<open>infinity\<close> or \<open>nan\<close> in any
  letter case, or a decimal literal: digits, an optional fraction, an optional
  exponent, with single underscores allowed between digits; anything else is
  \<open>None\<close>, i.e. \<open>ValueError\<close>.
\<close>

datatype xfloat = NegInf | Fin real | PosInf

instantiation xfloat :: linorder
begin

fun less_eq_xfloat :: "xfloat \<Rightarrow> xfloat \<Rightarrow> bool" where
  "less_eq_xfloat NegInf y = True"
| "less_eq_xfloat (Fin a) NegInf = False"
| "less_eq_xfloat (Fin a) (Fin b) = (a \<le> b)"
| "less_eq_xfloat (Fin a) PosInf = True"
| "less_eq_xfloat PosInf y = (y = PosInf)"

definition less_xfloat :: "xfloat \<Rightarrow> xfloat \<Rightarrow> bool" where
  "less_xfloat x y \<longleftrightarrow> x \<le> y \<and> \<not> y \<le> x"

instance
proof
  fix x y z :: xfloat
  show "x < y \<longleftrightarrow> x \<le> y \<and> \<not> y \<le> x" by (simp add: less_xfloat_def)
  show "x \<le> x" by (cases x) auto
  show "x \<le> y \<Longrightarrow> y \<le> z \<Longrightarrow> x \<le> z" by (cases x; cases y; cases z) auto
  show "x \<le> y \<Longrightarrow> y \<le> x \<Longrightarrow> x = y" by (cases x; cases y) auto
  show "x \<le> y \<or> y \<le> x" by (cases x; cases y) auto
qed

end

datatype pyfloat = NaN | Num xfloat

fun py_lt :: "pyfloat \<Rightarrow> pyfloat \<Rightarrow> bool" where
  "py_lt (Num a) (Num b) = (a < b)"
| "py_lt _ _ = False"

fun py_le :: "pyfloat \<Rightarrow> pyfloat \<Rightarrow> bool" where
  "py_le (Num a) (Num b) = (a \<le> b)"
| "py_le _ _ = False"

fun py_eq :: "pyfloat \<Rightarrow> pyfloat \<Rightarrow> bool" where
  "py_eq (Num a) (Num b) = (a = b)"
| "py_eq _ _ = False"

text \<open>An \<open>int\<close> operand is converted exactly, as CPython compares floats with ints.\<close>

definition py_int :: "int \<Rightarrow> pyfloat" where
  "py_int i = Num (Fin (of_int i))"

text \<open>\<open>max(a, b)\<close> keeps \<open>a\<close> unless \<open>b > a\<close>.\<close>

definition py_max :: "pyfloat \<Rightarrow> pyfloat \<Rightarrow> pyfloat" where
  "py_max a b = (if py_lt a b then b else a)"

definition float_max_bound :: real where
  "float_max_bound = 2 ^ 1024 - 2 ^ 970"

definition round_overflow :: "real \<Rightarrow> xfloat" where
  "round_overflow r =
     (if float_max_bound \<le> r then PosInf else if r \<le> - float_max_bound then NegInf else Fin r)"

fun py_mul_int :: "pyfloat \<Rightarrow> int \<Rightarrow> pyfloat" where
  "py_mul_int NaN k = NaN"
| "py_mul_int (Num (Fin r)) k = Num (round_overflow (r * of_int k))"
| "py_mul_int (Num PosInf) k = (if k > 0 then Num PosInf else if k < 0 then Num NegInf else NaN)"
| "py_mul_int (Num NegInf) k = (if k > 0 then Num NegInf else if k < 0 then Num PosInf else NaN)"

fun py_abs :: "pyfloat \<Rightarrow> pyfloat" where
  "py_abs NaN = NaN"
| "py_abs (Num (Fin r)) = Num (Fin \<bar>r\<bar>)"
| "py_abs (Num _) = Num PosInf"

text \<open>The absolute value on the extended line, so that \<open>py_abs (Num x) = Num (xabs x)\<close>.\<close>

fun xabs :: "xfloat \<Rightarrow> xfloat" where
  "xabs NegInf = PosInf"
| "xabs (Fin r) = Fin \<bar>r\<bar>"
| "xabs PosInf = PosInf"

subsection \<open>float(s)\<close>

definition is_digit :: "char \<Rightarrow> bool" where
  "is_digit c \<longleftrightarrow> 48 \<le> (of_char c :: nat) \<and> (of_char c :: nat) \<le> 57"

definition digit_val :: "char \<Rightarrow> nat" where
  "digit_val c = of_char c - 48"

text \<open>Digits after a first digit: a single underscore may separate two digits.\<close>

fun digit_run :: "string \<Rightarrow> string \<times> string" where
  "digit_run [] = ([], [])"
| "digit_run (c # cs) =
     (if is_digit c then (let (ds, r) = digit_run cs in (c # ds, r))
      else if c = CHR ''_'' \<and> cs \<noteq> [] \<and> is_digit (hd cs)
      then (let (ds, r) = digit_run (tl cs) in (hd cs # ds, r))
      else ([], c # cs))"

definition digits :: "string \<Rightarrow> string \<times> string" where
  "digits s =
     (case s of
       [] \<Rightarrow> ([], [])
     | c # cs \<Rightarrow> if is_digit c then (let (ds, r) = digit_run cs in (c # ds, r)) else ([], s))"

definition nat_of_digits :: "string \<Rightarrow> nat" where
  "nat_of_digits ds = foldl (\<lambda>n c. 10 * n + digit_val c) 0 ds"

definition parse_sign :: "string \<Rightarrow> int \<times> string" where
  "parse_sign s =
     (case s of
       [] \<Rightarrow> (1, [])
     | c # cs \<Rightarrow>
         if c = CHR ''-'' then (-1, cs) else if c = CHR ''+'' then (1, cs) else (1, s))"

definition scale10 :: "real \<Rightarrow> int \<Rightarrow> real" where
  "scale10 x e = (if 0 \<le> e then x * 10 ^ nat e else x / 10 ^ nat (- e))"

definition parse_exponent :: "string \<Rightarrow> int option" where
  "parse_exponent s =
     (let (sg, r) = parse_sign s; (es, rest) = digits r
      in if es \<noteq> [] \<and> rest = [] then Some (sg * int (nat_of_digits es)) else None)"

definition parse_decimal :: "string \<Rightarrow> real option" where
  "parse_decimal s =
     (let (ip, r1) = digits s;
          (fp, r2) = (case r1 of c # cs \<Rightarrow> if c = CHR ''.'' then digits cs else ([], r1)
                               | [] \<Rightarrow> ([], []));
          m = real (nat_of_digits (ip @ fp)); k = int (length fp)
      in if ip = [] \<and> fp = [] then None
         else (case r2 of
                 [] \<Rightarrow> Some (scale10 m (- k))
               | c # cs \<Rightarrow>
                   if c = CHR ''e'' \<or> c = CHR ''E''
                   then map_option (\<lambda>e. scale10 m (e - k)) (parse_exponent cs)
                   else None))"

definition ascii_lower :: "char \<Rightarrow> char" where
  "ascii_lower c =
     (let n = (of_char c :: nat) in if 65 \<le> n \<and> n \<le> 90 then char_of (n + 32) else c)"

definition py_float :: "string \<Rightarrow> pyfloat option" where
  "py_float s =
     (let (sg, b) = parse_sign (py_strip s); lb = map ascii_lower b
      in if lb = ''inf'' \<or> lb = ''infinity'' then Some (Num (if sg < 0 then NegInf else PosInf))
         else if lb = ''nan'' then Some NaN
         else map_option (\<lambda>r. Num (round_overflow (of_int sg * r))) (parse_decimal b))"

text \<open>\<open>float(x)\<close> as a raising call.\<close>

definition float_res :: "string \<Rightarrow> py_error + pyfloat" where
  "float_res x = (case py_float x of None \<Rightarrow> Inl ValueError | Some v \<Rightarrow> Inr v)"

subsection \<open>Evaluation and basic facts\<close>

lemmas py_float_defs [py_eval] =
  py_float_def parse_sign_def parse_decimal_def parse_exponent_def digits_def is_digit_def
  nat_of_digits_def digit_val_def scale10_def round_overflow_def float_max_bound_def
  ascii_lower_def float_res_def py_int_def py_max_def

lemma float_res_error [simp]: "float_res x = Inl e \<Longrightarrow> e = ValueError"
  by (simp add: float_res_def split: option.splits)

lemma py_max_Num [simp]: "py_max (Num a) (Num b) = Num (max a b)"
  by (auto simp: py_max_def max_def)

lemma py_max_NaN [simp]: "py_max (Num a) NaN = Num a"
  by (simp add: py_max_def)

lemma round_overflow_Fin [simp]:
  "\<bar>r\<bar> < float_max_bound \<Longrightarrow> round_overflow r = Fin r"
  by (auto simp: round_overflow_def)

lemma py_mul_int_Fin_small:
  "\<bar>r * of_int k\<bar> < float_max_bound \<Longrightarrow> py_mul_int (Num (Fin r)) k = Num (Fin (r * of_int k))"
  by simp

lemma NegInf_le [simp]: "NegInf \<le> x"
  by simp

lemma le_NegInf_iff [simp]: "x \<le> NegInf \<longleftrightarrow> x = NegInf"
  by (cases x) auto

lemma less_xfloat_simps:
  "NegInf < Fin r" "NegInf < PosInf" "Fin r < PosInf" "Fin a < Fin b \<longleftrightarrow> a < b"
  "\<not> x < NegInf" "\<not> PosInf < x"
  by (auto simp: less_xfloat_def)

lemma mono_Fin: "mono Fin"
  by (simp add: mono_def)

lemma Max_insert_max_xfloat:
  "finite A \<Longrightarrow> Max (insert (max y x) A) = Max (insert y (insert x A))"
  for x y :: xfloat
  by (cases "A = {}") (simp_all add: Max_insert max.assoc)

lemma py_abs_Num [simp]: "py_abs (Num x) = Num (xabs x)"
  by (cases x) simp_all

end
