(* ===== verification/StrainReduce.thy ===== *)
theory StrainReduce
  imports PyFloat
begin

text \<open>
  The strain-extremum reduction of \<open>src/process_results.py\<close>,
  \<open>ResultProcessor.process_strain_data\<close> (lines 181-208), the one computation the
  specification describes (its ThresholdExtremumReducer).  \<open>X\<close> is a list of
  string columns: \<open>X[0]\<close> the thresholds (the C values), \<open>X[k+1]\<close> the column
  of the k-th selected A label.  For every label \<open>a\<close> the code scans the rows
  twice, keeping \<open>y1\<close>, the maximum of the values whose threshold satisfies
  \<open>c * 10 <= a\<close> (the RC result), and \<open>y2\<close>, the maximum where \<open>a <= c * 10\<close>
  (the ECC result), both starting at \<open>-inf\<close>; a cell \<open>"error"\<close> reads as
  \<open>-inf\<close>, every other cell goes through \<open>float()\<close> and may raise.  A result
  still equal to \<open>-inf\<close> is printed as \<open>"error"\<close>.

  \<open>parse_cell\<close> is line 191, \<open>lower_row\<close>/\<open>upper_row\<close> the conditions of lines
  196 and 202, \<open>scan_max\<close> one of the two loops, \<open>render\<close> lines 205-206,
  \<open>extremum\<close> one loop with its rendering, \<open>strain_rows\<close> the loop over the
  labels (lines 189-206) and \<open>process_strain_data\<close> the whole method.  The output
  cell \<open>Val y\<close> stands for the string \<open>str(y)\<close>; Python's float repr is not
  modelled.

  The abstract contract is \<open>threshold_extremum\<close>: thresholds are reals, a cell is
  \<open>Some v\<close> or the ERROR sentinel \<open>None\<close>, and a label's result is the maximum
  of its qualifying values or \<open>None\<close>.
\<close>

datatype cell = Err | Val pyfloat

definition parse_cell :: "string \<Rightarrow> py_error + pyfloat" where
  "parse_cell x = (if x \<noteq> ''error'' then float_res x else Inr (Num NegInf))"

definition lower_row :: "int \<Rightarrow> pyfloat \<Rightarrow> bool" where
  "lower_row a c \<longleftrightarrow> py_le (py_mul_int c 10) (py_int a)"

definition upper_row :: "int \<Rightarrow> pyfloat \<Rightarrow> bool" where
  "upper_row a c \<longleftrightarrow> py_le (py_int a) (py_mul_int c 10)"

fun scan_max :: "(pyfloat \<Rightarrow> bool) \<Rightarrow> pyfloat \<Rightarrow> (pyfloat \<times> pyfloat) list \<Rightarrow> pyfloat" where
  "scan_max P y [] = y"
| "scan_max P y ((c, v) # rows) = scan_max P (if P c then py_max y v else y) rows"

definition render :: "pyfloat \<Rightarrow> cell" where
  "render y = (if \<not> py_eq y (Num NegInf) then Val y else Err)"

definition extremum :: "(pyfloat \<Rightarrow> bool) \<Rightarrow> pyfloat list \<Rightarrow> pyfloat list \<Rightarrow> cell" where
  "extremum P cs vals = render (scan_max P (Num NegInf) (zip cs vals))"

fun strain_rows ::
  "string list list \<Rightarrow> pyfloat list \<Rightarrow> int list \<Rightarrow> int list \<Rightarrow> py_error + cell list \<times> cell list"
where
  "strain_rows X cs sel [] = Inr ([], [])"
| "strain_rows X cs sel (a # as) =
     rbind (py_index sel a) (\<lambda>i.
     rbind (py_get X (int (i + 1))) (\<lambda>col.
     rbind (rmap parse_cell col) (\<lambda>col_data.
     rbind (strain_rows X cs sel as) (\<lambda>(rc, ecc).
       Inr (extremum (lower_row a) cs col_data # rc, extremum (upper_row a) cs col_data # ecc)))))"

definition process_strain_data ::
  "string list list \<Rightarrow> string \<Rightarrow> int list \<Rightarrow> py_error + cell list \<times> cell list"
where
  "process_strain_data X b selected_a =
     rbind (py_get X 0) (\<lambda>x0.
     rbind (rmap float_res x0) (\<lambda>c_values.
       strain_rows X c_values selected_a selected_a))"

subsection \<open>The abstract contract\<close>

primrec somes :: "'a option list \<Rightarrow> 'a list" where
  "somes [] = []"
| "somes (vo # vos) = (case vo of None \<Rightarrow> somes vos | Some v \<Rightarrow> v # somes vos)"

definition max_opt :: "real option list \<Rightarrow> real option" where
  "max_opt vos = (case somes vos of [] \<Rightarrow> None | w # ws \<Rightarrow> Some (Max (set (w # ws))))"

definition lower_bound_spec :: "real list \<Rightarrow> real option list \<Rightarrow> int \<Rightarrow> real option" where
  "lower_bound_spec ts vs a = max_opt (map snd (filter (\<lambda>(t, vo). t * 10 \<le> of_int a) (zip ts vs)))"

definition upper_bound_spec :: "real list \<Rightarrow> real option list \<Rightarrow> int \<Rightarrow> real option" where
  "upper_bound_spec ts vs a = max_opt (map snd (filter (\<lambda>(t, vo). of_int a \<le> t * 10) (zip ts vs)))"

definition threshold_extremum ::
  "real list \<Rightarrow> (int \<times> real option list) list \<Rightarrow>
   (int \<times> real option) list \<times> (int \<times> real option) list"
where
  "threshold_extremum ts cats =
     (map (\<lambda>(a, vs). (a, lower_bound_spec ts vs a)) cats,
      map (\<lambda>(a, vs). (a, upper_bound_spec ts vs a)) cats)"

text \<open>Abstraction of the concrete strings and results.\<close>

definition finite_tenfold :: "string \<Rightarrow> bool" where
  "finite_tenfold t =
     (case py_float t of Some (Num (Fin r)) \<Rightarrow> \<bar>r * 10\<bar> < float_max_bound | _ \<Rightarrow> False)"

definition clean_cell :: "string \<Rightarrow> bool" where
  "clean_cell x = (x = ''error'' \<or> (case py_float x of Some (Num (Fin r)) \<Rightarrow> True | _ \<Rightarrow> False))"

definition abs_threshold :: "string \<Rightarrow> real" where
  "abs_threshold t = (case py_float t of Some (Num (Fin r)) \<Rightarrow> r | _ \<Rightarrow> 0)"

definition abs_cell :: "string \<Rightarrow> real option" where
  "abs_cell x =
     (if x = ''error'' then None
      else case py_float x of Some (Num (Fin r)) \<Rightarrow> Some r | _ \<Rightarrow> None)"

fun cell_of_opt :: "real option \<Rightarrow> cell" where
  "cell_of_opt None = Err"
| "cell_of_opt (Some r) = Val (Num (Fin r))"

subsection \<open>Auxiliary views used by the proofs\<close>

text \<open>
  The values a scan can pick (\<open>row_vals\<close>: the numeric values of the qualifying
  rows), the effective value of a cell (\<open>eff\<close>: \<open>NaN\<close> and \<open>-inf\<close> never
  raise a maximum above \<open>-inf\<close>), and the parsed forms of cells and thresholds
  once they are known to parse.
\<close>

definition row_vals :: "(pyfloat \<Rightarrow> bool) \<Rightarrow> (pyfloat \<times> pyfloat) list \<Rightarrow> xfloat list" where
  "row_vals P rows = concat (map (\<lambda>(c, v). case v of Num x \<Rightarrow> if P c then [x] else [] | NaN \<Rightarrow> []) rows)"

fun eff :: "pyfloat \<Rightarrow> xfloat option" where
  "eff NaN = None"
| "eff (Num x) = (if x = NegInf then None else Some x)"

definition cell_val :: "string \<Rightarrow> pyfloat" where
  "cell_val x = projr (parse_cell x)"

definition threshold_val :: "string \<Rightarrow> pyfloat" where
  "threshold_val t = projr (float_res t)"

fun opt_num :: "real option \<Rightarrow> pyfloat" where
  "opt_num None = Num NegInf"
| "opt_num (Some r) = Num (Fin r)"

fun opt_x :: "real option \<Rightarrow> xfloat" where
  "opt_x None = NegInf"
| "opt_x (Some r) = Fin r"

subsection \<open>The scans\<close>

lemma row_vals_simps [simp]:
  "row_vals P [] = []"
  "row_vals P ((c, NaN) # rows) = row_vals P rows"
  "row_vals P ((c, Num x) # rows) = (if P c then x # row_vals P rows else row_vals P rows)"
  by (simp_all add: row_vals_def)

lemma Max_insert_max:
  "finite A \<Longrightarrow> Max (insert (max y x) A) = Max (insert y (insert x A))"
  by (cases "A = {}") (simp_all add: Max_insert max.assoc)

lemma scan_max_Max:
  "scan_max P (Num y) rows = Num (Max (set (y # row_vals P rows)))"
proof (induction rows arbitrary: y)
  case Nil
  then show ?case by simp
next
  case (Cons r rows)
  obtain c v where r: "r = (c, v)" by (cases r)
  show ?case
  proof (cases v)
    case NaN
    with r Cons.IH show ?thesis by simp
  next
    case (Num x)
    with r Cons.IH show ?thesis by (simp add: Max_insert_max)
  qed
qed

lemma Max_insert_NegInf:
  "finite S \<Longrightarrow> NegInf \<notin> S \<Longrightarrow> S \<noteq> {} \<Longrightarrow> Max (insert NegInf S) = Max S"
  by (simp add: Max_insert)

lemma Max_NegInf_split:
  "finite R \<Longrightarrow> Max (insert NegInf R) = (if R - {NegInf} = {} then NegInf else Max (R - {NegInf}))"
proof -
  assume fin: "finite R"
  have ins: "insert NegInf R = insert NegInf (R - {NegInf})" by blast
  show ?thesis
  proof (cases "R - {NegInf} = {}")
    case True
    then show ?thesis by (simp only: ins) simp
  next
    case False
    with fin have "Max (insert NegInf (R - {NegInf})) = Max (R - {NegInf})"
      by (intro Max_insert_NegInf) auto
    with False show ?thesis by (simp only: ins) simp
  qed
qed

lemma Max_diff_NegInf:
  "finite S \<Longrightarrow> S - {NegInf} \<noteq> {} \<Longrightarrow> Max (S - {NegInf}) \<noteq> NegInf"
  using Max_in [of "S - {NegInf}"] by auto

lemma extremum_eq:
  "extremum P cs vals =
     (let S = set (row_vals P (zip cs vals)) - {NegInf} in if S = {} then Err else Val (Num (Max S)))"
  by (simp add: extremum_def scan_max_Max Max_NegInf_split render_def Max_diff_NegInf Let_def)

lemma strain_rows_map:
  assumes "\<forall>a \<in> set as. \<exists>i col. py_index sel a = Inr i \<and> py_get X (int (i + 1)) = Inr col
                          \<and> rmap parse_cell col = Inr (h a)"
  shows "strain_rows X cs sel as =
           Inr (map (\<lambda>a. extremum (lower_row a) cs (h a)) as, map (\<lambda>a. extremum (upper_row a) cs (h a)) as)"
  using assms by (induction as) auto

lemma parse_cell_ok:
  "\<forall>x \<in> set col. \<not> isl (parse_cell x) \<Longrightarrow> rmap parse_cell col = Inr (map cell_val col)"
  by (rule rmap_Inr_map) (auto simp: cell_val_def)

lemma strain_rows_zip:
  assumes "distinct sel" "length cols = length sel"
    and "\<forall>col \<in> set cols. \<forall>x \<in> set col. \<not> isl (parse_cell x)"
  shows "strain_rows (x0 # cols) cs sel sel =
           Inr (map (\<lambda>(a, col). extremum (lower_row a) cs (map cell_val col)) (zip sel cols),
                map (\<lambda>(a, col). extremum (upper_row a) cs (map cell_val col)) (zip sel cols))"
proof -
  define h where "h a = map cell_val (cols ! projr (py_index sel a))" for a
  have idx: "py_index sel (sel ! j) = Inr j" if "j < length sel" for j
    using assms(1) that by (rule py_index_nth)
  have "\<forall>a \<in> set sel. \<exists>i col. py_index sel a = Inr i \<and> py_get (x0 # cols) (int (i + 1)) = Inr col
                          \<and> rmap parse_cell col = Inr (h a)"
  proof
    fix a assume "a \<in> set sel"
    then obtain j where j: "j < length sel" "a = sel ! j" by (auto simp: in_set_conv_nth)
    then have "cols ! j \<in> set cols" using assms(2) by simp
    with assms(3) have "rmap parse_cell (cols ! j) = Inr (map cell_val (cols ! j))"
      by (intro parse_cell_ok) blast
    then show "\<exists>i col. py_index sel a = Inr i \<and> py_get (x0 # cols) (int (i + 1)) = Inr col
                          \<and> rmap parse_cell col = Inr (h a)"
      using j idx assms(2) by (auto simp: h_def)
  qed
  then have "strain_rows (x0 # cols) cs sel sel =
           Inr (map (\<lambda>a. extremum (lower_row a) cs (h a)) sel, map (\<lambda>a. extremum (upper_row a) cs (h a)) sel)"
    by (rule strain_rows_map)
  moreover have eq: "map (\<lambda>a. F a (h a)) sel = map (\<lambda>(a, col). F a (map cell_val col)) (zip sel cols)" for F
    using assms(2) by (intro nth_equalityI) (auto simp: h_def idx)
  ultimately show ?thesis
    using eq [of "\<lambda>a. extremum (lower_row a) cs"] eq [of "\<lambda>a. extremum (upper_row a) cs"] by simp
qed

lemma process_strain_data_ok:
  assumes "distinct sel" "length cols = length sel"
    and "\<forall>t \<in> set ts. \<not> isl (float_res t)"
    and "\<forall>col \<in> set cols. \<forall>x \<in> set col. \<not> isl (parse_cell x)"
  shows "process_strain_data (ts # cols) b sel =
           Inr (map (\<lambda>(a, col). extremum (lower_row a) (map threshold_val ts) (map cell_val col)) (zip sel cols),
                map (\<lambda>(a, col). extremum (upper_row a) (map threshold_val ts) (map cell_val col)) (zip sel cols))"
proof -
  have "rmap float_res ts = Inr (map threshold_val ts)"
    using assms(3) by (intro rmap_Inr_map) (auto simp: threshold_val_def)
  with strain_rows_zip [OF assms(1,2,4)] show ?thesis
    by (simp add: process_strain_data_def)
qed

lemma row_vals_fin:
  "\<forall>t \<in> set ts. P (Num (Fin t)) = Q t \<Longrightarrow>
   row_vals P (zip (map (Num \<circ> Fin) ts) (map opt_num vs)) = map opt_x (map snd (filter (\<lambda>(t, vo). Q t) (zip ts vs)))"
proof (induction ts arbitrary: vs)
  case Nil
  then show ?case by simp
next
  case (Cons t ts)
  note IH = Cons.IH and prems = Cons.prems
  show ?case
  proof (cases vs)
    case Nil
    then show ?thesis by simp
  next
    case (Cons vo vs')
    with IH prems show ?thesis by (cases vo) auto
  qed
qed

lemma set_opt_x_diff:
  "set (map opt_x vos) - {NegInf} = Fin ` set (somes vos)"
proof (induction vos)
  case Nil
  then show ?case by simp
next
  case (Cons vo vos)
  then show ?case by (cases vo) auto
qed

lemma extremum_fin:
  assumes "\<forall>t \<in> set ts. P (Num (Fin t)) = Q t"
  shows "extremum P (map (Num \<circ> Fin) ts) (map opt_num vs) =
           cell_of_opt (max_opt (map snd (filter (\<lambda>(t, vo). Q t) (zip ts vs))))"
proof -
  define ws where "ws = somes (map snd (filter (\<lambda>(t, vo). Q t) (zip ts vs)))"
  have S: "set (row_vals P (zip (map (Num \<circ> Fin) ts) (map opt_num vs))) - {NegInf} = Fin ` set ws"
    by (simp only: row_vals_fin [OF assms] set_opt_x_diff ws_def)
  show ?thesis
  proof (cases ws)
    case Nil
    then show ?thesis
      by (simp add: extremum_eq S Let_def max_opt_def ws_def [symmetric])
  next
    case (Cons w ws')
    have "Fin (Max (set ws)) = Max (Fin ` set ws)"
      using Cons by (intro mono_Max_commute [OF mono_Fin]) auto
    with Cons show ?thesis
      by (simp add: extremum_eq S Let_def max_opt_def ws_def [symmetric])
  qed
qed

lemma lower_row_fin:
  "\<bar>t * 10\<bar> < float_max_bound \<Longrightarrow> lower_row a (Num (Fin t)) = (t * 10 \<le> of_int a)"
  by (simp add: lower_row_def py_int_def)

lemma upper_row_fin:
  "\<bar>t * 10\<bar> < float_max_bound \<Longrightarrow> upper_row a (Num (Fin t)) = (of_int a \<le> t * 10)"
  by (simp add: upper_row_def py_int_def)

lemma finite_tenfold_val:
  "finite_tenfold t \<Longrightarrow>
   \<not> isl (float_res t) \<and> threshold_val t = Num (Fin (abs_threshold t)) \<and>
   \<bar>abs_threshold t * 10\<bar> < float_max_bound"
  by (auto simp: finite_tenfold_def float_res_def threshold_val_def abs_threshold_def
           split: option.splits pyfloat.splits xfloat.splits)

lemma clean_cell_val:
  "clean_cell x \<Longrightarrow> \<not> isl (parse_cell x) \<and> cell_val x = opt_num (abs_cell x)"
  by (auto simp: clean_cell_def parse_cell_def float_res_def cell_val_def abs_cell_def
           split: option.splits pyfloat.splits xfloat.splits)

lemma set_row_vals:
  "set (row_vals P rows) = {x. \<exists>c. (c, Num x) \<in> set rows \<and> P c}"
  by (induction rows) (auto simp: row_vals_def split: pyfloat.splits)

lemma eff_Some_iff [simp]: "eff v = Some x \<longleftrightarrow> v = Num x \<and> x \<noteq> NegInf"
  by (cases v) auto

lemma in_zip_map:
  "(c, e) \<in> set (zip cs (map h vals)) \<longleftrightarrow> (\<exists>v. (c, v) \<in> set (zip cs vals) \<and> h v = e)"
  by (auto simp: zip_map2)

lemma zip_eff_set:
  "{x. \<exists>c v. (c, v) \<in> set (zip cs vals) \<and> P c \<and> eff v = Some x} =
   {x. \<exists>c. (c, Some x) \<in> set (zip cs (map eff vals)) \<and> P c}"
  by (simp only: in_zip_map) blast

lemma extremum_eff_set:
  "extremum P cs vals =
     (let S = {x. \<exists>c. (c, Some x) \<in> set (zip cs (map eff vals)) \<and> P c}
      in if S = {} then Err else Val (Num (Max S)))"
proof -
  have "set (row_vals P (zip cs vals)) - {NegInf} =
        {x. \<exists>c v. (c, v) \<in> set (zip cs vals) \<and> P c \<and> eff v = Some x}"
    by (auto simp: set_row_vals)
  then show ?thesis
    by (simp only: extremum_eq zip_eff_set)
qed

lemma extremum_eff:
  "map eff vals = map eff vals' \<Longrightarrow> extremum P cs vals = extremum P cs vals'"
  by (simp only: extremum_eff_set)

lemma extremum_reorder:
  assumes "mset p = mset [0..<n]" "length cs = n" "length vals = n"
  shows "extremum P (reorder p cs) (reorder p vals) = extremum P cs vals"
proof -
  have b: "\<And>i. i \<in> set p \<Longrightarrow> i < n" using assms(1) by (rule reorder_perm_bound)
  have "zip (reorder p cs) (map eff (reorder p vals)) = reorder p (zip cs (map eff vals))"
    using b assms(2,3) by (simp add: map_reorder zip_reorder)
  moreover have "set (reorder p (zip cs (map eff vals))) = set (zip cs (map eff vals))"
    using assms by (intro set_reorder_perm) simp
  ultimately show ?thesis by (simp only: extremum_eff_set)
qed

lemma strain_rows_Cons_eq:
  "strain_rows X cs sel (a # as) =
     (case py_index sel a of
        Inl e \<Rightarrow> Inl e
      | Inr i \<Rightarrow>
          if Suc i < length X
          then (case rmap parse_cell (X ! Suc i) of
                  Inl e \<Rightarrow> Inl e
                | Inr vals \<Rightarrow> rbind (strain_rows X cs sel as) (\<lambda>(rc, ecc).
                    Inr (extremum (lower_row a) cs vals # rc, extremum (upper_row a) cs vals # ecc)))
          else Inl IndexError)"
  by (simp add: add.commute split: sum.split)

lemmas strain_rows_simps_eq = strain_rows.simps(1) strain_rows_Cons_eq

declare strain_rows.simps(2) [simp del]

lemma parse_cell_error: "parse_cell x = Inl e \<Longrightarrow> e = ValueError"
  by (auto simp: parse_cell_def split: if_splits)

lemma rmap_parse_cell:
  "rmap parse_cell col =
     (if \<exists>x \<in> set col. isl (parse_cell x) then Inl ValueError else Inr (map cell_val col))"
  using rmap_single_error [of parse_cell ValueError col] parse_cell_error
  by (simp add: cell_val_def comp_def)

lemma rmap_float_res:
  "rmap float_res ts =
     (if \<exists>t \<in> set ts. isl (float_res t) then Inl ValueError else Inr (map threshold_val ts))"
  using rmap_single_error [of float_res ValueError ts] float_res_error
  by (simp add: threshold_val_def comp_def)

lemma strain_rows_cong:
  assumes "list_all2 (\<lambda>col col'. map_sum id (map eff) (rmap parse_cell col) =
                                 map_sum id (map eff) (rmap parse_cell col')) X X'"
  shows "strain_rows X cs sel as = strain_rows X' cs sel as"
proof (induction as)
  case Nil
  then show ?case by simp
next
  case (Cons a as)
  have len: "length X' = length X" using assms by (simp add: list_all2_lengthD)
  show ?case
  proof (cases "py_index sel a")
    case (Inl e)
    then show ?thesis by (simp add: strain_rows_Cons_eq)
  next
    case (Inr i)
    show ?thesis
    proof (cases "Suc i < length X")
      case False
      with Inr len show ?thesis by (simp add: strain_rows_Cons_eq)
    next
      case True
      then have rel: "map_sum id (map eff) (rmap parse_cell (X ! Suc i)) =
                      map_sum id (map eff) (rmap parse_cell (X' ! Suc i))"
        using list_all2_nthD [OF assms True] by simp
      show ?thesis
      proof (cases "rmap parse_cell (X ! Suc i)")
        case (Inl e)
        with rel have "rmap parse_cell (X' ! Suc i) = Inl e"
          by (cases "rmap parse_cell (X' ! Suc i)") auto
        with Inl Inr True len show ?thesis by (simp add: strain_rows_Cons_eq)
      next
        case (Inr vals)
        with rel obtain vals' where v': "rmap parse_cell (X' ! Suc i) = Inr vals'"
            and "map eff vals = map eff vals'"
          by (cases "rmap parse_cell (X' ! Suc i)") auto
        have "extremum P cs vals = extremum P cs vals'" for P
          using \<open>map eff vals = map eff vals'\<close> by (rule extremum_eff)
        with Inr v' \<open>py_index sel a = Inr i\<close> True len Cons.IH show ?thesis
          by (simp add: strain_rows_Cons_eq)
      qed
    qed
  qed
qed

lemma cell_update_rel:
  assumes "map_sum id eff (parse_cell x) = map_sum id eff (parse_cell y)"
  shows "list_all2 (\<lambda>col col'. map_sum id (map eff) (rmap parse_cell col) =
                               map_sum id (map eff) (rmap parse_cell col'))
           (ts # cols[j := (cols ! j)[i := x]]) (ts # cols[j := (cols ! j)[i := y]])"
proof -
  have "list_all2 (\<lambda>x y. map_sum id eff (parse_cell x) = map_sum id eff (parse_cell y))
          ((cols ! j)[i := x]) ((cols ! j)[i := y])"
    using assms by (intro list_all2_update_cong list_all2_refl) auto
  then have "map_sum id (map eff) (rmap parse_cell ((cols ! j)[i := x])) =
             map_sum id (map eff) (rmap parse_cell ((cols ! j)[i := y]))"
    by (rule rmap_rel)
  then show ?thesis
    by (auto intro!: list_all2_update_cong list_all2_refl)
qed

lemma process_strain_data_cell_cong:
  assumes "map_sum id eff (parse_cell x) = map_sum id eff (parse_cell y)"
  shows "process_strain_data (ts # cols[j := (cols ! j)[i := x]]) b sel =
         process_strain_data (ts # cols[j := (cols ! j)[i := y]]) b sel"
  using strain_rows_cong [OF cell_update_rel [OF assms]]
  by (simp add: process_strain_data_def)

lemma strain_rows_reorder:
  assumes "mset p = mset [0..<n]" "length cs = n" "\<forall>col \<in> set X. length col = n"
  shows "strain_rows (map (reorder p) X) (reorder p cs) sel as = strain_rows X cs sel as"
proof (induction as)
  case Nil
  then show ?case by simp
next
  case (Cons a as)
  have b: "\<And>i. i \<in> set p \<Longrightarrow> i < n" using assms(1) by (rule reorder_perm_bound)
  show ?case
  proof (cases "py_index sel a")
    case (Inl e)
    then show ?thesis by (simp add: strain_rows_Cons_eq)
  next
    case (Inr i)
    show ?thesis
    proof (cases "Suc i < length X")
      case False
      with Inr show ?thesis by (simp add: strain_rows_Cons_eq)
    next
      case True
      let ?col = "X ! Suc i"
      have len: "length ?col = n" using assms(3) True by simp
      have set_eq: "set (reorder p ?col) = set ?col"
        using assms(1) len by (intro set_reorder_perm) simp
      have vals: "map cell_val (reorder p ?col) = reorder p (map cell_val ?col)"
        using b len by (simp add: map_reorder)
      have ext: "extremum P (reorder p cs) (reorder p (map cell_val ?col)) = extremum P cs (map cell_val ?col)" for P
        using assms(1,2) len by (intro extremum_reorder) simp_all
      show ?thesis
        using Inr True set_eq vals ext Cons.IH
        by (simp add: strain_rows_Cons_eq rmap_parse_cell)
    qed
  qed
qed

lemma strain_rows_length:
  "strain_rows X cs sel as = Inr (rc, ecc) \<Longrightarrow> length rc = length as \<and> length ecc = length as"
proof (induction as arbitrary: rc ecc)
  case Nil
  then show ?case by simp
next
  case (Cons a as)
  then show ?case
    by (auto simp: strain_rows_Cons_eq rbind_eq_Inr_iff split: sum.splits if_splits)
qed

lemma strain_rows_value_error:
  assumes "set as \<subseteq> set sel" "length X = Suc (length sel)"
    and "a0 \<in> set as" "\<exists>x \<in> set (X ! Suc (projr (py_index sel a0))). isl (parse_cell x)"
  shows "strain_rows X cs sel as = Inl ValueError"
  using assms(1,3)
proof (induction as)
  case Nil
  then show ?case by simp
next
  case (Cons a as)
  obtain i where i: "py_index sel a = Inr i" "i < length sel"
    using py_index_in Cons.prems(1) by fastforce
  show ?case
  proof (cases "\<exists>x \<in> set (X ! Suc i). isl (parse_cell x)")
    case True
    with i assms(2) show ?thesis by (simp add: strain_rows_Cons_eq rmap_parse_cell)
  next
    case False
    with i assms(4) Cons.prems have "a0 \<in> set as" by auto
    with Cons.IH Cons.prems have "strain_rows X cs sel as = Inl ValueError" by simp
    with False i assms(2) show ?thesis by (simp add: strain_rows_Cons_eq rmap_parse_cell)
  qed
qed

lemma extremum_all_error:
  "extremum P cs (replicate n (Num NegInf)) = Err"
  by (auto simp: extremum_eff_set Let_def dest: set_zip_rightD)

lemma py_float_error_word [simp]: "py_float ''error'' = None"
  by (simp add: py_eval)

lemma parse_cell_nonfinite:
  "py_float x \<in> {Some NaN, Some (Num NegInf)} \<Longrightarrow>
   map_sum id eff (parse_cell x) = map_sum id eff (parse_cell ''error'')"
  by (cases "x = ''error''") (auto simp: parse_cell_def float_res_def)

lemma extremum_single:
  "\<bar>r * 10\<bar> < float_max_bound \<Longrightarrow>
   extremum P [Num (Fin r)] [Num (Fin x)] = (if P (Num (Fin r)) then Val (Num (Fin x)) else Err)"
  by (simp add: extremum_eq row_vals_def)

subsection \<open>Properties\<close>

text \<open>
  C1 (refinement).  On well-formed input (distinct labels, one column per label,
  every threshold a finite float whose tenfold is finite, every cell a finite float
  or \<open>"error"\<close>), \<open>process_strain_data\<close> computes exactly the abstract
  contract \<open>threshold_extremum\<close> of the specification: for each label, in the
  order given, the RC result is the maximum of the values on rows with
  \<open>c * 10 <= a\<close> and the ECC result the maximum on rows with \<open>a <= c * 10\<close>,
  \<open>"error"\<close> where no non-error value qualifies.
\<close>

theorem process_strain_data_refines:
  assumes "distinct sel" "length cols = length sel"
    and "\<forall>t \<in> set ts. finite_tenfold t"
    and "\<forall>col \<in> set cols. \<forall>x \<in> set col. clean_cell x"
  shows "process_strain_data (ts # cols) b sel =
           (let R = threshold_extremum (map abs_threshold ts) (zip sel (map (map abs_cell) cols))
            in Inr (map (cell_of_opt \<circ> snd) (fst R), map (cell_of_opt \<circ> snd) (snd R)))"
proof -
  let ?ts = "map abs_threshold ts"
  have tv: "map threshold_val ts = map (Num \<circ> Fin) ?ts"
    using assms(3) finite_tenfold_val by simp
  have cv: "map cell_val col = map opt_num (map abs_cell col)" if "col \<in> set cols" for col
    using assms(4) that clean_cell_val by simp
  have bnd: "\<forall>t \<in> set ?ts. \<bar>t * 10\<bar> < float_max_bound"
    using assms(3) finite_tenfold_val by auto
  have lo: "extremum (lower_row a) (map threshold_val ts) (map cell_val col) =
              cell_of_opt (lower_bound_spec ?ts (map abs_cell col) a)" if "col \<in> set cols" for a col
    unfolding tv cv [OF that] lower_bound_spec_def
    using bnd lower_row_fin by (intro extremum_fin) auto
  have up: "extremum (upper_row a) (map threshold_val ts) (map cell_val col) =
              cell_of_opt (upper_bound_spec ?ts (map abs_cell col) a)" if "col \<in> set cols" for a col
    unfolding tv cv [OF that] upper_bound_spec_def
    using bnd upper_row_fin by (intro extremum_fin) auto
  have ok: "process_strain_data (ts # cols) b sel =
           Inr (map (\<lambda>(a, col). extremum (lower_row a) (map threshold_val ts) (map cell_val col)) (zip sel cols),
                map (\<lambda>(a, col). extremum (upper_row a) (map threshold_val ts) (map cell_val col)) (zip sel cols))"
    using assms finite_tenfold_val clean_cell_val by (intro process_strain_data_ok) auto
  show ?thesis
    unfolding ok threshold_extremum_def Let_def
    by (auto simp: zip_map2 lo up dest: set_zip_rightD)
qed
theorem process_strain_data_refines_witness:
  "finite_tenfold ''-18.8'' \<and> clean_cell ''error'' \<and>
   process_strain_data [[''-31'', ''-18.8'', ''0'', ''10''], [''1.0'', ''2.0'', ''error'', ''4.0'']] ''0.1g'' [20] =
     Inr ([Val (Num (Fin 2))], [Val (Num (Fin 4))])"
proof -
  have h1: "\<forall>t \<in> set [''-31'', ''-18.8'', ''0'', ''10'']. finite_tenfold t"
    by (simp add: finite_tenfold_def py_eval)
  have h2: "\<forall>col \<in> set [[''1.0'', ''2.0'', ''error'', ''4.0'']]. \<forall>x \<in> set col. clean_cell x"
    by (simp add: clean_cell_def py_eval)
  have "process_strain_data [[''-31'', ''-18.8'', ''0'', ''10''], [''1.0'', ''2.0'', ''error'', ''4.0'']] ''0.1g'' [20] =
     Inr ([Val (Num (Fin 2))], [Val (Num (Fin 4))])"
    using process_strain_data_refines [of "[20]" "[[''1.0'', ''2.0'', ''error'', ''4.0'']]"
            "[''-31'', ''-18.8'', ''0'', ''10'']" "''0.1g''", OF _ _ h1 h2]
    by (simp add: threshold_extremum_def lower_bound_spec_def upper_bound_spec_def max_opt_def
                  abs_threshold_def abs_cell_def py_eval)
  with h1 h2 show ?thesis by simp
qed

text \<open>
  C2 (equivalence).  Reordering the rows consistently in the threshold column and
  in every label column (reading all of them through the same permutation \<open>p\<close>
  of the row indices) does not change what \<open>process_strain_data\<close> returns or
  raises, when no label cell is a zero: the reduction is then order-independent, as
  the specification requires.  The zeros are excluded because Python keeps the sign
  of a zero and \<open>max\<close> keeps the first of \<open>-0.0\<close> and \<open>0.0\<close>, which compare
  equal but print differently; the model has one zero (see \<open>PyFloat\<close>), so on
  columns holding zeros it would hide this order dependence.
\<close>

theorem process_strain_data_reorder:
  assumes "mset p = mset [0..<n]" "\<forall>col \<in> set X. length col = n"
    and "\<forall>col \<in> set (tl X). \<forall>x \<in> set col. py_float x \<noteq> Some (Num (Fin 0))"
  shows "process_strain_data (map (reorder p) X) b sel = process_strain_data X b sel"
proof (cases X)
  case Nil
  then show ?thesis by (simp add: process_strain_data_def py_get_def)
next
  case (Cons ts cols)
  have bnd: "\<And>i. i \<in> set p \<Longrightarrow> i < n" using assms(1) by (rule reorder_perm_bound)
  have lts: "length ts = n" using assms(2) Cons by simp
  have set_ts: "set (reorder p ts) = set ts"
    using assms(1) lts by (intro set_reorder_perm) simp
  have map_ts: "map threshold_val (reorder p ts) = reorder p (map threshold_val ts)"
    using bnd lts by (simp add: map_reorder)
  have rows: "strain_rows (map (reorder p) X) (reorder p (map threshold_val ts)) sel sel =
              strain_rows X (map threshold_val ts) sel sel"
    by (rule strain_rows_reorder [OF assms(1) _ assms(2)]) (simp add: lts)
  show ?thesis
    using Cons set_ts map_ts rows by (simp add: process_strain_data_def rmap_float_res)
qed

theorem process_strain_data_reorder_witness:
  "mset [1 :: nat, 0] = mset [0..<2] \<and>
   process_strain_data [[''10'', ''0''], [''error'', ''1.5'']] ''0.1g'' [100] =
   process_strain_data [[''0'', ''10''], [''1.5'', ''error'']] ''0.1g'' [100]"
proof -
  have h1: "mset [1 :: nat, 0] = mset [0..<2]" by (simp add: upt_rec)
  have h2: "\<forall>col \<in> set [[''0'', ''10''], [''1.5'', ''error'']]. length col = 2" by simp
  have h3: "\<forall>col \<in> set (tl [[''0'', ''10''], [''1.5'', ''error'']]). \<forall>x \<in> set col. py_float x \<noteq> Some (Num (Fin 0))"
    by (simp add: py_eval)
  have "map (reorder [1, 0]) [[''0'', ''10''], [''1.5'', ''error'']] = [[''10'', ''0''], [''error'', ''1.5'']]"
    by (simp add: reorder_def)
  then show ?thesis
    using h1 h2 process_strain_data_reorder [OF h1 h2 h3, of "''0.1g''" "[100]"] by simp
qed

text \<open>
  C3 (functional).  When every cell of every label column is \<open>"error"\<close> (and the
  thresholds parse), both results of every label are \<open>"error"\<close>: the error
  sentinel never takes part in a maximum.
\<close>

theorem process_strain_data_all_error:
  assumes "length cols = length sel" "\<forall>t \<in> set ts. \<not> isl (float_res t)"
    and "\<forall>col \<in> set cols. \<forall>x \<in> set col. x = ''error''"
  shows "process_strain_data (ts # cols) b sel = Inr (replicate (length sel) Err, replicate (length sel) Err)"
proof -
  define h where "h a = map (\<lambda>_. Num NegInf) (cols ! projr (py_index sel a))" for a
  have "\<forall>a \<in> set sel. \<exists>i col. py_index sel a = Inr i \<and> py_get (ts # cols) (int (i + 1)) = Inr col
                          \<and> rmap parse_cell col = Inr (h a)"
  proof
    fix a assume "a \<in> set sel"
    then obtain i where i: "py_index sel a = Inr i" "i < length sel" using py_index_in [of a sel] by blast
    then have "cols ! i \<in> set cols" using assms(1) by simp
    then have "rmap parse_cell (cols ! i) = Inr (map (\<lambda>_. Num NegInf) (cols ! i))"
      using assms(3) by (intro rmap_Inr_map) (auto simp: parse_cell_def)
    with i assms(1) show "\<exists>i col. py_index sel a = Inr i \<and> py_get (ts # cols) (int (i + 1)) = Inr col
                          \<and> rmap parse_cell col = Inr (h a)"
      by (intro exI [of _ i] exI [of _ "cols ! i"]) (simp add: h_def)
  qed
  then have "strain_rows (ts # cols) (map threshold_val ts) sel sel =
      Inr (map (\<lambda>a. extremum (lower_row a) (map threshold_val ts) (h a)) sel,
           map (\<lambda>a. extremum (upper_row a) (map threshold_val ts) (h a)) sel)"
    by (rule strain_rows_map)
  moreover have "map (\<lambda>a. extremum (P a) cs (h a)) sel = replicate (length sel) Err" for P cs
    by (simp add: h_def extremum_all_error map_replicate_const)
  ultimately show ?thesis
    using assms(2) by (simp add: process_strain_data_def rmap_float_res)
qed

theorem process_strain_data_all_error_witness:
  "\<not> isl (float_res ''5'') \<and>
   process_strain_data [[''5''], [''error'']] ''0.1g'' [50] = Inr ([Err], [Err])"
proof -
  have h: "\<forall>t \<in> set [''5'']. \<not> isl (float_res t)" by (simp add: py_eval)
  then show ?thesis
    using process_strain_data_all_error [of "[[''error'']]" "[50]" "[''5'']" "''0.1g''"] by simp
qed

text \<open>
  C4 (error).  With distinct labels and one column per label, a threshold that
  \<open>float()\<close> rejects, or a label cell that is neither \<open>"error"\<close> nor a float,
  makes \<open>process_strain_data\<close> raise \<open>ValueError\<close> (which \<open>generate_output\<close>
  catches and reports); no partial result is returned.
\<close>

theorem process_strain_data_value_error:
  assumes "distinct sel" "length cols = length sel"
    and "(\<exists>t \<in> set ts. py_float t = None) \<or>
         (\<exists>col \<in> set cols. \<exists>x \<in> set col. x \<noteq> ''error'' \<and> py_float x = None)"
  shows "process_strain_data (ts # cols) b sel = Inl ValueError"
proof (cases "\<exists>t \<in> set ts. isl (float_res t)")
  case True
  then show ?thesis by (simp add: process_strain_data_def rmap_float_res)
next
  case False
  with assms(3) obtain col x where col: "col \<in> set cols" "x \<in> set col" "x \<noteq> ''error''" "py_float x = None"
    by (auto simp: float_res_def)
  then obtain k where k: "k < length sel" "col = cols ! k"
    using assms(2) by (metis in_set_conv_nth)
  have idx: "py_index sel (sel ! k) = Inr k" using assms(1) k(1) by (rule py_index_nth)
  have bad: "isl (parse_cell x)" using col by (simp add: parse_cell_def float_res_def)
  have "strain_rows (ts # cols) (map threshold_val ts) sel sel = Inl ValueError"
  proof (rule strain_rows_value_error)
    show "set sel \<subseteq> set sel" by simp
    show "length (ts # cols) = Suc (length sel)" using assms(2) by simp
    show "sel ! k \<in> set sel" using k(1) by simp
    show "\<exists>x \<in> set ((ts # cols) ! Suc (projr (py_index sel (sel ! k)))). isl (parse_cell x)"
      using idx k col(2) bad by auto
  qed
  with False show ?thesis by (simp add: process_strain_data_def rmap_float_res)
qed

theorem process_strain_data_value_error_witness:
  "py_float ''abc'' = None \<and>
   process_strain_data [[''5''], [''abc'']] ''0.1g'' [50] = Inl ValueError"
proof -
  have abc: "py_float ''abc'' = None" by (simp add: py_eval)
  then have h: "(\<exists>t \<in> set [''5'']. py_float t = None) \<or>
    (\<exists>col \<in> set [[''abc'']]. \<exists>x \<in> set col. x \<noteq> ''error'' \<and> py_float x = None)"
    by simp
  then show ?thesis
    using abc process_strain_data_value_error [of "[50]" "[[''abc'']]" "[''5'']" "''0.1g''", OF _ _ h] by simp
qed

text \<open>
  C5 (functional).  A cell that \<open>float()\<close> reads as NaN (\<open>"nan"\<close>, \<open>"-NaN"\<close>, ...)
  is treated exactly like an \<open>"error"\<close> cell: \<open>max(y, nan)\<close> keeps \<open>y\<close>, so a
  NaN never enters a result.  The specification does not say what such a cell
  does.
\<close>

theorem nan_cell_as_error:
  assumes "py_float x = Some NaN"
  shows "process_strain_data (ts # cols[j := (cols ! j)[i := x]]) b sel =
         process_strain_data (ts # cols[j := (cols ! j)[i := ''error'']]) b sel"
  using assms by (intro process_strain_data_cell_cong parse_cell_nonfinite) simp

theorem nan_cell_as_error_witness:
  "py_float ''nan'' = Some NaN \<and>
   process_strain_data [[''0'', ''1''], [''nan'', ''2.5'']] ''0.1g'' [10] =
   process_strain_data [[''0'', ''1''], [''error'', ''2.5'']] ''0.1g'' [10]"
proof -
  have h: "py_float ''nan'' = Some NaN" by (simp add: py_eval)
  then show ?thesis
    using nan_cell_as_error [OF h, of "[''0'', ''1'']" "[[''error'', ''2.5'']]" 0 0 "''0.1g''" "[10]"] by simp
qed

text \<open>
  C6 (functional).  A cell that \<open>float()\<close> reads as \<open>-inf\<close> (\<open>"-inf"\<close>, or a
  literal that overflows such as \<open>"-1e400"\<close>) is indistinguishable from an
  \<open>"error"\<close> cell, although the specification calls the ERROR sentinel distinct
  from every float.
\<close>

theorem neginf_cell_as_error:
  assumes "py_float x = Some (Num NegInf)"
  shows "process_strain_data (ts # cols[j := (cols ! j)[i := x]]) b sel =
         process_strain_data (ts # cols[j := (cols ! j)[i := ''error'']]) b sel"
  using assms by (intro process_strain_data_cell_cong parse_cell_nonfinite) simp

theorem neginf_cell_as_error_witness:
  "py_float ''-inf'' = Some (Num NegInf) \<and>
   process_strain_data [[''0'', ''1''], [''-inf'', ''2.5'']] ''0.1g'' [10] =
   process_strain_data [[''0'', ''1''], [''error'', ''2.5'']] ''0.1g'' [10]"
proof -
  have h: "py_float ''-inf'' = Some (Num NegInf)" by (simp add: py_eval)
  then show ?thesis
    using neginf_cell_as_error [OF h, of "[''0'', ''1'']" "[[''error'', ''2.5'']]" 0 0 "''0.1g''" "[10]"] by simp
qed

text \<open>
  C7 (type).  A successful run returns one RC and one ECC result per selected
  label, in the order of the labels, which \<open>generate_function2_output\<close> relies
  on when it indexes both lists with the label's position.
\<close>

theorem process_strain_data_length:
  "process_strain_data X b sel = Inr (rc, ecc) \<Longrightarrow> length rc = length sel \<and> length ecc = length sel"
  by (auto simp: process_strain_data_def rbind_eq_Inr_iff dest: strain_rows_length)

theorem process_strain_data_length_witness:
  "process_strain_data [[''5''], [''1'']] ''0.1g'' [50] = Inr ([Val (Num (Fin 1))], [Val (Num (Fin 1))]) \<and>
   length [Val (Num (Fin 1))] = length [50 :: int] \<and> length [Val (Num (Fin 1))] = length [50 :: int]"
proof -
  have h: "process_strain_data [[''5''], [''1'']] ''0.1g'' [50] = Inr ([Val (Num (Fin 1))], [Val (Num (Fin 1))])"
    by (simp add: process_strain_data_def strain_rows_Cons_eq parse_cell_def lower_row_def upper_row_def
                  extremum_def render_def less_xfloat_simps py_eval)
  then show ?thesis using process_strain_data_length [OF h] by simp
qed

end
