(* ===== verification/PyIO.thy ===== *)
theory PyIO
  imports PyFloat
begin

text \<open>
  Files, paths and integers as the scripts use them.  A file system is a record of
  the readable files (path to text content) and of the paths that \<open>open(p, 'w')\<close>
  may create or truncate; \<open>write_file\<close> is what a file holds after it was opened
  for writing and closed.  Directories are not modelled: a path is a string, and
  \<open>py_basename\<close>, \<open>py_splitext_root\<close> and \<open>py_path_join\<close> are
  \<open>os.path.basename\<close>, \<open>os.path.splitext(p)[0]\<close> and \<open>os.path.join\<close> of POSIX
  Python.  \<open>first_line\<close> is \<open>f.readline()\<close> on a fresh file.  \<open>int_res\<close> is
  \<open>int(s)\<close> on a string (whitespace, sign, decimal digits with single underscores,
  otherwise \<open>ValueError\<close>) and \<open>int_str\<close> is \<open>str(n)\<close> for an \<open>int\<close>.
\<close>

type_synonym path = string

record fsys =
  fs_files :: "path \<rightharpoonup> string"
  fs_writable :: "path \<Rightarrow> bool"

definition write_file :: "fsys \<Rightarrow> path \<Rightarrow> string \<Rightarrow> fsys" where
  "write_file fs p c = fs\<lparr>fs_files := (fs_files fs)(p \<mapsto> c)\<rparr>"

definition last_idx :: "char \<Rightarrow> string \<Rightarrow> nat option" where
  "last_idx c s = (case filter (\<lambda>i. s ! i = c) [0..<length s] of [] \<Rightarrow> None | is \<Rightarrow> Some (last is))"

definition py_basename :: "path \<Rightarrow> string" where
  "py_basename p = (case last_idx CHR ''/'' p of None \<Rightarrow> p | Some i \<Rightarrow> drop (Suc i) p)"

definition py_splitext_root :: "path \<Rightarrow> string" where
  "py_splitext_root p =
     (case last_idx CHR ''.'' p of
        None \<Rightarrow> p
      | Some d \<Rightarrow>
          let s = (case last_idx CHR ''/'' p of None \<Rightarrow> 0 | Some i \<Rightarrow> Suc i)
          in if s \<le> d \<and> list_ex (\<lambda>c. c \<noteq> CHR ''.'') (take (d - s) (drop s p)) then take d p else p)"

definition py_path_join :: "path \<Rightarrow> string \<Rightarrow> path" where
  "py_path_join a b =
     (if b \<noteq> [] \<and> hd b = CHR ''/'' then b
      else if a = [] \<or> last a = CHR ''/'' then a @ b else a @ ''/'' @ b)"

definition first_line :: "string \<Rightarrow> string" where
  "first_line c = (case py_readlines c of [] \<Rightarrow> [] | l # _ \<Rightarrow> l)"

definition int_res :: "string \<Rightarrow> py_error + int" where
  "int_res s =
     (let (sg, b) = parse_sign (py_strip s); (ds, r) = digits b
      in if ds \<noteq> [] \<and> r = [] then Inr (sg * int (nat_of_digits ds)) else Inl ValueError)"

definition digit_char :: "nat \<Rightarrow> char" where
  "digit_char d = ''0123456789'' ! d"

fun nat_str :: "nat \<Rightarrow> string" where
  "nat_str n = (if n < 10 then [digit_char n] else nat_str (n div 10) @ [digit_char (n mod 10)])"

definition int_str :: "int \<Rightarrow> string" where
  "int_str i = (if i < 0 then CHR ''-'' # nat_str (nat (- i)) else nat_str (nat i))"

declare nat_str.simps [simp del]

lemmas py_io_defs [py_eval] =
  write_file_def last_idx_def py_basename_def py_splitext_root_def py_path_join_def
  first_line_def int_res_def int_str_def nat_str.simps digit_char_def

lemma fs_files_write_file [simp]:
  "fs_files (write_file fs p c) = (fs_files fs)(p \<mapsto> c)"
  by (simp add: write_file_def)

lemma fs_writable_write_file [simp]:
  "fs_writable (write_file fs p c) = fs_writable fs"
  by (simp add: write_file_def)

lemma write_file_twice [simp]:
  "write_file (write_file fs p c) p d = write_file fs p d"
  by (simp add: write_file_def)

lemma int_res_error: "int_res s = Inl e \<Longrightarrow> e = ValueError"
  by (auto simp: int_res_def split: prod.splits if_splits)

lemma nat_str_digit: "n < 10 \<Longrightarrow> nat_str n = [digit_char n]"
  by (simp add: nat_str.simps)

lemma nat_str_no_break: "LF \<notin> set (nat_str n) \<and> CR \<notin> set (nat_str n)"
proof (induction n rule: nat_str.induct)
  case (1 n)
  have d: "d < 10 \<Longrightarrow> digit_char d \<noteq> LF \<and> digit_char d \<noteq> CR" for d :: nat
    by (auto simp: digit_char_def less_Suc_eq numeral_eq_Suc)
  show ?case
  proof (cases "n < 10")
    case True
    then show ?thesis using d [OF True] by (auto simp: nat_str_digit)
  next
    case False
    then show ?thesis using "1.IH" d [of "n mod 10"] by (auto simp: nat_str.simps [of n])
  qed
qed

end
