(* ===== verification/ColumnExtractor.thy ===== *)
theory ColumnExtractor
  imports PyIO
begin

text \<open>
  \<open>src/column_extractor.py\<close>.  \<open>extract_column\<close> (lines 6-21) copies column
  \<open>column_num\<close> (counted from 1) of every non-blank line of the input file to the
  output file, one value per line, \<open>"error"\<close> for a line with too few fields; it
  returns \<open>False\<close> when an exception is raised (the message box is not
  modelled) and \<open>True\<close> otherwise.  Both files are opened before the first line is
  read, so the output is truncated first; the model threads the file system through
  the call in that order.  A raising \<open>columns[column_index]\<close> (only possible for a
  column number below 1) leaves the lines written so far in the output.

  \<open>validate_column\<close> is the check of the GUI entry (lines 37-45),
  \<open>output_name\<close> the generated file name (line 88), \<open>batch_file\<close> one iteration of
  the batch loop of \<open>on_confirm\<close> (lines 76-104) over the counters and messages,
  with the overwrite question answered by the oracle \<open>overwrite\<close>, \<open>batch_run\<close>
  the loop, \<open>on_confirm\<close> the whole handler after the dialogs (lines 47-113), and
  \<open>cli_main\<close> the command-line branch of the main block (lines 120-131).
\<close>

definition extract_line :: "int \<Rightarrow> string \<Rightarrow> py_error + string option" where
  "extract_line column_num line =
     (let l = py_strip line
      in if l = [] then Inr None
         else let columns = py_split l
              in if column_num \<le> int (length columns)
                 then map_sum id Some (py_get columns (column_num - 1))
                 else Inr (Some ''error''))"

fun extract_lines :: "int \<Rightarrow> string list \<Rightarrow> string \<times> bool" where
  "extract_lines k [] = ([], True)"
| "extract_lines k (l # ls) =
     (case extract_line k l of
        Inl _ \<Rightarrow> ([], False)
      | Inr None \<Rightarrow> extract_lines k ls
      | Inr (Some w) \<Rightarrow> (let (out, ok) = extract_lines k ls in (w @ [LF] @ out, ok)))"

definition extract_column :: "fsys \<Rightarrow> path \<Rightarrow> path \<Rightarrow> int \<Rightarrow> fsys \<times> bool" where
  "extract_column fs input_file output_file column_num =
     (case fs_files fs input_file of
        None \<Rightarrow> (fs, False)
      | Some _ \<Rightarrow>
          if \<not> fs_writable fs output_file then (fs, False)
          else
            let fs1 = write_file fs output_file []
            in case fs_files fs1 input_file of
                 None \<Rightarrow> (fs1, False)
               | Some content \<Rightarrow>
                   let (out, ok) = extract_lines column_num (py_readlines content)
                   in (write_file fs1 output_file out, ok))"

definition validate_column :: "string \<Rightarrow> int option" where
  "validate_column entry =
     (case int_res entry of Inl _ \<Rightarrow> None | Inr n \<Rightarrow> if n < 1 then None else Some n)"

datatype batch_msg = MaxColumns string nat | ProcessFailed string | Raised string

record batch =
  b_fs :: fsys
  b_success :: nat
  b_errors :: nat
  b_messages :: "batch_msg list"

definition output_name :: "path \<Rightarrow> int \<Rightarrow> string" where
  "output_name input_file column_num =
     py_splitext_root (py_basename input_file) @ ''_column_'' @ int_str column_num @ ''.txt''"

definition batch_error :: "batch_msg \<Rightarrow> batch \<Rightarrow> batch" where
  "batch_error m st = st\<lparr>b_errors := Suc (b_errors st), b_messages := b_messages st @ [m]\<rparr>"

definition batch_file :: "int \<Rightarrow> path \<Rightarrow> (path \<Rightarrow> bool) \<Rightarrow> batch \<Rightarrow> path \<Rightarrow> batch" where
  "batch_file column_num output_dir overwrite st input_file =
     (let name = py_basename input_file; fs = b_fs st
      in case fs_files fs input_file of
           None \<Rightarrow> batch_error (Raised name) st
         | Some c \<Rightarrow>
             let first = py_strip (first_line c);
                 max_columns = (if first = [] then 0 else length (py_split first))
             in if int max_columns < column_num then batch_error (MaxColumns name max_columns) st
                else
                  let out = py_path_join output_dir (output_name input_file column_num)
                  in if fs_files fs out \<noteq> None \<and> \<not> overwrite out then st
                     else (case extract_column fs input_file out column_num of
                             (fs', True) \<Rightarrow> st\<lparr>b_fs := fs', b_success := Suc (b_success st)\<rparr>
                           | (fs', False) \<Rightarrow> batch_error (ProcessFailed name) (st\<lparr>b_fs := fs'\<rparr>)))"

definition batch_run :: "int \<Rightarrow> path \<Rightarrow> (path \<Rightarrow> bool) \<Rightarrow> fsys \<Rightarrow> path list \<Rightarrow> batch" where
  "batch_run column_num output_dir overwrite fs input_files =
     foldl (batch_file column_num output_dir overwrite)
       \<lparr>b_fs = fs, b_success = 0, b_errors = 0, b_messages = []\<rparr> input_files"

definition on_confirm ::
  "string \<Rightarrow> path list \<Rightarrow> path \<Rightarrow> (path \<Rightarrow> bool) \<Rightarrow> fsys \<Rightarrow> batch option"
where
  "on_confirm entry input_files output_dir overwrite fs =
     (case validate_column entry of
        None \<Rightarrow> None
      | Some column_num \<Rightarrow>
          if input_files = [] \<or> output_dir = [] then None
          else Some (batch_run column_num output_dir overwrite fs input_files))"

definition cli_main :: "string list \<Rightarrow> fsys \<Rightarrow> (fsys \<times> int) option" where
  "cli_main argv fs =
     (if length argv = 4
      then (case int_res (argv ! 1) of
              Inl _ \<Rightarrow> Some (fs, 1)
            | Inr column_num \<Rightarrow>
                if column_num < 1 then Some (fs, 1)
                else Some (fst (extract_column fs (argv ! 2) (argv ! 3) column_num), 0))
      else None)"

text \<open>
  \<open>gui_mode\<close> (lines 23-35, 116-117): a hidden root window, a dialog with an entry
  holding \<open>"2"\<close> and a confirm button, and \<open>mainloop\<close>.  Each click on the button
  runs \<open>on_confirm\<close> on the entry's text at that moment; an invalid number shows an
  error box and leaves the dialog open, with its text, for the next click.  The user's
  edits before each click are the functions \<open>edits\<close>; when they run out the user has
  closed the dialog.  Only a completed batch ends the process (\<open>root.destroy()\<close>
  and \<open>os._exit(0)\<close>, lines 112-113): otherwise the hidden root window keeps
  \<open>mainloop\<close> running with no window shown.
\<close>

definition entry_default :: string where
  "entry_default = ''2''"

fun gui_clicks :: "string \<Rightarrow> (string \<Rightarrow> string) list \<Rightarrow> nat \<Rightarrow> (string \<times> nat) option" where
  "gui_clicks entry [] n = None"
| "gui_clicks entry (ed # eds) n =
     (let e = ed entry in case validate_column e of None \<Rightarrow> gui_clicks e eds (Suc n) | Some _ \<Rightarrow> Some (e, n))"

datatype gui_outcome = GuiHangs fsys | GuiDone nat batch

definition gui_mode ::
  "(string \<Rightarrow> string) list \<Rightarrow> path list \<Rightarrow> path \<Rightarrow> (path \<Rightarrow> bool) \<Rightarrow> fsys \<Rightarrow> gui_outcome"
where
  "gui_mode edits input_files output_dir overwrite fs =
     (case gui_clicks entry_default edits 0 of
        None \<Rightarrow> GuiHangs fs
      | Some (entry, n) \<Rightarrow>
          (case on_confirm entry input_files output_dir overwrite fs of
             None \<Rightarrow> GuiHangs fs
           | Some b \<Rightarrow> GuiDone n b))"

datatype column_run = CliExit fsys int | GuiRun gui_outcome

definition column_main ::
  "string list \<Rightarrow> (string \<Rightarrow> string) list \<Rightarrow> path list \<Rightarrow> path \<Rightarrow> (path \<Rightarrow> bool) \<Rightarrow> fsys \<Rightarrow> column_run"
where
  "column_main argv edits input_files output_dir overwrite fs =
     (case cli_main argv fs of
        Some (fs', code) \<Rightarrow> CliExit fs' code
      | None \<Rightarrow> GuiRun (gui_mode edits input_files output_dir overwrite fs))"

subsection \<open>The specification side\<close>

text \<open>What a line becomes, for a column number of at least 1.\<close>

definition column_or_error :: "int \<Rightarrow> string \<Rightarrow> string" where
  "column_or_error k l = (let ws = py_split l in if k \<le> int (length ws) then ws ! (nat k - 1) else ''error'')"

definition extracted :: "int \<Rightarrow> string list \<Rightarrow> string" where
  "extracted k ls = concat (map (\<lambda>l. column_or_error k l @ [LF]) (filter (\<lambda>l. py_strip l \<noteq> []) ls))"

definition batch_inv :: "batch \<Rightarrow> bool" where
  "batch_inv st \<longleftrightarrow> length (b_messages st) = b_errors st"

subsection \<open>Lemmas\<close>

lemma extract_line_pos:
  "1 \<le> k \<Longrightarrow> extract_line k l = Inr (if py_strip l = [] then None else Some (column_or_error k l))"
  by (auto simp: extract_line_def column_or_error_def Let_def py_get_nonneg nat_diff_distrib)

lemma extract_lines_pos:
  "1 \<le> k \<Longrightarrow> extract_lines k ls = (extracted k ls, True)"
  by (induction ls) (auto simp: extract_line_pos extracted_def)

lemma extract_column_unreadable:
  "fs_files fs inp = None \<Longrightarrow> extract_column fs inp out k = (fs, False)"
  by (simp add: extract_column_def)

lemma extract_column_readable:
  "fs_files fs inp = Some c \<Longrightarrow> fs_writable fs out \<Longrightarrow> inp \<noteq> out \<Longrightarrow>
   extract_column fs inp out k =
     (let (w, ok) = extract_lines k (py_readlines c) in (write_file fs out w, ok))"
  by (simp add: extract_column_def split: prod.split)

lemma batch_error_inv: "batch_inv st \<Longrightarrow> batch_inv (batch_error m st)"
  by (simp add: batch_inv_def batch_error_def)

lemma batch_file_inv:
  "batch_inv st \<Longrightarrow> batch_inv (batch_file k d ow st p)"
  by (auto simp: batch_file_def Let_def batch_error_inv batch_inv_def batch_error_def
           split: option.split prod.split bool.split)

lemma batch_file_counts:
  "b_success (batch_file k d ow st p) + b_errors (batch_file k d ow st p) \<le> Suc (b_success st + b_errors st)"
  by (auto simp: batch_file_def Let_def batch_error_def split: option.split prod.split bool.split)

lemma foldl_batch_file:
  "batch_inv st \<Longrightarrow>
   batch_inv (foldl (batch_file k d ow) st ps) \<and>
   b_success (foldl (batch_file k d ow) st ps) + b_errors (foldl (batch_file k d ow) st ps)
     \<le> b_success st + b_errors st + length ps"
proof (induction ps arbitrary: st)
  case Nil
  then show ?case by simp
next
  case (Cons p ps)
  have "batch_inv (batch_file k d ow st p)" using Cons.prems by (rule batch_file_inv)
  with Cons.IH have "batch_inv (foldl (batch_file k d ow) (batch_file k d ow st p) ps) \<and>
      b_success (foldl (batch_file k d ow) (batch_file k d ow st p) ps) +
      b_errors (foldl (batch_file k d ow) (batch_file k d ow st p) ps)
        \<le> b_success (batch_file k d ow st p) + b_errors (batch_file k d ow st p) + length ps"
    by blast
  with batch_file_counts [of k d ow st p] show ?case by simp
qed

lemma gui_clicks_Some:
  "gui_clicks e eds n = Some (e', m) \<Longrightarrow> n \<le> m \<and> (\<exists>k. validate_column e' = Some k)"
proof (induction e eds n rule: gui_clicks.induct)
  case (2 entry ed eds n)
  then show ?case
    by (cases "validate_column (ed entry)") (fastforce simp: Let_def)+
qed simp

lemma gui_clicks_default: "gui_clicks entry_default [id] 0 = Some (''2'', 0)"
  by (simp add: entry_default_def validate_column_def py_eval)

lemma gui_mode_cancel:
  "input_files = [] \<or> output_dir = [] \<Longrightarrow> gui_mode edits input_files output_dir overwrite fs = GuiHangs fs"
  by (auto simp: gui_mode_def on_confirm_def split: option.split)

lemma gui_mode_done:
  assumes "gui_clicks entry_default edits 0 = Some (e, n)" "input_files \<noteq> []" "output_dir \<noteq> []"
  shows "\<exists>k. validate_column e = Some k \<and>
             gui_mode edits input_files output_dir overwrite fs = GuiDone n (batch_run k output_dir overwrite fs input_files)"
proof -
  obtain k where k: "validate_column e = Some k" using gui_clicks_Some [OF assms(1)] by blast
  with assms show ?thesis by (simp add: gui_mode_def on_confirm_def)
qed

lemma column_main_gui:
  "length argv \<noteq> 4 \<Longrightarrow>
   column_main argv edits input_files output_dir overwrite fs = GuiRun (gui_mode edits input_files output_dir overwrite fs)"
  by (simp add: column_main_def cli_main_def)

subsection \<open>Properties\<close>

text \<open>
  C8 (functional).  For a column number of at least 1, a readable input and a
  writable output distinct from it, \<open>extract_column\<close> succeeds and the output file
  holds, for every non-blank input line in order, its \<open>column_num\<close>-th
  whitespace-separated field or \<open>"error"\<close>, each followed by a newline.
\<close>

theorem extract_column_correct:
  assumes "fs_files fs inp = Some c" "fs_writable fs out" "inp \<noteq> out" "1 \<le> k"
  shows "extract_column fs inp out k = (write_file fs out (extracted k (py_readlines c)), True)"
  using assms by (simp add: extract_column_readable extract_lines_pos)

theorem extract_column_correct_witness:
  "extract_column \<lparr>fs_files = [''in'' \<mapsto> ''a b\<newline>\<newline>c\<newline>''], fs_writable = (\<lambda>_. True)\<rparr> ''in'' ''out'' 2 =
     (write_file \<lparr>fs_files = [''in'' \<mapsto> ''a b\<newline>\<newline>c\<newline>''], fs_writable = (\<lambda>_. True)\<rparr> ''out''
        (''b'' @ [LF] @ ''error'' @ [LF]), True)"
proof -
  have "extract_column \<lparr>fs_files = [''in'' \<mapsto> ''a b\<newline>\<newline>c\<newline>''], fs_writable = (\<lambda>_. True)\<rparr> ''in'' ''out'' 2 =
     (write_file \<lparr>fs_files = [''in'' \<mapsto> ''a b\<newline>\<newline>c\<newline>''], fs_writable = (\<lambda>_. True)\<rparr> ''out''
        (extracted 2 (py_readlines ''a b\<newline>\<newline>c\<newline>'')), True)"
    by (rule extract_column_correct) simp_all
  moreover have "extracted 2 (py_readlines ''a b\<newline>\<newline>c\<newline>'') = ''b'' @ [LF] @ ''error'' @ [LF]"
    by (simp add: extracted_def column_or_error_def py_eval)
  ultimately show ?thesis by simp
qed

text \<open>
  C9 (roundtrip).  Writing rows of whitespace-free, non-empty fields as
  space-separated lines and extracting column \<open>k\<close> (\<open>1 \<le> k\<close>, every row at least
  \<open>k\<close> fields long) gives back the \<open>k\<close>-th field of every row.
\<close>

theorem extract_column_roundtrip:
  assumes "\<forall>ws \<in> set rows. ws \<noteq> [] \<and> int (length ws) \<ge> k \<and> (\<forall>w \<in> set ws. w \<noteq> [] \<and> (\<forall>x \<in> set w. \<not> py_isspace x))"
    and "1 \<le> k" "fs_files fs inp = Some (concat (map (\<lambda>ws. py_join '' '' ws @ [LF]) rows))"
    and "fs_writable fs out" "inp \<noteq> out"
  shows "extract_column fs inp out k = (write_file fs out (concat (map (\<lambda>ws. ws ! (nat k - 1) @ [LF]) rows)), True)"
proof -
  have sp: "py_isspace CHR '' ''" by (simp add: py_isspace_def)
  have split: "py_split (py_join '' '' ws) = ws" if "ws \<in> set rows" for ws
    using assms(1) that sp by (intro py_split_join) auto
  have nolf: "\<forall>r \<in> set (map (py_join '' '') rows). LF \<notin> set r \<and> CR \<notin> set r"
  proof
    fix r assume "r \<in> set (map (py_join '' '') rows)"
    then obtain ws where ws: "ws \<in> set rows" "r = py_join '' '' ws" by auto
    then have "\<forall>x \<in> set r. x \<in> set (concat ws) \<or> x = CHR '' ''"
      using set_py_join [of "'' ''" ws] by auto
    moreover have "\<not> py_isspace x" if "x \<in> set (concat ws)" for x
      using assms(1) ws(1) that by auto
    moreover have "py_isspace LF" "py_isspace CR" by (simp_all add: py_isspace_def)
    ultimately show "LF \<notin> set r \<and> CR \<notin> set r" by auto
  qed
  have lines: "py_readlines (concat (map (\<lambda>ws. py_join '' '' ws @ [LF]) rows)) =
               map (\<lambda>ws. py_join '' '' ws @ [LF]) rows"
    using py_readlines_rows [OF nolf] by (simp add: comp_def)
  have nonblank: "py_strip (py_join '' '' ws @ [LF]) \<noteq> []" if "ws \<in> set rows" for ws
  proof
    assume "py_strip (py_join '' '' ws @ [LF]) = []"
    then have "py_split (py_join '' '' ws @ [LF]) = []" by (metis py_split_strip py_split_def split_words.simps(1))
    moreover have "py_split (py_join '' '' ws @ [LF]) = ws"
      using split [OF that] split_words_trailing [of "[LF]" "[]" "py_join '' '' ws"]
      by (simp add: py_split_def py_isspace_def)
    ultimately show False using assms(1) that by simp
  qed
  have col: "column_or_error k (py_join '' '' ws @ [LF]) = ws ! (nat k - 1)" if "ws \<in> set rows" for ws
  proof -
    have "py_split (py_join '' '' ws @ [LF]) = ws"
      using split [OF that] split_words_trailing [of "[LF]" "[]" "py_join '' '' ws"]
      by (simp add: py_split_def py_isspace_def)
    then show ?thesis using assms(1) that by (simp add: column_or_error_def)
  qed
  have "extracted k (map (\<lambda>ws. py_join '' '' ws @ [LF]) rows) = concat (map (\<lambda>ws. ws ! (nat k - 1) @ [LF]) rows)"
    using nonblank col by (induction rows) (auto simp: extracted_def)
  then show ?thesis
    using assms(2-5) lines by (simp add: extract_column_correct)
qed

theorem extract_column_roundtrip_witness:
  "extract_column \<lparr>fs_files = [''in'' \<mapsto> ''a b\<newline>c d\<newline>''], fs_writable = (\<lambda>_. True)\<rparr> ''in'' ''out'' 2 =
     (write_file \<lparr>fs_files = [''in'' \<mapsto> ''a b\<newline>c d\<newline>''], fs_writable = (\<lambda>_. True)\<rparr> ''out''
        (''b\<newline>d\<newline>''), True)"
  using extract_column_roundtrip [of "[[''a'', ''b''], [''c'', ''d'']]" 2
          "\<lparr>fs_files = [''in'' \<mapsto> ''a b\<newline>c d\<newline>''], fs_writable = (\<lambda>_. True)\<rparr>" "''in''" "''out''"]
  by (simp add: py_isspace_def)

text \<open>
  C10 (safety).  Extracting a file onto itself destroys it: the output is opened
  (and truncated) before the first line is read, so the file ends empty and the
  call still reports success.
\<close>

theorem extract_column_same_file:
  "fs_files fs p = Some c \<Longrightarrow> fs_writable fs p \<Longrightarrow> extract_column fs p p k = (write_file fs p [], True)"
  by (simp add: extract_column_def py_readlines_def)

theorem extract_column_same_file_witness:
  "extract_column \<lparr>fs_files = [''t'' \<mapsto> ''1 2\<newline>''], fs_writable = (\<lambda>_. True)\<rparr> ''t'' ''t'' 2 =
     (write_file \<lparr>fs_files = [''t'' \<mapsto> ''1 2\<newline>''], fs_writable = (\<lambda>_. True)\<rparr> ''t'' [], True)"
  by (rule extract_column_same_file) simp_all

text \<open>
  C11 (error).  When the input cannot be opened or the output cannot be created,
  \<open>extract_column\<close> returns \<open>False\<close> and no file changes.
\<close>

theorem extract_column_fails:
  "fs_files fs inp = None \<or> \<not> fs_writable fs out \<Longrightarrow> extract_column fs inp out k = (fs, False)"
  by (auto simp: extract_column_def split: option.split)

theorem extract_column_fails_witness:
  "extract_column \<lparr>fs_files = Map.empty, fs_writable = (\<lambda>_. True)\<rparr> ''missing'' ''out'' 2 =
     (\<lparr>fs_files = Map.empty, fs_writable = (\<lambda>_. True)\<rparr>, False)"
  by (rule extract_column_fails) simp

text \<open>
  C12 (functional).  On the command line the column argument is validated as in the
  GUI (an \<open>int\<close> of at least 1, else exit status 1 with no file touched); a valid
  call always exits with status 0, whether or not \<open>extract_column\<close> succeeded.
\<close>

theorem cli_main_exit_status:
  "cli_main [a, c, inp, out] fs =
     Some (case validate_column c of None \<Rightarrow> (fs, 1) | Some k \<Rightarrow> (fst (extract_column fs inp out k), 0))"
  by (simp add: cli_main_def validate_column_def split: sum.split)

text \<open>
  C13 (invariant).  Over a whole batch, the number of messages equals the error
  count, and successes plus errors never exceed the number of input files (a file
  whose existing output the user declines to overwrite counts as neither).
\<close>

theorem batch_run_counts:
  "batch_inv (batch_run k d ow fs ps) \<and>
   b_success (batch_run k d ow fs ps) + b_errors (batch_run k d ow fs ps) \<le> length ps"
  using foldl_batch_file [of "\<lparr>b_fs = fs, b_success = 0, b_errors = 0, b_messages = []\<rparr>" k d ow ps]
  by (simp add: batch_run_def batch_inv_def)

text \<open>
  C14 (functional).  The column precheck reads only the first line: a file whose
  first line is blank is reported with "maximum 0 columns" and skipped, whatever
  its other lines hold.
\<close>

theorem batch_rejects_blank_first_line:
  assumes "fs_files (b_fs st) p = Some c" "py_strip (first_line c) = []" "1 \<le> k"
  shows "batch_file k d ow st p = batch_error (MaxColumns (py_basename p) 0) st"
  using assms by (simp add: batch_file_def Let_def)

theorem batch_rejects_blank_first_line_witness:
  "batch_file 1 ''/o'' (\<lambda>_. True)
     \<lparr>b_fs = \<lparr>fs_files = [''d/in.txt'' \<mapsto> ''\<newline>1 2 3\<newline>''], fs_writable = (\<lambda>_. True)\<rparr>,
      b_success = 0, b_errors = 0, b_messages = []\<rparr> ''d/in.txt'' =
   \<lparr>b_fs = \<lparr>fs_files = [''d/in.txt'' \<mapsto> ''\<newline>1 2 3\<newline>''], fs_writable = (\<lambda>_. True)\<rparr>,
      b_success = 0, b_errors = 1, b_messages = [MaxColumns ''in.txt'' 0]\<rparr>"
proof -
  have h: "py_strip (first_line ''\<newline>1 2 3\<newline>'') = []" by (simp add: py_eval)
  have b: "py_basename ''d/in.txt'' = ''in.txt''" by (simp add: py_eval)
  show ?thesis
    using batch_rejects_blank_first_line [of _ "''d/in.txt''" "''\<newline>1 2 3\<newline>''" 1 "''/o''" "\<lambda>_. True", OF _ h]
    by (simp add: b batch_error_def)
qed

end
