(* ===== verification/Barfiber.thy ===== *)
theory Barfiber
  imports PyIO "HOL-Library.AList"
begin

text \<open>
  \<open>src/process_barfiber.py\<close>.
  \<^item> \<open>process_file\<close> (lines 8-29): the last whitespace field of every non-blank
    line goes through \<open>float()\<close>; failures are collected with their 1-based line
    numbers; the result is \<open>max(abs(np.array(values)))\<close>, or \<open>None\<close> without
    values, and \<open>(None, [])\<close> when the file cannot be opened.  The \<open>max\<close> is the
    builtin, iterating over the array: it keeps the first element and replaces it by
    a later one that compares greater (\<open>foldl py_max\<close>), so a NaN is the result
    when it comes first and is skipped otherwise.
  \<^item> \<open>extract_numbers\<close> (lines 31-45): \<open>parts[1]\<close> of the name split at
    underscores, and \<open>float()\<close> of the group of the leftmost match of
    \<open>barfiber([-.0-9]+)\.out$\<close> (\<open>search_barfiber\<close>, the greedy group with
    backtracking, \<open>$\<close> also before a final newline); the \<open>ValueError\<close> of that
    \<open>float()\<close> is not caught.
  \<^item> \<open>folder_pattern\<close> is \<open>re.match\<close> of \<open>S2_B.*_IDA_8\.5MPa_barfiber.*\.out$\<close>
    (line 110), \<open>.\<close> not matching a newline.
  \<^item> \<open>process_entry\<close> is one iteration of the loop over a folder's files (lines
    111-127), \<open>facc\<close> the loop's four accumulators (the dictionaries as
    association lists in insertion order, the two sets as lists), \<open>folder_table\<close>
    the sorting and the table of lines 133-153 (\<open>int(x[1:])\<close> may raise), and
    \<open>process_folder\<close> one folder (lines 100-135).  The table is modelled as data:
    the header labels and, per sorted b value, the cells of the sorted a labels;
    its textual form (\<open>str\<close> of floats) is not modelled.
  The folder listing is the list \<open>filenames\<close> in the order \<open>os.listdir\<close> returns.
\<close>

definition last_field_value :: "string list \<Rightarrow> py_error + pyfloat" where
  "last_field_value parts = (if parts = [] then Inl IndexError else float_res (last parts))"

fun scan_lines :: "nat \<Rightarrow> string list \<Rightarrow> pyfloat list \<times> (nat \<times> string) list" where
  "scan_lines n [] = ([], [])"
| "scan_lines n (line # ls) =
     (let parts = py_split (py_strip line); (vs, es) = scan_lines (Suc n) ls
      in if parts = [] then (vs, es)
         else (case last_field_value parts of
                 Inr v \<Rightarrow> (v # vs, es)
               | Inl _ \<Rightarrow> (vs, (n, py_strip line) # es)))"

definition process_file :: "fsys \<Rightarrow> path \<Rightarrow> pyfloat option \<times> (nat \<times> string) list" where
  "process_file fs file_path =
     (case fs_files fs file_path of
        None \<Rightarrow> (None, [])
      | Some content \<Rightarrow>
          let (last_column, errors) = scan_lines 1 (py_readlines content)
          in (case map py_abs last_column of
                [] \<Rightarrow> None
              | v # vs \<Rightarrow> Some (foldl py_max v vs), errors))"

definition is_num_char :: "char \<Rightarrow> bool" where
  "is_num_char c \<longleftrightarrow> c = CHR ''-'' \<or> c = CHR ''.'' \<or> is_digit c"

definition barfiber_group_at :: "string \<Rightarrow> nat \<Rightarrow> string option" where
  "barfiber_group_at s i =
     (if take 8 (drop i s) \<noteq> ''barfiber'' then None
      else let r = drop (i + 8) s
           in map_option (\<lambda>n. take n r)
                (find (\<lambda>n. 1 \<le> n \<and> list_all is_num_char (take n r) \<and>
                           (drop n r = ''.out'' \<or> drop n r = ''.out'' @ [LF]))
                      [length r - 4, length r - 5]))"

definition search_barfiber :: "string \<Rightarrow> string option" where
  "search_barfiber s =
     (case find (\<lambda>i. barfiber_group_at s i \<noteq> None) [0..<length s] of
        None \<Rightarrow> None
      | Some i \<Rightarrow> barfiber_group_at s i)"

definition extract_numbers :: "string \<Rightarrow> py_error + (string \<times> pyfloat) option" where
  "extract_numbers filename =
     (let parts = py_split_sep CHR ''_'' filename
      in if length parts < 2 then Inr None
         else (case search_barfiber filename of
                 None \<Rightarrow> Inr None
               | Some g \<Rightarrow> map_sum id (\<lambda>num_b. Some (parts ! 1, num_b)) (float_res g)))"

definition out_tail :: "string \<Rightarrow> bool" where
  "out_tail u \<longleftrightarrow>
     list_ex (\<lambda>m. LF \<notin> set (take m u) \<and> (drop m u = ''.out'' \<or> drop m u = ''.out'' @ [LF]))
       [length u - 4, length u - 5]"

definition folder_pattern :: "string \<Rightarrow> bool" where
  "folder_pattern s \<longleftrightarrow>
     take 4 s = ''S2_B'' \<and>
     (let t = drop 4 s
      in list_ex (\<lambda>k. LF \<notin> set (take k t) \<and> take 20 (drop k t) = ''_IDA_8.5MPa_barfiber''
                        \<and> out_tail (drop (k + 20) t))
           [0..<Suc (length t)])"

record facc =
  f_results :: "(pyfloat \<times> (string \<times> pyfloat) list) list"
  f_num_a :: "string list"
  f_num_b :: "pyfloat list"
  f_errors :: "(path \<times> (nat \<times> string) list) list"

definition record_result :: "pyfloat \<Rightarrow> string \<Rightarrow> pyfloat \<Rightarrow> facc \<Rightarrow> facc" where
  "record_result num_b num_a v acc =
     (let inner = (case map_of (f_results acc) num_b of None \<Rightarrow> [] | Some m \<Rightarrow> m)
      in acc\<lparr>f_results := AList.update num_b (AList.update num_a v inner) (f_results acc),
             f_num_a := List.insert num_a (f_num_a acc),
             f_num_b := List.insert num_b (f_num_b acc)\<rparr>)"

definition process_entry :: "fsys \<Rightarrow> path \<Rightarrow> facc \<Rightarrow> string \<Rightarrow> py_error + facc" where
  "process_entry fs folder_path acc filename =
     (if \<not> folder_pattern filename then Inr acc
      else rbind (extract_numbers filename) (\<lambda>r.
        case r of
          None \<Rightarrow> Inr acc
        | Some (num_a, num_b) \<Rightarrow>
            let file_path = py_path_join folder_path filename;
                (max_abs_value, file_errors) = process_file fs file_path;
                acc1 = (if file_errors \<noteq> [] then acc\<lparr>f_errors := AList.update file_path file_errors (f_errors acc)\<rparr>
                        else acc)
            in Inr (case max_abs_value of
                      None \<Rightarrow> acc1
                    | Some v \<Rightarrow> record_result num_b num_a (py_mul_int v 1000) acc1)))"

fun process_entries :: "fsys \<Rightarrow> path \<Rightarrow> facc \<Rightarrow> string list \<Rightarrow> py_error + facc" where
  "process_entries fs folder_path acc [] = Inr acc"
| "process_entries fs folder_path acc (f # fs') =
     rbind (process_entry fs folder_path acc f) (\<lambda>acc'. process_entries fs folder_path acc' fs')"

datatype tcell = TVal pyfloat | TErr

text \<open>The sort key of the b values; NaN cannot arise from the digits the pattern admits.\<close>

fun fkey :: "pyfloat \<Rightarrow> xfloat" where
  "fkey NaN = NegInf"
| "fkey (Num x) = x"

definition table_cell :: "facc \<Rightarrow> pyfloat \<Rightarrow> string \<Rightarrow> tcell" where
  "table_cell acc num_b num_a =
     (case map_of (f_results acc) num_b of
        None \<Rightarrow> TErr
      | Some m \<Rightarrow> (case map_of m num_a of None \<Rightarrow> TErr | Some v \<Rightarrow> TVal v))"

definition folder_table :: "facc \<Rightarrow> py_error + string list \<times> (pyfloat \<times> tcell list) list" where
  "folder_table acc =
     rbind (rmap (\<lambda>x. int_res (drop 1 x)) (f_num_a acc)) (\<lambda>keys.
       let sorted_num_a = map snd (sort_key fst (zip keys (f_num_a acc)));
           sorted_num_b = sort_key fkey (f_num_b acc)
       in Inr ((''b'' @ [CHR 0x5C] @ ''a'') # sorted_num_a,
               map (\<lambda>num_b. (num_b, map (table_cell acc num_b) sorted_num_a)) sorted_num_b))"

definition empty_facc :: facc where
  "empty_facc = \<lparr>f_results = [], f_num_a = [], f_num_b = [], f_errors = []\<rparr>"

definition process_folder ::
  "fsys \<Rightarrow> path \<Rightarrow> string list \<Rightarrow>
   py_error + (string list \<times> (pyfloat \<times> tcell list) list) option \<times> (path \<times> (nat \<times> string) list) list"
where
  "process_folder fs folder_path filenames =
     rbind (process_entries fs folder_path empty_facc filenames) (\<lambda>acc.
       if f_results acc = [] then Inr (None, f_errors acc)
       else rbind (folder_table acc) (\<lambda>t. Inr (Some t, f_errors acc)))"

subsection \<open>The specification side\<close>

text \<open>
  The floats of the last fields of the non-blank lines, in order, the lines whose
  last field is not a float with their 1-based numbers, and the absolute value on
  the extended line.
\<close>

definition nonblank :: "string \<Rightarrow> bool" where
  "nonblank l \<longleftrightarrow> py_split (py_strip l) \<noteq> []"

definition last_floats :: "string list \<Rightarrow> pyfloat list" where
  "last_floats ls =
     concat (map (\<lambda>l. if nonblank l then (case float_res (last (py_split l)) of Inr v \<Rightarrow> [v] | Inl _ \<Rightarrow> []) else []) ls)"

definition bad_line :: "string \<Rightarrow> bool" where
  "bad_line l \<longleftrightarrow> nonblank l \<and> isl (float_res (last (py_split l)))"

definition bad_lines :: "nat \<Rightarrow> string list \<Rightarrow> (nat \<times> string) list" where
  "bad_lines n ls =
     concat (map (\<lambda>(k, l). if bad_line l then [(k, py_strip l)] else [])
                 (zip [n..<n + length ls] ls))"

fun nums :: "pyfloat list \<Rightarrow> xfloat list" where
  "nums [] = []"
| "nums (NaN # vs) = nums vs"
| "nums (Num x # vs) = x # nums vs"

text \<open>
  The maximum of the absolute values of the numbers, NaN when the first value is NaN.
\<close>

definition max_abs_spec :: "pyfloat list \<Rightarrow> pyfloat option" where
  "max_abs_spec vs =
     (case vs of
        [] \<Rightarrow> None
      | v # _ \<Rightarrow> if v = NaN then Some NaN else Some (Num (Max (set (map xabs (nums vs))))))"

text \<open>The file names of the naming convention: \<open>S2_B<a>_IDA_8.5MPa_barfiber<b>.out\<close>.\<close>

definition canon_name :: "string \<Rightarrow> string \<Rightarrow> string" where
  "canon_name a b = ''S2_B'' @ a @ ''_IDA_8.5MPa_barfiber'' @ b @ ''.out''"

text \<open>The invariant of the loop accumulators: no duplicate labels and keys.\<close>

definition facc_inv :: "facc \<Rightarrow> bool" where
  "facc_inv acc \<longleftrightarrow>
     distinct (f_num_a acc) \<and> distinct (f_num_b acc) \<and> distinct (map fst (f_results acc))"

text \<open>The characters a file-name part \<open>a\<close> must avoid for \<open>S2_B<a>_...\<close> to parse.\<close>

definition name_part :: "string \<Rightarrow> bool" where
  "name_part a \<longleftrightarrow> CHR ''_'' \<notin> set a \<and> CHR ''b'' \<notin> set a \<and> LF \<notin> set a"

subsection \<open>Lemmas\<close>

lemma bad_lines_Cons:
  "bad_lines n (l # ls) =
     (if bad_line l then [(n, py_strip l)] else []) @ bad_lines (Suc n) ls"
proof -
  have "[n..<n + length (l # ls)] = n # [Suc n..<Suc n + length ls]"
    by (simp del: upt_Suc add: upt_conv_Cons)
  then show ?thesis by (simp only: bad_lines_def) simp
qed

lemma last_floats_Cons:
  "last_floats (l # ls) =
     (if nonblank l then (case float_res (last (py_split l)) of Inr v \<Rightarrow> [v] | Inl _ \<Rightarrow> []) else []) @ last_floats ls"
  by (simp add: last_floats_def)

lemma scan_lines_spec:
  "scan_lines n ls = (last_floats ls, bad_lines n ls)"
proof (induction ls arbitrary: n)
  case Nil
  then show ?case by (simp add: last_floats_def bad_lines_def)
next
  case (Cons l ls)
  then show ?case
    by (auto simp: last_floats_Cons bad_lines_Cons bad_line_def nonblank_def last_field_value_def
             split: sum.split)
qed

lemma foldl_py_max_Num:
  "foldl py_max (Num x) vs = Num (Max (insert x (set (nums vs))))"
proof (induction vs arbitrary: x)
  case Nil
  then show ?case by simp
next
  case (Cons v vs)
  then show ?case
    by (cases v) (simp_all add: Max_insert_max_xfloat)
qed

lemma foldl_py_max_NaN: "foldl py_max NaN vs = NaN"
  by (induction vs) (simp_all add: py_max_def)

lemma nums_map_py_abs: "nums (map py_abs vs) = map xabs (nums vs)"
  by (induction vs rule: nums.induct) simp_all

lemma max_py_abs_spec:
  "(case map py_abs vs of [] \<Rightarrow> None | v # ws \<Rightarrow> Some (foldl py_max v ws)) = max_abs_spec vs"
proof (cases vs)
  case Nil
  then show ?thesis by (simp add: max_abs_spec_def)
next
  case (Cons v ws)
  then show ?thesis
    by (cases v)
       (simp_all add: max_abs_spec_def foldl_py_max_NaN foldl_py_max_Num nums_map_py_abs)
qed

lemma set_bad_lines:
  "set (bad_lines n ls) =
     {(k, py_strip (ls ! (k - n))) | k. n \<le> k \<and> k < n + length ls \<and> bad_line (ls ! (k - n))}"
proof (induction ls arbitrary: n)
  case Nil
  then show ?case by (simp add: bad_lines_def)
next
  case (Cons l ls)
  have "{(k, py_strip ((l # ls) ! (k - n))) | k. n \<le> k \<and> k < n + length (l # ls) \<and> bad_line ((l # ls) ! (k - n))}
        = (if bad_line l then {(n, py_strip l)} else {}) \<union>
          {(k, py_strip (ls ! (k - Suc n))) | k. Suc n \<le> k \<and> k < Suc n + length ls \<and> bad_line (ls ! (k - Suc n))}"
    (is "?L = ?R")
  proof (intro equalityI subsetI)
    fix x assume "x \<in> ?L"
    then obtain k where "x = (k, py_strip ((l # ls) ! (k - n)))" "n \<le> k" "k < n + length (l # ls)"
      "bad_line ((l # ls) ! (k - n))" by blast
    then show "x \<in> ?R"
      by (cases "k = n") (auto simp: nth_Cons' Suc_diff_Suc)
  next
    fix x assume "x \<in> ?R"
    then show "x \<in> ?L"
      by (auto split: if_splits)
  qed
  then show ?case by (simp add: bad_lines_Cons Cons.IH)
qed

lemma sorted_bad_lines: "sorted_wrt (<) (map fst (bad_lines n ls))"
proof (induction ls arbitrary: n)
  case Nil
  then show ?case by (simp add: bad_lines_def)
next
  case (Cons l ls)
  have "\<forall>x \<in> set (bad_lines (Suc n) ls). n < fst x"
    by (auto simp: set_bad_lines)
  with Cons.IH [of "Suc n"] show ?case by (simp add: bad_lines_Cons)
qed

lemma process_file_scan:
  "process_file fs p =
     (case fs_files fs p of
        None \<Rightarrow> (None, [])
      | Some c \<Rightarrow> (max_abs_spec (last_floats (py_readlines c)), bad_lines 1 (py_readlines c)))"
  by (simp add: process_file_def scan_lines_spec max_py_abs_spec split: option.split)

subsection \<open>File names\<close>

lemma take_drop_b:
  assumes "i < length P" "CHR ''b'' \<notin> set P"
  shows "take 8 (drop i (P @ s)) \<noteq> ''barfiber''"
proof
  assume "take 8 (drop i (P @ s)) = ''barfiber''"
  then have "hd (drop i (P @ s)) = CHR ''b''"
    by (metis hd_take list.sel(1) zero_less_numeral)
  moreover have "hd (drop i (P @ s)) = P ! i"
    using assms(1) by (simp add: hd_drop_conv_nth nth_append)
  ultimately show False
    using assms nth_mem by fastforce
qed

lemma barfiber_group_at_tail:
  assumes "list_all is_num_char b" "b \<noteq> []"
  shows "barfiber_group_at (P @ ''barfiber'' @ b @ ''.out'') (length P) = Some b"
  using assms by (simp add: barfiber_group_at_def Let_def Suc_le_eq)

lemma search_barfiber_tail:
  assumes "CHR ''b'' \<notin> set P" "list_all is_num_char b" "b \<noteq> []"
  shows "search_barfiber (P @ ''barfiber'' @ b @ ''.out'') = Some b"
proof -
  let ?s = "P @ ''barfiber'' @ b @ ''.out''"
  have "find (\<lambda>i. barfiber_group_at ?s i \<noteq> None) [0..<length ?s] = Some (length P)"
    using assms barfiber_group_at_tail take_drop_b
    by (intro find_upt_first) (auto simp: barfiber_group_at_def)
  with barfiber_group_at_tail [OF assms(2,3)] show ?thesis
    unfolding search_barfiber_def by (simp only: option.case)
qed

lemma num_char_not:
  "is_num_char c \<Longrightarrow> c \<noteq> CHR ''_'' \<and> c \<noteq> CHR ''b'' \<and> c \<noteq> LF"
  by (auto simp: is_num_char_def is_digit_def)
lemma num_chars_not:
  "list_all is_num_char b \<Longrightarrow> CHR ''_'' \<notin> set b \<and> CHR ''b'' \<notin> set b \<and> LF \<notin> set b"
  unfolding list_all_iff using num_char_not by blast
lemma digit_num_char: "is_digit c \<Longrightarrow> is_num_char c"
  by (simp add: is_num_char_def)
lemma digits_num_chars: "list_all is_digit a \<Longrightarrow> list_all is_num_char a"
  unfolding list_all_iff using digit_num_char by blast

lemma canon_name_split:
  "canon_name a b = ''S2'' @ CHR ''_'' # (''B'' @ a) @ CHR ''_'' # (''IDA_8.5MPa_barfiber'' @ b @ ''.out'')"
  by (simp add: canon_name_def)

lemma canon_name_prefix:
  "canon_name a b = (''S2_B'' @ a @ ''_IDA_8.5MPa_'') @ ''barfiber'' @ b @ ''.out''"
  by (simp add: canon_name_def)

lemma extract_numbers_canon:
  assumes a: "CHR ''_'' \<notin> set a" "CHR ''b'' \<notin> set a"
    and "list_all is_num_char b" "b \<noteq> []"
  shows "extract_numbers (canon_name a b) = map_sum id (\<lambda>v. Some (''B'' @ a, v)) (float_res b)"
proof -
  have parts: "py_split_sep CHR ''_'' (canon_name a b) =
                 ''S2'' # (''B'' @ a) # py_split_sep CHR ''_'' (''IDA_8.5MPa_barfiber'' @ b @ ''.out'')"
  proof -
    have "py_split_sep CHR ''_'' ((''B'' @ a) @ CHR ''_'' # ''IDA_8.5MPa_barfiber'' @ b @ ''.out'') =
            (''B'' @ a) # py_split_sep CHR ''_'' (''IDA_8.5MPa_barfiber'' @ b @ ''.out'')"
      by (rule py_split_sep_append) (simp add: a)
    moreover have "py_split_sep CHR ''_'' (''S2'' @ CHR ''_'' # (''B'' @ a) @ CHR ''_'' # ''IDA_8.5MPa_barfiber'' @ b @ ''.out'') =
            ''S2'' # py_split_sep CHR ''_'' ((''B'' @ a) @ CHR ''_'' # ''IDA_8.5MPa_barfiber'' @ b @ ''.out'')"
      by (rule py_split_sep_append) simp
    ultimately show ?thesis unfolding canon_name_split by (simp only:)
  qed
  have "search_barfiber (canon_name a b) = Some b"
    unfolding canon_name_prefix using a assms(3,4)
    by (intro search_barfiber_tail) auto
  moreover obtain rest where "py_split_sep CHR ''_'' (canon_name a b) = ''S2'' # (''B'' @ a) # rest"
    using parts by blast
  ultimately show ?thesis
    unfolding extract_numbers_def Let_def by simp
qed

lemma folder_pattern_canon:
  assumes "LF \<notin> set a" "LF \<notin> set b"
  shows "folder_pattern (canon_name a b)"
proof -
  let ?t = "a @ ''_IDA_8.5MPa_barfiber'' @ b @ ''.out''"
  have t4: "take 4 (canon_name a b) = ''S2_B''" and d4: "drop 4 (canon_name a b) = ?t"
    by (simp_all add: canon_name_def)
  have "out_tail (b @ ''.out'')"
    using assms(2) by (simp add: out_tail_def)
  then have k: "LF \<notin> set (take (length a) ?t) \<and> take 20 (drop (length a) ?t) = ''_IDA_8.5MPa_barfiber''
             \<and> out_tail (drop (length a + 20) ?t)"
    using assms(1) by simp
  have "length a \<in> set [0..<Suc (length ?t)]" by simp
  with k have "list_ex (\<lambda>k. LF \<notin> set (take k ?t) \<and> take 20 (drop k ?t) = ''_IDA_8.5MPa_barfiber''
                        \<and> out_tail (drop (k + 20) ?t)) [0..<Suc (length ?t)]"
    unfolding list_ex_iff by blast
  then show ?thesis
    unfolding folder_pattern_def Let_def t4 d4 by (intro conjI refl)
qed

lemma process_entries_append:
  "process_entries fs d acc (xs @ ys) = rbind (process_entries fs d acc xs) (\<lambda>acc'. process_entries fs d acc' ys)"
  by (induction xs arbitrary: acc) (auto simp: rbind_def split: sum.split)

lemma facc_inv_record_result: "facc_inv acc \<Longrightarrow> facc_inv (record_result b a v acc)"
  by (simp add: facc_inv_def record_result_def Let_def distinct_update)

lemma facc_inv_errors [simp]: "facc_inv (acc\<lparr>f_errors := e\<rparr>) = facc_inv acc"
  by (simp add: facc_inv_def)

lemma facc_errors_self [simp]: "acc\<lparr>f_errors := f_errors acc\<rparr> = acc"
  by (cases acc) simp

lemma process_entry_Inr:
  assumes "process_entry fs d acc f = Inr acc'"
    and "\<And>e. P (acc\<lparr>f_errors := e\<rparr>)"
    and "\<And>b a v e. P (record_result b a v (acc\<lparr>f_errors := e\<rparr>))"
  shows "P acc'"
proof -
  have P: "P acc" using assms(2) [of "f_errors acc"] by simp
  have P3: "P (record_result b a v acc)" for b a v
    using assms(3) [of b a v "f_errors acc"] by simp
  show ?thesis
  proof (cases "folder_pattern f")
    case False
    with assms(1) P show ?thesis by (simp add: process_entry_def)
  next
    case True
    obtain r where ex: "extract_numbers f = Inr r"
      using assms(1) True by (cases "extract_numbers f") (simp_all add: process_entry_def)
    obtain m es where pf: "process_file fs (py_path_join d f) = (m, es)"
      by (cases "process_file fs (py_path_join d f)")
    have eq: "process_entry fs d acc f =
      (case r of None \<Rightarrow> Inr acc
       | Some (na, nb) \<Rightarrow> Inr (case m of None \<Rightarrow> acc\<lparr>f_errors := (if es \<noteq> [] then AList.update (py_path_join d f) es (f_errors acc) else f_errors acc)\<rparr>
                                | Some v \<Rightarrow> record_result nb na (py_mul_int v 1000) (acc\<lparr>f_errors := (if es \<noteq> [] then AList.update (py_path_join d f) es (f_errors acc) else f_errors acc)\<rparr>)))"
      using True ex pf by (cases "es = []"; cases r; cases m) (auto simp: process_entry_def Let_def)
    show ?thesis
      using assms eq P P3 by (auto split: option.splits)
  qed
qed

lemma facc_inv_process_entry:
  "process_entry fs d acc f = Inr acc' \<Longrightarrow> facc_inv acc \<Longrightarrow> facc_inv acc'"
  by (erule process_entry_Inr) (simp_all add: facc_inv_record_result)

lemma facc_inv_process_entries:
  "process_entries fs d acc fns = Inr acc' \<Longrightarrow> facc_inv acc \<Longrightarrow> facc_inv acc'"
  by (induction fns arbitrary: acc) (auto simp: rbind_eq_Inr_iff intro: facc_inv_process_entry)

lemma facc_inv_empty: "facc_inv empty_facc"
  by (simp add: facc_inv_def empty_facc_def)

lemma folder_table_shape:
  assumes "folder_table acc = Inr (hdr, rows)" "facc_inv acc"
  shows "hd hdr = ''b'' @ [CHR 0x5C] @ ''a'' \<and> distinct (tl hdr) \<and> set (tl hdr) = set (f_num_a acc) \<and>
         (\<exists>ks. rmap (\<lambda>x. int_res (drop 1 x)) (tl hdr) = Inr ks \<and> sorted ks) \<and>
         map fst rows = sort_key fkey (f_num_b acc) \<and>
         (\<forall>r \<in> set rows. snd r = map (table_cell acc (fst r)) (tl hdr))"
proof -
  obtain keys where rk: "rmap (\<lambda>x. int_res (drop 1 x)) (f_num_a acc) = Inr keys"
    and t: "hdr = (''b'' @ [CHR 0x5C] @ ''a'') # map snd (sort_key fst (zip keys (f_num_a acc)))"
           "rows = map (\<lambda>num_b. (num_b, map (table_cell acc num_b) (map snd (sort_key fst (zip keys (f_num_a acc))))))
                     (sort_key fkey (f_num_b acc))"
    using assms(1) by (auto simp: folder_table_def rbind_eq_Inr_iff Let_def)
  note sk = sort_by_keys [OF rk]
  have tl: "tl hdr = map snd (sort_key fst (zip keys (f_num_a acc)))"
    using t(1) by simp
  have "distinct (tl hdr)"
    unfolding tl mset_eq_imp_distinct_iff [OF sk(2)] using assms(2) by (simp add: facc_inv_def)
  moreover have "set (tl hdr) = set (f_num_a acc)"
    unfolding tl by (rule mset_eq_setD [OF sk(2)])
  moreover have "\<exists>ks. rmap (\<lambda>x. int_res (drop 1 x)) (tl hdr) = Inr ks \<and> sorted ks"
    unfolding tl using sk(1) sorted_sort_key by blast
  ultimately show ?thesis
    using t tl by (auto simp: comp_def)
qed

lemma extract_numbers_error: "extract_numbers f = Inl e \<Longrightarrow> e = ValueError"
  by (cases "search_barfiber f"; cases "float_res (the (search_barfiber f))")
     (auto simp: extract_numbers_def Let_def split: if_splits)

lemma process_entry_error: "process_entry fs d acc f = Inl e \<Longrightarrow> e = ValueError"
  by (cases "extract_numbers f")
     (auto simp: process_entry_def Let_def extract_numbers_error split: if_splits option.splits prod.splits)

lemma process_entries_error: "process_entries fs d acc fns = Inl e \<Longrightarrow> e = ValueError"
  by (induction fns arbitrary: acc) (auto simp: rbind_eq_Inl_iff process_entry_error)

lemma update_nonempty: "AList.update k v al \<noteq> []"
  by (cases al) auto

lemma process_entries_mono:
  "process_entries fs d acc fns = Inr acc' \<Longrightarrow>
     set (f_num_a acc) \<subseteq> set (f_num_a acc') \<and> (f_results acc \<noteq> [] \<longrightarrow> f_results acc' \<noteq> [])"
proof (induction fns arbitrary: acc)
  case Nil
  then show ?case by simp
next
  case (Cons f fns)
  then obtain acc1 where e: "process_entry fs d acc f = Inr acc1"
    and r: "process_entries fs d acc1 fns = Inr acc'"
    by (auto simp: rbind_eq_Inr_iff)
  have "set (f_num_a acc) \<subseteq> set (f_num_a acc1) \<and> (f_results acc \<noteq> [] \<longrightarrow> f_results acc1 \<noteq> [])"
    using e by (rule process_entry_Inr) (auto simp: record_result_def Let_def update_nonempty)
  with Cons.IH [OF r] show ?case by blast
qed

lemma max_abs_spec_Some: "vs \<noteq> [] \<Longrightarrow> \<exists>w. max_abs_spec vs = Some w"
  by (cases vs) (simp_all add: max_abs_spec_def)

lemma process_entry_canon:
  assumes "name_part a" "list_all is_num_char b" "b \<noteq> []" "float_res b = Inr v"
    and "fs_files fs (py_path_join d (canon_name a b)) = Some c" "last_floats (py_readlines c) \<noteq> []"
  shows "\<exists>acc'. process_entry fs d acc (canon_name a b) = Inr acc' \<and>
           ''B'' @ a \<in> set (f_num_a acc') \<and> f_results acc' \<noteq> []"
proof -
  have pat: "folder_pattern (canon_name a b)"
    using assms(1,2) num_chars_not by (intro folder_pattern_canon) (auto simp: name_part_def)
  have ex: "extract_numbers (canon_name a b) = Inr (Some (''B'' @ a, v))"
    using assms(1-4) by (simp add: extract_numbers_canon name_part_def)
  obtain w where "fst (process_file fs (py_path_join d (canon_name a b))) = Some w"
    using assms(5,6) max_abs_spec_Some by (fastforce simp: process_file_scan)
  then obtain es where "process_file fs (py_path_join d (canon_name a b)) = (Some w, es)"
    by (cases "process_file fs (py_path_join d (canon_name a b))") auto
  with pat ex show ?thesis
    by (simp add: process_entry_def record_result_def Let_def update_nonempty)
qed

lemma process_entry_canon_error:
  assumes "name_part a" "list_all is_num_char b" "b \<noteq> []" "isl (float_res b)"
  shows "process_entry fs d acc (canon_name a b) = Inl ValueError"
proof -
  have "folder_pattern (canon_name a b)"
    using assms(1,2) num_chars_not by (intro folder_pattern_canon) (auto simp: name_part_def)
  moreover have "extract_numbers (canon_name a b) = Inl ValueError"
    using assms by (cases "float_res b") (auto simp: extract_numbers_canon name_part_def)
  ultimately show ?thesis by (simp add: process_entry_def)
qed

lemma folder_table_label_error:
  "x \<in> set (f_num_a acc) \<Longrightarrow> isl (int_res (drop 1 x)) \<Longrightarrow> folder_table acc = Inl ValueError"
  using rmap_single_error [of "\<lambda>x. int_res (drop 1 x)" ValueError "f_num_a acc"] int_res_error
  by (auto simp: folder_table_def)

lemmas barfiber_eval =
  process_folder_def process_entry_def record_result_def folder_table_def empty_facc_def table_cell_def
  process_file_def extract_numbers_def search_barfiber_def barfiber_group_at_def folder_pattern_def
  out_tail_def is_num_char_def is_digit_def last_field_value_def py_max_def

lemma process_entry_canon_value:
  assumes "name_part a" "list_all is_num_char b" "b \<noteq> []" "float_res b = Inr v"
    and "process_file fs (py_path_join d (canon_name a b)) = (Some w, es)"
  shows "\<exists>acc1. f_results acc1 = f_results acc \<and> f_num_a acc1 = f_num_a acc \<and> f_num_b acc1 = f_num_b acc \<and>
           process_entry fs d acc (canon_name a b) = Inr (record_result v (''B'' @ a) (py_mul_int w 1000) acc1)"
proof -
  have pat: "folder_pattern (canon_name a b)"
    using assms(1,2) num_chars_not by (intro folder_pattern_canon) (auto simp: name_part_def)
  have ex: "extract_numbers (canon_name a b) = Inr (Some (''B'' @ a, v))"
    using assms(1-4) by (simp add: extract_numbers_canon name_part_def)
  let ?acc1 = "if es \<noteq> [] then acc\<lparr>f_errors := AList.update (py_path_join d (canon_name a b)) es (f_errors acc)\<rparr> else acc"
  have "process_entry fs d acc (canon_name a b) = Inr (record_result v (''B'' @ a) (py_mul_int w 1000) ?acc1)"
    using pat ex assms(5) by (simp add: process_entry_def Let_def)
  moreover have "f_results ?acc1 = f_results acc \<and> f_num_a ?acc1 = f_num_a acc \<and> f_num_b ?acc1 = f_num_b acc"
    by simp
  ultimately show ?thesis by blast
qed

subsection \<open>Properties\<close>

text \<open>
  C15. For a readable file whose last-column floats are non-empty and NaN-free, \<open>process_file\<close> returns the largest absolute value among them (an element of the absolute values, above every one).
\<close>

lemma process_file_max_abs:
  assumes "fs_files fs p = Some c" "vs = last_floats (py_readlines c)" "vs \<noteq> []" "NaN \<notin> set vs"
  shows "\<exists>m. fst (process_file fs p) = Some (Num m) \<and> m \<in> xabs ` set (nums vs) \<and>
             (\<forall>x \<in> set (nums vs). xabs x \<le> m)"
proof -
  obtain x ws where vs: "vs = Num x # ws"
    using assms(3,4) by (cases vs rule: nums.cases) auto
  have "max_abs_spec vs = Some (Num (Max (set (map xabs (nums vs)))))"
    using vs by (simp add: max_abs_spec_def)
  moreover have "fst (process_file fs p) = max_abs_spec vs"
    using assms(1,2) by (simp add: process_file_scan)
  moreover have "set (map xabs (nums vs)) \<noteq> {}"
    using vs by simp
  then have "Max (set (map xabs (nums vs))) \<in> set (map xabs (nums vs))"
    by (rule Max_in [OF finite_set])
  ultimately show ?thesis
    by auto
qed

lemma process_file_max_abs_witness:
  "fs_files \<lparr>fs_files = [''f'' \<mapsto> ''-3'' @ [LF] @ ''2''], fs_writable = \<lambda>_. False\<rparr> ''f'' = Some (''-3'' @ [LF] @ ''2'') \<and>
   fst (process_file \<lparr>fs_files = [''f'' \<mapsto> ''-3'' @ [LF] @ ''2''], fs_writable = \<lambda>_. False\<rparr> ''f'') = Some (Num (Fin 3))"
proof -
  have "last_floats (py_readlines (''-3'' @ [LF] @ ''2'')) = [Num (Fin (-3)), Num (Fin 2)]"
    by (simp add: last_floats_def nonblank_def py_eval)
  then show ?thesis
    using process_file_max_abs [of "\<lparr>fs_files = [''f'' \<mapsto> ''-3'' @ [LF] @ ''2''], fs_writable = \<lambda>_. False\<rparr>" "''f''"
        "''-3'' @ [LF] @ ''2''" "[Num (Fin (-3)), Num (Fin 2)]"]
    by auto
qed

text \<open>
  C16. The error list of \<open>process_file\<close> consists exactly of the 1-based numbers and stripped texts of the non-blank lines whose last field is not a float, in strictly increasing line order.
\<close>

lemma process_file_error_lines:
  assumes "fs_files fs p = Some c" "ls = py_readlines c"
  shows "set (snd (process_file fs p)) =
           {(k, py_strip (ls ! (k - 1))) | k. 1 \<le> k \<and> k \<le> length ls \<and> bad_line (ls ! (k - 1))} \<and>
         sorted_wrt (<) (map fst (snd (process_file fs p)))"
  using assms by (simp add: process_file_scan set_bad_lines sorted_bad_lines Suc_le_eq less_Suc_eq_le)

lemma process_file_error_lines_witness:
  "fs_files \<lparr>fs_files = [''f'' \<mapsto> ''x y'' @ [LF] @ ''1''], fs_writable = \<lambda>_. False\<rparr> ''f'' = Some (''x y'' @ [LF] @ ''1'') \<and>
   py_readlines (''x y'' @ [LF] @ ''1'') = [''x y'' @ [LF], ''1''] \<and>
   set (snd (process_file \<lparr>fs_files = [''f'' \<mapsto> ''x y'' @ [LF] @ ''1''], fs_writable = \<lambda>_. False\<rparr> ''f'')) =
     {(k, py_strip ([''x y'' @ [LF], ''1''] ! (k - 1))) | k. 1 \<le> k \<and> k \<le> length [''x y'' @ [LF], ''1''] \<and> bad_line ([''x y'' @ [LF], ''1''] ! (k - 1))}"
proof -
  have r: "py_readlines (''x y'' @ [LF] @ ''1'') = [''x y'' @ [LF], ''1'']"
    by (simp add: py_eval)
  have fs: "fs_files \<lparr>fs_files = [''f'' \<mapsto> ''x y'' @ [LF] @ ''1''], fs_writable = \<lambda>_. False\<rparr> ''f'' = Some (''x y'' @ [LF] @ ''1'')"
    by simp
  from process_file_error_lines [OF fs r [symmetric]] show ?thesis
    using fs r by blast
qed

text \<open>
  C17. The builtin \<open>max\<close> over the absolute values handles a NaN by its position: when the last-column values of a readable file include a NaN, \<open>process_file\<close> returns NaN exactly when the first value is NaN, and otherwise the largest absolute value of the other values, the NaN skipped.
\<close>

theorem process_file_nan:
  assumes "fs_files fs p = Some c" "NaN \<in> set (last_floats (py_readlines c))"
  shows "(fst (process_file fs p) = Some NaN \<longleftrightarrow> hd (last_floats (py_readlines c)) = NaN) \<and>
         (hd (last_floats (py_readlines c)) \<noteq> NaN \<longrightarrow>
            fst (process_file fs p) = Some (Num (Max (xabs ` set (nums (last_floats (py_readlines c)))))))"
proof -
  obtain v vs where l: "last_floats (py_readlines c) = v # vs"
    using assms(2) by (cases "last_floats (py_readlines c)") auto
  have "fst (process_file fs p) = max_abs_spec (v # vs)"
    using assms(1) l by (simp add: process_file_scan)
  then show ?thesis
    using l by (simp add: max_abs_spec_def)
qed

theorem process_file_nan_witness:
  "fst (process_file \<lparr>fs_files = [''f'' \<mapsto> ''nan'' @ [LF] @ ''1''], fs_writable = \<lambda>_. False\<rparr> ''f'') = Some NaN \<and>
   fst (process_file \<lparr>fs_files = [''f'' \<mapsto> ''1'' @ [LF] @ ''nan''], fs_writable = \<lambda>_. False\<rparr> ''f'') = Some (Num (Fin 1))"
proof -
  have l1: "last_floats (py_readlines (''nan'' @ [LF] @ ''1'')) = [NaN, Num (Fin 1)]"
   and l2: "last_floats (py_readlines (''1'' @ [LF] @ ''nan'')) = [Num (Fin 1), NaN]"
    by (simp_all add: last_floats_def nonblank_def py_eval)
  have a: "fst (process_file \<lparr>fs_files = [''f'' \<mapsto> ''nan'' @ [LF] @ ''1''], fs_writable = \<lambda>_. False\<rparr> ''f'') = Some NaN"
    using process_file_nan [of "\<lparr>fs_files = [''f'' \<mapsto> ''nan'' @ [LF] @ ''1''], fs_writable = \<lambda>_. False\<rparr>" "''f''" "''nan'' @ [LF] @ ''1''"] l1
    by simp
  have b: "fst (process_file \<lparr>fs_files = [''f'' \<mapsto> ''1'' @ [LF] @ ''nan''], fs_writable = \<lambda>_. False\<rparr> ''f'') = Some (Num (Fin 1))"
    using process_file_nan [of "\<lparr>fs_files = [''f'' \<mapsto> ''1'' @ [LF] @ ''nan''], fs_writable = \<lambda>_. False\<rparr>" "''f''" "''1'' @ [LF] @ ''nan''"] l2
    by simp
  from a b show ?thesis ..
qed

text \<open>
  C18. A file name \<open>S2_B<a>_IDA_8.5MPa_barfiber<b>.out\<close> with a decimal \<open>a\<close> and a non-empty \<open>b\<close> of digits, dots and minus signs matches the folder pattern, and \<open>extract_numbers\<close> returns \<open>(B<a>, float(b))\<close>, raising as \<open>float(b)\<close> does.
\<close>

lemma canonical_name_parsed:
  assumes "list_all is_digit a" "list_all is_num_char b" "b \<noteq> []"
  shows "folder_pattern (canon_name a b) \<and>
         extract_numbers (canon_name a b) = map_sum id (\<lambda>v. Some (''B'' @ a, v)) (float_res b)"
proof -
  have "CHR ''_'' \<notin> set a \<and> CHR ''b'' \<notin> set a \<and> LF \<notin> set a"
    using num_chars_not [OF digits_num_chars [OF assms(1)]] .
  then show ?thesis
    using assms(2,3) num_chars_not [OF assms(2)] by (simp add: folder_pattern_canon extract_numbers_canon)
qed

lemma canonical_name_parsed_witness:
  "list_all is_digit ''3'' \<and> list_all is_num_char ''1.5'' \<and> ''1.5'' \<noteq> [] \<and>
   folder_pattern ''S2_B3_IDA_8.5MPa_barfiber1.5.out'' \<and>
   extract_numbers ''S2_B3_IDA_8.5MPa_barfiber1.5.out'' = Inr (Some (''B3'', Num (Fin (3/2))))"
proof -
  have "float_res ''1.5'' = Inr (Num (Fin (3/2)))"
    by (simp add: py_eval)
  moreover have "list_all is_digit ''3'' \<and> list_all is_num_char ''1.5''"
    by (simp add: is_num_char_def is_digit_def)
  ultimately show ?thesis
    using canonical_name_parsed [of "''3''" "''1.5''"] by (simp add: canon_name_def)
qed

text \<open>
  C19. A matching file name whose barfiber number is not a float (e.g. \<open>1-2\<close>) makes the whole folder raise \<open>ValueError\<close>: the exception of \<open>extract_numbers\<close> is not caught, whatever files come after it.
\<close>

lemma process_folder_bad_number:
  assumes "process_entries fs d empty_facc pre = Inr acc"
    and "name_part a" "list_all is_num_char b" "b \<noteq> []" "py_float b = None"
  shows "process_folder fs d (pre @ canon_name a b # post) = Inl ValueError"
proof -
  have "process_entry fs d acc (canon_name a b) = Inl ValueError"
    using assms(2-5) by (intro process_entry_canon_error) (simp_all add: float_res_def)
  with assms(1) show ?thesis
    by (simp add: process_folder_def process_entries_append)
qed

lemma process_folder_bad_number_witness:
  "process_entries \<lparr>fs_files = Map.empty, fs_writable = \<lambda>_. False\<rparr> ''d'' empty_facc [] = Inr empty_facc \<and>
   name_part ''3'' \<and> list_all is_num_char ''1-2'' \<and> py_float ''1-2'' = None \<and>
   process_folder \<lparr>fs_files = Map.empty, fs_writable = \<lambda>_. False\<rparr> ''d'' [''S2_B3_IDA_8.5MPa_barfiber1-2.out''] = Inl ValueError"
proof -
  have h: "name_part ''3'' \<and> list_all is_num_char ''1-2'' \<and> py_float ''1-2'' = None"
    by (simp add: name_part_def is_num_char_def is_digit_def py_eval)
  then show ?thesis
    using process_folder_bad_number [of "\<lparr>fs_files = Map.empty, fs_writable = \<lambda>_. False\<rparr>" "''d''" "[]" empty_facc
        "''3''" "''1-2''" "[]"]
    by (simp add: canon_name_def)
qed

text \<open>
  C20. A readable matching file with values whose B label is not an integer (e.g. \<open>Bx\<close>) makes the folder raise \<open>ValueError\<close> at the sort of line 134, whatever files come after it.
\<close>

lemma process_folder_bad_label:
  assumes "process_entries fs d empty_facc pre = Inr acc"
    and "name_part a" "list_all is_num_char b" "b \<noteq> []" "float_res b = Inr v"
    and "fs_files fs (py_path_join d (canon_name a b)) = Some c" "last_floats (py_readlines c) \<noteq> []"
    and "isl (int_res a)"
  shows "process_folder fs d (pre @ canon_name a b # post) = Inl ValueError"
proof -
  obtain acc1 where e: "process_entry fs d acc (canon_name a b) = Inr acc1"
    and a1: "''B'' @ a \<in> set (f_num_a acc1)" "f_results acc1 \<noteq> []"
    using process_entry_canon [OF assms(2-7)] by blast
  show ?thesis
  proof (cases "process_entries fs d acc1 post")
    case (Inl e')
    then show ?thesis
      using assms(1) e process_entries_error by (simp add: process_folder_def process_entries_append)
  next
    case (Inr acc2)
    with a1 have "''B'' @ a \<in> set (f_num_a acc2)" "f_results acc2 \<noteq> []"
      using process_entries_mono by blast+
    then have "folder_table acc2 = Inl ValueError"
      using assms(8) by (intro folder_table_label_error [of "''B'' @ a"]) simp_all
    with Inr assms(1) e \<open>f_results acc2 \<noteq> []\<close> show ?thesis
      by (simp add: process_folder_def process_entries_append)
  qed
qed

lemma process_folder_bad_label_witness:
  "process_entries \<lparr>fs_files = [''d/S2_Bx_IDA_8.5MPa_barfiber1.out'' \<mapsto> ''1''], fs_writable = \<lambda>_. False\<rparr> ''d'' empty_facc [] = Inr empty_facc \<and>
   name_part ''x'' \<and> list_all is_num_char ''1'' \<and> float_res ''1'' = Inr (Num (Fin 1)) \<and>
   fs_files \<lparr>fs_files = [''d/S2_Bx_IDA_8.5MPa_barfiber1.out'' \<mapsto> ''1''], fs_writable = \<lambda>_. False\<rparr> (py_path_join ''d'' (canon_name ''x'' ''1'')) = Some ''1'' \<and>
   last_floats (py_readlines ''1'') \<noteq> [] \<and> isl (int_res ''x'') \<and>
   process_folder \<lparr>fs_files = [''d/S2_Bx_IDA_8.5MPa_barfiber1.out'' \<mapsto> ''1''], fs_writable = \<lambda>_. False\<rparr> ''d'' [''S2_Bx_IDA_8.5MPa_barfiber1.out''] = Inl ValueError"
proof -
  have h: "name_part ''x'' \<and> list_all is_num_char ''1'' \<and> float_res ''1'' = Inr (Num (Fin 1)) \<and>
     fs_files \<lparr>fs_files = [''d/S2_Bx_IDA_8.5MPa_barfiber1.out'' \<mapsto> ''1''], fs_writable = \<lambda>_. False\<rparr> (py_path_join ''d'' (canon_name ''x'' ''1'')) = Some ''1'' \<and>
     last_floats (py_readlines ''1'') \<noteq> [] \<and> isl (int_res ''x'')"
    by (simp add: name_part_def is_num_char_def is_digit_def canon_name_def last_floats_def nonblank_def py_eval)
  then show ?thesis
    using process_folder_bad_label [of "\<lparr>fs_files = [''d/S2_Bx_IDA_8.5MPa_barfiber1.out'' \<mapsto> ''1''], fs_writable = \<lambda>_. False\<rparr>" "''d''" "[]" empty_facc "''x''" "''1''" "Num (Fin 1)" "''1''" "[]"]
    by (simp add: canon_name_def)
qed

text \<open>
  C21. A produced table has the header cell \<open>b\<close>, backslash, \<open>a\<close>, then distinct a labels sorted by their integer value; its rows have distinct b values in ascending order, and each row has one cell per a label.
\<close>

lemma process_folder_table:
  assumes "process_folder fs d fns = Inr (Some (hdr, rows), errs)"
  shows "hd hdr = ''b'' @ [CHR 0x5C] @ ''a'' \<and> distinct (tl hdr) \<and>
         (\<exists>ks. rmap (\<lambda>x. int_res (drop 1 x)) (tl hdr) = Inr ks \<and> sorted ks) \<and>
         sorted (map (fkey \<circ> fst) rows) \<and> distinct (map fst rows) \<and>
         (\<forall>r \<in> set rows. length (snd r) = length hdr - 1)"
proof -
  obtain acc where acc: "process_entries fs d empty_facc fns = Inr acc" "folder_table acc = Inr (hdr, rows)"
    using assms by (auto simp: process_folder_def rbind_eq_Inr_iff split: if_splits)
  have inv: "facc_inv acc"
    using facc_inv_process_entries [OF acc(1) facc_inv_empty] .
  note sh = folder_table_shape [OF acc(2) inv]
  have "sorted (map (fkey \<circ> fst) rows)"
    using sh sorted_sort_key [of fkey "f_num_b acc"] by (simp flip: map_map)
  moreover have "distinct (map fst rows)"
    using sh inv by (simp add: facc_inv_def)
  ultimately show ?thesis
    using sh by simp
qed

lemma process_folder_table_witness:
  "process_folder \<lparr>fs_files = [''d/S2_B3_IDA_8.5MPa_barfiber1.out'' \<mapsto> ''2'', ''d/S2_B3_IDA_8.5MPa_barfiber1.0.out'' \<mapsto> ''5'', ''d/S2_B10_IDA_8.5MPa_barfiber0.5.out'' \<mapsto> ''-7''], fs_writable = \<lambda>_. False\<rparr> ''d'' [''S2_B10_IDA_8.5MPa_barfiber0.5.out'', ''S2_B3_IDA_8.5MPa_barfiber1.out''] =
     Inr (Some ([''b'' @ [CHR 0x5C] @ ''a'', ''B3'', ''B10''],
                [(Num (Fin (1/2)), [TErr, TVal (Num (Fin 7000))]), (Num (Fin 1), [TVal (Num (Fin 2000)), TErr])]), []) \<and>
   distinct [''B3'', ''B10''] \<and> sorted [Fin (1/2), Fin 1]"
proof -
  have e: "process_folder \<lparr>fs_files = [''d/S2_B3_IDA_8.5MPa_barfiber1.out'' \<mapsto> ''2'', ''d/S2_B3_IDA_8.5MPa_barfiber1.0.out'' \<mapsto> ''5'', ''d/S2_B10_IDA_8.5MPa_barfiber0.5.out'' \<mapsto> ''-7''], fs_writable = \<lambda>_. False\<rparr> ''d'' [''S2_B10_IDA_8.5MPa_barfiber0.5.out'', ''S2_B3_IDA_8.5MPa_barfiber1.out''] =
     Inr (Some ([''b'' @ [CHR 0x5C] @ ''a'', ''B3'', ''B10''],
                [(Num (Fin (1/2)), [TErr, TVal (Num (Fin 7000))]), (Num (Fin 1), [TVal (Num (Fin 2000)), TErr])]), [])"
    by (simp add: barfiber_eval py_eval)
  from process_folder_table [OF e] e show ?thesis
    by simp
qed

text \<open>
  C22. Two readable files of one B label whose barfiber numbers are different texts of the same float (\<open>barfiber1\<close> and \<open>barfiber1.0\<close>) share one cell, which holds the value of the file listed last: the table depends on the listing order of \<open>os.listdir\<close>.
\<close>

theorem process_folder_last_wins:
  assumes "name_part a" "int_res a = Inr k"
    and "list_all is_num_char b1" "b1 \<noteq> []" "float_res b1 = Inr v"
    and "list_all is_num_char b2" "b2 \<noteq> []" "float_res b2 = Inr v"
    and "fst (process_file fs (py_path_join d (canon_name a b1))) = Some w1"
    and "fst (process_file fs (py_path_join d (canon_name a b2))) = Some w2"
  shows "\<exists>errs. process_folder fs d [canon_name a b1, canon_name a b2] =
           Inr (Some ([''b'' @ [CHR 0x5C] @ ''a'', ''B'' @ a], [(v, [TVal (py_mul_int w2 1000)])]), errs)"
proof -
  obtain es1 where p1: "process_file fs (py_path_join d (canon_name a b1)) = (Some w1, es1)"
    using assms(9) by (cases "process_file fs (py_path_join d (canon_name a b1))") auto
  obtain es2 where p2: "process_file fs (py_path_join d (canon_name a b2)) = (Some w2, es2)"
    using assms(10) by (cases "process_file fs (py_path_join d (canon_name a b2))") auto
  obtain acc1 where a1: "f_results acc1 = []" "f_num_a acc1 = []" "f_num_b acc1 = []"
    and e1: "process_entry fs d empty_facc (canon_name a b1) = Inr (record_result v (''B'' @ a) (py_mul_int w1 1000) acc1)"
    using process_entry_canon_value [OF assms(1,3,4,5) p1, of empty_facc] by (auto simp: empty_facc_def)
  let ?acc1 = "record_result v (''B'' @ a) (py_mul_int w1 1000) acc1"
  obtain acc2 where a2: "f_results acc2 = f_results ?acc1" "f_num_a acc2 = f_num_a ?acc1" "f_num_b acc2 = f_num_b ?acc1"
    and e2: "process_entry fs d ?acc1 (canon_name a b2) = Inr (record_result v (''B'' @ a) (py_mul_int w2 1000) acc2)"
    using process_entry_canon_value [OF assms(1,6,7,8) p2, of ?acc1] by blast
  let ?acc = "record_result v (''B'' @ a) (py_mul_int w2 1000) acc2"
  have r: "f_results ?acc = [(v, [(''B'' @ a, py_mul_int w2 1000)])]" "f_num_a ?acc = [''B'' @ a]" "f_num_b ?acc = [v]"
    using a1 a2 by (simp_all add: record_result_def)
  have "folder_table ?acc = Inr ([''b'' @ [CHR 0x5C] @ ''a'', ''B'' @ a], [(v, [TVal (py_mul_int w2 1000)])])"
    using r assms(2) by (simp add: folder_table_def table_cell_def)
  with e1 e2 r show ?thesis
    by (simp add: process_folder_def)
qed

theorem process_folder_last_wins_witness:
  "process_folder \<lparr>fs_files = [''d/S2_B3_IDA_8.5MPa_barfiber1.out'' \<mapsto> ''2'', ''d/S2_B3_IDA_8.5MPa_barfiber1.0.out'' \<mapsto> ''5''], fs_writable = \<lambda>_. False\<rparr>
      ''d'' [canon_name ''3'' ''1'', canon_name ''3'' ''1.0''] =
     Inr (Some ([''b'' @ [CHR 0x5C] @ ''a'', ''B3''], [(Num (Fin 1), [TVal (py_mul_int (Num (Fin 5)) 1000)])]), [])"
proof -
  have h: "name_part ''3''" "int_res ''3'' = Inr 3" "list_all is_num_char ''1''" "''1'' \<noteq> []" "float_res ''1'' = Inr (Num (Fin 1))"
    "list_all is_num_char ''1.0''" "''1.0'' \<noteq> []" "float_res ''1.0'' = Inr (Num (Fin 1))"
    by (simp_all add: name_part_def is_num_char_def is_digit_def py_eval)
  have f: "fst (process_file \<lparr>fs_files = [''d/S2_B3_IDA_8.5MPa_barfiber1.out'' \<mapsto> ''2'', ''d/S2_B3_IDA_8.5MPa_barfiber1.0.out'' \<mapsto> ''5''], fs_writable = \<lambda>_. False\<rparr>
             (py_path_join ''d'' (canon_name ''3'' ''1''))) = Some (Num (Fin 2))"
    "fst (process_file \<lparr>fs_files = [''d/S2_B3_IDA_8.5MPa_barfiber1.out'' \<mapsto> ''2'', ''d/S2_B3_IDA_8.5MPa_barfiber1.0.out'' \<mapsto> ''5''], fs_writable = \<lambda>_. False\<rparr>
             (py_path_join ''d'' (canon_name ''3'' ''1.0''))) = Some (Num (Fin 5))"
    by (simp_all add: canon_name_def barfiber_eval py_eval)
  obtain errs where "process_folder \<lparr>fs_files = [''d/S2_B3_IDA_8.5MPa_barfiber1.out'' \<mapsto> ''2'', ''d/S2_B3_IDA_8.5MPa_barfiber1.0.out'' \<mapsto> ''5''], fs_writable = \<lambda>_. False\<rparr>
      ''d'' [canon_name ''3'' ''1'', canon_name ''3'' ''1.0''] =
     Inr (Some ([''b'' @ [CHR 0x5C] @ ''a'', ''B'' @ ''3''], [(Num (Fin 1), [TVal (py_mul_int (Num (Fin 5)) 1000)])]), errs)"
    using process_folder_last_wins [OF h f] by blast
  moreover have "process_folder \<lparr>fs_files = [''d/S2_B3_IDA_8.5MPa_barfiber1.out'' \<mapsto> ''2'', ''d/S2_B3_IDA_8.5MPa_barfiber1.0.out'' \<mapsto> ''5''], fs_writable = \<lambda>_. False\<rparr>
      ''d'' [canon_name ''3'' ''1'', canon_name ''3'' ''1.0''] \<noteq> Inl ValueError"
    by (simp add: canon_name_def barfiber_eval py_eval)
  ultimately show ?thesis
    by (simp add: canon_name_def barfiber_eval py_eval)
qed

end
