(* ===== verification/BarfiberOutput.thy ===== *)
theory BarfiberOutput
  imports Barfiber
begin

text \<open>
  The output side of \<open>src/process_barfiber.py\<close>: \<open>write_error_log\<close> (lines
  47-61), the writing of a folder's table and log inside the \<open>try\<close> of lines
  137-163 (\<open>save_results\<close>), one iteration of the folder loop (\<open>folder_step\<close>,
  lines 100-163), the loop (\<open>folders_loop\<close>), the \<open>while True\<close> loop of folder
  selection (lines 69-83) as \<open>select_folders\<close>, and \<open>process_folders\<close> (lines
  63-166).  The program runs on a state \<open>bstate\<close> of the file system and the
  messages shown (\<open>bmsg\<close>: the message boxes and the \<open>print\<close> of line 159).  An
  exception that the code does not catch (the \<open>ValueError\<close>s of \<open>Barfiber\<close>, the
  \<open>OSError\<close> of \<open>os.listdir\<close>) ends the run: the state reached so far and
  \<open>Inl\<close> of the exception.
  The dialogs are inputs: \<open>pick i\<close> is the folder chosen in round \<open>i\<close> of the
  selection loop (the empty path for cancel), \<open>again i\<close> the answer to "continue?",
  \<open>output_dir\<close> the output folder, \<open>ls\<close> the listing \<open>os.listdir\<close> returns
  (\<open>None\<close>: the folder is gone), \<open>clock i\<close> the time stamp
  \<open>datetime.now().strftime('%Y%m%d_%H%M%S')\<close> when folder \<open>i\<close> writes its log, and
  \<open>repr\<close> the text \<open>str()\<close> gives a float.  The log is opened with
  \<open>encoding='utf-8'\<close>: its literal text is given as the UTF-8 bytes, and file
  contents as byte strings (names are taken to be ASCII).
\<close>

subsection \<open>The error log\<close>

text \<open>
  The literal text of the log as UTF-8 bytes: the title (four CJK characters, "error
  log", then \<open>" - "\<close>) of line 53, the newline and file label (two CJK
  characters, "file", then \<open>": "\<close>) of line 57, and the line label (one CJK
  character, "line", then a space) of line 59.
\<close>

definition log_title :: string where
  "log_title = [CHR 0xE9, CHR 0x94, CHR 0x99, CHR 0xE8, CHR 0xAF, CHR 0xAF, CHR 0xE6, CHR 0x97, CHR 0xA5,
                CHR 0xE5, CHR 0xBF, CHR 0x97, CHR 0x20, CHR 0x2D, CHR 0x20]"

definition file_label :: string where
  "file_label = [CHR 0x0A, CHR 0xE6, CHR 0x96, CHR 0x87, CHR 0xE4, CHR 0xBB, CHR 0xB6, CHR 0x3A, CHR 0x20]"

definition line_label :: string where
  "line_label = [CHR 0xE8, CHR 0xA1, CHR 0x8C, CHR 0x20]"

definition log_line :: "nat \<times> string \<Rightarrow> string" where
  "log_line e = line_label @ nat_str (fst e) @ '': '' @ snd e @ [LF]"

definition log_entry :: "path \<times> (nat \<times> string) list \<Rightarrow> string" where
  "log_entry fe =
     (if snd fe = [] then [] else file_label @ py_basename (fst fe) @ [LF] @ concat (map log_line (snd fe)))"

definition log_text :: "string \<Rightarrow> (path \<times> (nat \<times> string) list) list \<Rightarrow> string" where
  "log_text folder_name errors =
     log_title @ folder_name @ [LF] @ replicate 50 (CHR ''='') @ [LF, LF] @ concat (map log_entry errors)"

definition log_name :: "path \<Rightarrow> string \<Rightarrow> string \<Rightarrow> path" where
  "log_name output_dir folder_name stamp =
     py_path_join output_dir (''error_log_'' @ folder_name @ ''_'' @ stamp @ ''.txt'')"

definition write_error_log ::
  "fsys \<Rightarrow> path \<Rightarrow> string \<Rightarrow> string \<Rightarrow> (path \<times> (nat \<times> string) list) list \<Rightarrow> py_error + fsys \<times> path option"
where
  "write_error_log fs output_dir folder_name stamp errors =
     (if errors = [] then Inr (fs, None)
      else let log_path = log_name output_dir folder_name stamp
           in if \<not> fs_writable fs log_path then Inl OSError
              else Inr (write_file fs log_path (log_text folder_name errors), Some log_path))"

subsection \<open>The program state\<close>

datatype bmsg =
    NoFolders
  | NoResults string
  | SaveFailed py_error
  | LogSaved path
  | Finished path

record bstate =
  b_fs :: fsys
  b_msgs :: "bmsg list"

definition b_add :: "bmsg \<Rightarrow> bstate \<Rightarrow> bstate" where
  "b_add m st = st\<lparr>b_msgs := b_msgs st @ [m]\<rparr>"

subsection \<open>One folder\<close>

definition tcell_str :: "(pyfloat \<Rightarrow> string) \<Rightarrow> tcell \<Rightarrow> string" where
  "tcell_str repr c = (case c of TVal v \<Rightarrow> repr v | TErr \<Rightarrow> ''error'')"

definition table_text :: "(pyfloat \<Rightarrow> string) \<Rightarrow> string list \<times> (pyfloat \<times> tcell list) list \<Rightarrow> string" where
  "table_text repr t =
     py_join [TAB] (fst t) @ [LF] @
     concat (map (\<lambda>(num_b, cells). py_join [TAB] (repr num_b # map (tcell_str repr) cells) @ [LF]) (snd t))"

definition results_path :: "path \<Rightarrow> string \<Rightarrow> path" where
  "results_path output_dir folder_name = py_path_join output_dir (folder_name @ ''_results.txt'')"

definition save_results ::
  "(pyfloat \<Rightarrow> string) \<Rightarrow> path \<Rightarrow> string \<Rightarrow> string \<Rightarrow> string list \<times> (pyfloat \<times> tcell list) list \<Rightarrow>
   (path \<times> (nat \<times> string) list) list \<Rightarrow> bstate \<Rightarrow> bstate"
where
  "save_results repr output_dir folder_name stamp t errors st =
     (let output_path = results_path output_dir folder_name
      in if \<not> fs_writable (b_fs st) output_path then b_add (SaveFailed OSError) st
         else let st1 = st\<lparr>b_fs := write_file (b_fs st) output_path (table_text repr t)\<rparr>
              in if errors = [] then st1
                 else (case write_error_log (b_fs st1) output_dir folder_name stamp errors of
                         Inl e \<Rightarrow> b_add (SaveFailed e) st1
                       | Inr (fs2, None) \<Rightarrow> st1\<lparr>b_fs := fs2\<rparr>
                       | Inr (fs2, Some p) \<Rightarrow> b_add (LogSaved p) (st1\<lparr>b_fs := fs2\<rparr>)))"

definition folder_step ::
  "(pyfloat \<Rightarrow> string) \<Rightarrow> (path \<Rightarrow> string list option) \<Rightarrow> path \<Rightarrow> string \<Rightarrow> path \<Rightarrow> bstate \<Rightarrow>
   bstate \<times> (py_error + unit)"
where
  "folder_step repr ls output_dir stamp folder_path st =
     (let folder_name = py_basename folder_path
      in case ls folder_path of
           None \<Rightarrow> (st, Inl OSError)
         | Some filenames \<Rightarrow>
             (case process_folder (b_fs st) folder_path filenames of
                Inl e \<Rightarrow> (st, Inl e)
              | Inr (None, _) \<Rightarrow> (b_add (NoResults folder_name) st, Inr ())
              | Inr (Some t, errors) \<Rightarrow> (save_results repr output_dir folder_name stamp t errors st, Inr ())))"

subsection \<open>The program\<close>

fun folders_loop ::
  "(pyfloat \<Rightarrow> string) \<Rightarrow> (path \<Rightarrow> string list option) \<Rightarrow> path \<Rightarrow> (nat \<Rightarrow> string) \<Rightarrow> nat \<Rightarrow> path list \<Rightarrow>
   bstate \<Rightarrow> bstate \<times> (py_error + unit)"
where
  "folders_loop repr ls output_dir clock i [] st = (st, Inr ())"
| "folders_loop repr ls output_dir clock i (fp # fps) st =
     (case folder_step repr ls output_dir (clock i) fp st of
        (st1, Inl e) \<Rightarrow> (st1, Inl e)
      | (st1, Inr _) \<Rightarrow> folders_loop repr ls output_dir clock (Suc i) fps st1)"

partial_function (option) select_folders :: "(nat \<Rightarrow> path) \<Rightarrow> (nat \<Rightarrow> bool) \<Rightarrow> nat \<Rightarrow> path list \<Rightarrow> path list option"
where
  "select_folders pick again i acc =
     (if pick i = [] then Some acc
      else if \<not> again i then Some (acc @ [pick i])
      else select_folders pick again (Suc i) (acc @ [pick i]))"

definition process_folders ::
  "(pyfloat \<Rightarrow> string) \<Rightarrow> (path \<Rightarrow> string list option) \<Rightarrow> (nat \<Rightarrow> path) \<Rightarrow> (nat \<Rightarrow> bool) \<Rightarrow> path \<Rightarrow>
   (nat \<Rightarrow> string) \<Rightarrow> fsys \<Rightarrow> (bstate \<times> (py_error + unit)) option"
where
  "process_folders repr ls pick again output_dir clock fs =
     map_option (\<lambda>folder_paths.
         let st0 = \<lparr>b_fs = fs, b_msgs = []\<rparr>
         in if folder_paths = [] then (b_add NoFolders st0, Inr ())
            else if output_dir = [] then (st0, Inr ())
            else (case folders_loop repr ls output_dir clock 0 folder_paths st0 of
                    (st1, Inl e) \<Rightarrow> (st1, Inl e)
                  | (st1, Inr _) \<Rightarrow> (b_add (Finished output_dir) st1, Inr ())))
       (select_folders pick again 0 [])"

subsection \<open>The specification side\<close>

text \<open>The cells of the table, line by line: the header, then per b value its text and cells.\<close>

definition table_rows :: "(pyfloat \<Rightarrow> string) \<Rightarrow> string list \<times> (pyfloat \<times> tcell list) list \<Rightarrow> string list list" where
  "table_rows repr t = fst t # map (\<lambda>(num_b, cells). repr num_b # map (tcell_str repr) cells) (snd t)"

text \<open>The lines of the error log without their line breaks: the title, the rule, an empty
  line, and per file with errors an empty line, the file line and one line per error.\<close>

definition log_entry_rows :: "path \<times> (nat \<times> string) list \<Rightarrow> string list" where
  "log_entry_rows fe =
     (if snd fe = [] then []
      else [[], drop 1 file_label @ py_basename (fst fe)] @ map (\<lambda>e. line_label @ nat_str (fst e) @ '': '' @ snd e) (snd fe))"

definition log_rows :: "string \<Rightarrow> (path \<times> (nat \<times> string) list) list \<Rightarrow> string list" where
  "log_rows folder_name errors =
     [log_title @ folder_name, replicate 50 (CHR ''=''), []] @ concat (map log_entry_rows errors)"

subsection \<open>Lemmas\<close>

lemma select_folders_forever:
  assumes h: "\<forall>j. pick j \<noteq> [] \<and> again j"
  shows "select_folders pick again i acc = None"
proof -
  have "\<forall>pk ag i acc r. select_folders pk ag i acc = Some r \<longrightarrow> pk = pick \<longrightarrow> ag = again \<longrightarrow> False"
  proof (induction rule: select_folders.fixp_induct)
    case 1
    have e: "(\<lambda>f. \<forall>pk ag i acc r. curry (curry (curry f)) pk ag i acc = Some r \<longrightarrow> pk = pick \<longrightarrow> ag = again \<longrightarrow> False) =
             (\<lambda>f. \<forall>x y. f x = Some y \<longrightarrow> \<not> (fst (fst (fst x)) = pick \<and> snd (fst (fst x)) = again))"
      by (rule ext) (auto simp: split_paired_all)
    show ?case unfolding e by (rule option_admissible)
  next
    case 2
    then show ?case by simp
  next
    case (3 f)
    then show ?case using h by auto
  qed
  then show ?thesis by (cases "select_folders pick again i acc") auto
qed

lemma select_folders_stop:
  "i \<le> k \<Longrightarrow> \<forall>j. i \<le> j \<and> j < k \<longrightarrow> pick j \<noteq> [] \<and> again j \<Longrightarrow> pick k = [] \<or> \<not> again k \<Longrightarrow>
   select_folders pick again i acc = Some (acc @ map pick [i..<k] @ (if pick k = [] then [] else [pick k]))"
proof (induction "k - i" arbitrary: i acc)
  case 0
  then have "i = k" by simp
  with "0.prems"(3) show ?case by (subst select_folders.simps) auto
next
  case (Suc n)
  then have ik: "i < k" "pick i \<noteq> []" "again i" by auto
  have "select_folders pick again (Suc i) (acc @ [pick i]) =
          Some ((acc @ [pick i]) @ map pick [Suc i..<k] @ (if pick k = [] then [] else [pick k]))"
    using Suc.hyps(2) Suc.prems(2,3) ik(1) by (intro Suc.hyps(1)) auto
  with ik show ?case
    by (subst select_folders.simps) (simp add: upt_conv_Cons del: upt_Suc)
qed

lemma process_entry_no_value:
  assumes "\<not> isl (extract_numbers f)" "fst (process_file fs (py_path_join d f)) = None"
  shows "\<exists>acc'. process_entry fs d acc f = Inr acc' \<and> f_results acc' = f_results acc"
proof -
  obtain r where r: "extract_numbers f = Inr r" using assms(1) by (cases "extract_numbers f") auto
  obtain es where "process_file fs (py_path_join d f) = (None, es)"
    using assms(2) by (cases "process_file fs (py_path_join d f)") auto
  with r show ?thesis
    by (cases r) (auto simp: process_entry_def Let_def)
qed

lemma process_entries_no_value:
  "\<forall>f \<in> set fns. \<not> isl (extract_numbers f) \<and> fst (process_file fs (py_path_join d f)) = None \<Longrightarrow>
   \<exists>acc'. process_entries fs d acc fns = Inr acc' \<and> f_results acc' = f_results acc"
proof (induction fns arbitrary: acc)
  case Nil
  then show ?case by simp
next
  case (Cons f fns)
  then have h: "\<not> isl (extract_numbers f)" "fst (process_file fs (py_path_join d f)) = None"
    by simp_all
  obtain acc1 where e: "process_entry fs d acc f = Inr acc1" and r: "f_results acc1 = f_results acc"
    using process_entry_no_value [OF h, of acc] by blast
  obtain acc' where "process_entries fs d acc1 fns = Inr acc'" "f_results acc' = f_results acc1"
    using Cons.IH [of acc1] Cons.prems by auto
  with e r show ?case by simp
qed

lemma save_results_table:
  assumes "fs_writable (b_fs st) (results_path d n)" "log_name d n stamp \<noteq> results_path d n"
  shows "fs_files (b_fs (save_results repr d n stamp t errors st)) (results_path d n) = Some (table_text repr t)"
  using assms
  by (cases "errors = []"; cases "fs_writable (b_fs st) (log_name d n stamp)")
     (simp_all add: save_results_def write_error_log_def b_add_def Let_def)

lemma save_results_log:
  assumes "fs_writable (b_fs st) (results_path d n)" "fs_writable (b_fs st) (log_name d n stamp)" "errors \<noteq> []"
  shows "fs_files (b_fs (save_results repr d n stamp t errors st)) (log_name d n stamp) = Some (log_text n errors) \<and>
         b_msgs (save_results repr d n stamp t errors st) = b_msgs st @ [LogSaved (log_name d n stamp)]"
  using assms by (simp add: save_results_def write_error_log_def b_add_def Let_def)

lemma save_results_finished [simp]:
  "Finished p \<in> set (b_msgs (save_results repr d n stamp t errors st)) \<longleftrightarrow> Finished p \<in> set (b_msgs st)"
  by (cases "errors = []"; cases "fs_writable (b_fs st) (results_path d n)"; cases "fs_writable (b_fs st) (log_name d n stamp)")
     (simp_all add: save_results_def write_error_log_def b_add_def Let_def)

lemma save_results_writable [simp]:
  "fs_writable (b_fs (save_results repr d n stamp t errors st)) = fs_writable (b_fs st)"
  by (cases "errors = []"; cases "fs_writable (b_fs st) (results_path d n)"; cases "fs_writable (b_fs st) (log_name d n stamp)")
     (simp_all add: save_results_def write_error_log_def b_add_def Let_def)

lemma folder_step_cases:
  assumes "\<And>e. P (st, Inl e)" "\<And>n. P (b_add (NoResults n) st, Inr ())"
    and "\<And>n t errors. P (save_results repr d n stamp t errors st, Inr ())"
  shows "P (folder_step repr ls d stamp fp st)"
proof (cases "ls fp")
  case None
  then show ?thesis using assms(1) by (simp add: folder_step_def)
next
  case (Some fns)
  then show ?thesis
    using assms by (auto simp: folder_step_def Let_def split: sum.split option.split)
qed

lemma folder_step_finished [simp]:
  "Finished p \<in> set (b_msgs (fst (folder_step repr ls d stamp fp st))) \<longleftrightarrow> Finished p \<in> set (b_msgs st)"
  by (rule folder_step_cases) (simp_all add: b_add_def)

lemma folder_step_writable [simp]:
  "fs_writable (b_fs (fst (folder_step repr ls d stamp fp st))) = fs_writable (b_fs st)"
  by (rule folder_step_cases) (simp_all add: b_add_def)

lemma folders_loop_finished:
  "Finished p \<in> set (b_msgs (fst (folders_loop repr ls d clock i fps st))) \<longleftrightarrow> Finished p \<in> set (b_msgs st)"
proof (induction fps arbitrary: i st)
  case Nil
  then show ?case by simp
next
  case (Cons fp fps)
  obtain st1 r1 where s: "folder_step repr ls d (clock i) fp st = (st1, r1)" by fastforce
  have "Finished p \<in> set (b_msgs st1) \<longleftrightarrow> Finished p \<in> set (b_msgs st)"
    using folder_step_finished [of p repr ls d "clock i" fp st] s by simp
  with Cons.IH [of "Suc i" st1] s show ?case by (cases r1) simp_all
qed

lemma table_text_rows: "table_text repr t = concat (map (\<lambda>r. py_join [TAB] r @ [LF]) (table_rows repr t))"
  by (simp add: table_text_def table_rows_def comp_def case_prod_unfold)

lemma log_entry_rows_text: "log_entry fe = concat (map (\<lambda>r. r @ [LF]) (log_entry_rows fe))"
  by (simp add: log_entry_def log_entry_rows_def log_line_def [abs_def] file_label_def comp_def)

lemma log_text_rows: "log_text n errors = concat (map (\<lambda>r. r @ [LF]) (log_rows n errors))"
proof -
  have "concat (map log_entry errors) = concat (map (\<lambda>r. r @ [LF]) (concat (map log_entry_rows errors)))"
    by (induction errors) (simp_all add: log_entry_rows_text)
  then show ?thesis
    by (simp add: log_text_def log_rows_def)
qed

lemma log_entry_rows_numbered:
  "filter (\<lambda>l. take 4 l = line_label) (map (\<lambda>r. r @ [LF]) (log_entry_rows fe)) = map log_line (snd fe)"
  by (simp add: log_entry_rows_def log_line_def file_label_def line_label_def comp_def)

lemma log_rows_numbered:
  "filter (\<lambda>l. take 4 l = line_label) (map (\<lambda>r. r @ [LF]) (log_rows n errors)) = map log_line (concat (map snd errors))"
proof -
  have h: "filter (\<lambda>l. take 4 l = line_label) (map (\<lambda>r. r @ [LF]) [log_title @ n, replicate 50 (CHR ''=''), []]) = []"
    by (simp add: log_title_def line_label_def numeral_eq_Suc)
  have e: "filter (\<lambda>l. take 4 l = line_label) (map (\<lambda>r. r @ [LF]) (concat (map log_entry_rows errors))) =
          map log_line (concat (map snd errors))"
    by (induction errors) (simp_all add: log_entry_rows_numbered)
  show ?thesis
    unfolding log_rows_def map_append filter_append h e by simp
qed

subsection \<open>Properties\<close>

text \<open>
  C31. The folder-selection loop (\<open>while True\<close> of lines 72-83) returns exactly when
  the user, in some round, cancels the folder dialog or answers no to "continue?"; if
  the user always picks a folder and always continues, it never returns.
\<close>

theorem select_folders_terminates:
  "select_folders pick again 0 [] \<noteq> None \<longleftrightarrow> (\<exists>k. pick k = [] \<or> \<not> again k)"
proof
  assume h: "select_folders pick again 0 [] \<noteq> None"
  show "\<exists>k. pick k = [] \<or> \<not> again k"
  proof (rule ccontr)
    assume "\<not> (\<exists>k. pick k = [] \<or> \<not> again k)"
    then have "\<forall>j. pick j \<noteq> [] \<and> again j" by blast
    then have "select_folders pick again 0 [] = None" by (rule select_folders_forever)
    with h show False by contradiction
  qed
next
  assume "\<exists>k. pick k = [] \<or> \<not> again k"
  then have s: "pick (LEAST k. pick k = [] \<or> \<not> again k) = [] \<or> \<not> again (LEAST k. pick k = [] \<or> \<not> again k)"
    by (rule LeastI_ex)
  have "\<forall>j. 0 \<le> j \<and> j < (LEAST k. pick k = [] \<or> \<not> again k) \<longrightarrow> pick j \<noteq> [] \<and> again j"
  proof (intro allI impI)
    fix j :: nat
    assume "0 \<le> j \<and> j < (LEAST k. pick k = [] \<or> \<not> again k)"
    then have "\<not> (pick j = [] \<or> \<not> again j)" by (intro not_less_Least) simp
    then show "pick j \<noteq> [] \<and> again j" by simp
  qed
  from select_folders_stop [OF le0 this s] show "select_folders pick again 0 [] \<noteq> None"
    by simp
qed

lemma select_folders_terminates_witness:
  "(\<exists>k. (if k < (2::nat) then ''f'' else []) = [] \<or> \<not> True) \<and>
   select_folders (\<lambda>i. if i < 2 then ''f'' else []) (\<lambda>_. True) 0 [] \<noteq> None"
proof -
  have e: "\<exists>k. (if k < (2::nat) then ''f'' else []) = [] \<or> \<not> True"
    by (rule exI [of _ 2]) simp
  then show ?thesis
    using select_folders_terminates [of "\<lambda>i. if i < 2 then ''f'' else []" "\<lambda>_. True"] by simp
qed

text \<open>
  C32. When round \<open>k\<close> is the first in which the user cancels or declines to continue,
  the selected folders are the folders of rounds \<open>0..k-1\<close>, followed by the folder of
  round \<open>k\<close> unless that round was cancelled.
\<close>

theorem select_folders_result:
  "pick k = [] \<or> \<not> again k \<Longrightarrow> \<forall>j < k. pick j \<noteq> [] \<and> again j \<Longrightarrow>
   select_folders pick again 0 [] = Some (map pick [0..<k] @ (if pick k = [] then [] else [pick k]))"
  using select_folders_stop [of 0 k pick again "[]"] by simp

lemma select_folders_result_witness:
  "select_folders (\<lambda>i. if i < 2 then ''f'' else []) (\<lambda>_. True) 0 [] = Some [''f'', ''f'']"
proof -
  have "select_folders (\<lambda>i. if i < 2 then ''f'' else []) (\<lambda>_. True) 0 [] =
          Some (map (\<lambda>i. if i < 2 then ''f'' else []) [0..<2] @
                (if (\<lambda>i. if i < (2::nat) then ''f'' else []) 2 = [] then [] else [(\<lambda>i. if i < (2::nat) then ''f'' else []) 2]))"
    by (rule select_folders_result) auto
  then show ?thesis by (simp add: upt_rec)
qed

text \<open>
  C33. When no file of a folder yields a value (every matching file is missing or has no
  parsable last field), the folder is reported as empty and nothing is written: the
  \<open>continue\<close> of line 131 skips \<open>write_error_log\<close>, so the errors collected
  for the folder's files are never logged.
\<close>

theorem folder_step_log_lost:
  assumes "ls fp = Some fns"
    and "\<forall>f \<in> set fns. \<not> isl (extract_numbers f) \<and> fst (process_file (b_fs st) (py_path_join fp f)) = None"
  shows "folder_step repr ls d stamp fp st = (b_add (NoResults (py_basename fp)) st, Inr ())"
proof -
  from process_entries_no_value [OF assms(2), of empty_facc]
  obtain acc' where a: "process_entries (b_fs st) fp empty_facc fns = Inr acc'"
    and b: "f_results acc' = f_results empty_facc"
    by blast
  have "f_results empty_facc = []" by (simp add: empty_facc_def)
  with a b have pf: "process_folder (b_fs st) fp fns = Inr (None, f_errors acc')"
    by (simp add: process_folder_def)
  show ?thesis
    by (simp only: folder_step_def Let_def assms(1) pf option.case sum.case prod.case)
qed

lemma folder_step_log_lost_witness:
  "folder_step (\<lambda>_. ''v'') (\<lambda>_. Some [''S2_B3_IDA_8.5MPa_barfiber1.out'']) ''out'' ''t'' ''x/d''
      \<lparr>b_fs = \<lparr>fs_files = [''x/d/S2_B3_IDA_8.5MPa_barfiber1.out'' \<mapsto> ''x''], fs_writable = \<lambda>_. True\<rparr>, b_msgs = []\<rparr> =
     (\<lparr>b_fs = \<lparr>fs_files = [''x/d/S2_B3_IDA_8.5MPa_barfiber1.out'' \<mapsto> ''x''], fs_writable = \<lambda>_. True\<rparr>,
       b_msgs = [NoResults ''d'']\<rparr>, Inr ()) \<and>
   process_folder \<lparr>fs_files = [''x/d/S2_B3_IDA_8.5MPa_barfiber1.out'' \<mapsto> ''x''], fs_writable = \<lambda>_. True\<rparr> ''x/d''
      [''S2_B3_IDA_8.5MPa_barfiber1.out''] =
     Inr (None, [(''x/d/S2_B3_IDA_8.5MPa_barfiber1.out'', [(1, ''x'')])])"
proof -
  have h: "\<forall>f \<in> set [''S2_B3_IDA_8.5MPa_barfiber1.out'']. \<not> isl (extract_numbers f) \<and>
             fst (process_file \<lparr>fs_files = [''x/d/S2_B3_IDA_8.5MPa_barfiber1.out'' \<mapsto> ''x''], fs_writable = \<lambda>_. True\<rparr>
                    (py_path_join ''x/d'' f)) = None"
    by (simp add: barfiber_eval py_eval)
  have b: "py_basename ''x/d'' = ''d''"
    by (simp add: py_basename_def last_idx_def)
  have p: "process_folder \<lparr>fs_files = [''x/d/S2_B3_IDA_8.5MPa_barfiber1.out'' \<mapsto> ''x''], fs_writable = \<lambda>_. True\<rparr> ''x/d''
      [''S2_B3_IDA_8.5MPa_barfiber1.out''] =
     Inr (None, [(''x/d/S2_B3_IDA_8.5MPa_barfiber1.out'', [(1, ''x'')])])"
    by (simp add: barfiber_eval py_eval)
  have "folder_step (\<lambda>_. ''v'') (\<lambda>_. Some [''S2_B3_IDA_8.5MPa_barfiber1.out'']) ''out'' ''t'' ''x/d''
      \<lparr>b_fs = \<lparr>fs_files = [''x/d/S2_B3_IDA_8.5MPa_barfiber1.out'' \<mapsto> ''x''], fs_writable = \<lambda>_. True\<rparr>, b_msgs = []\<rparr> =
     (b_add (NoResults (py_basename ''x/d''))
        \<lparr>b_fs = \<lparr>fs_files = [''x/d/S2_B3_IDA_8.5MPa_barfiber1.out'' \<mapsto> ''x''], fs_writable = \<lambda>_. True\<rparr>, b_msgs = []\<rparr>, Inr ())"
    by (rule folder_step_log_lost [where fns = "[''S2_B3_IDA_8.5MPa_barfiber1.out'']"]) (insert h, simp_all)
  with b p show ?thesis
    by (simp add: b_add_def)
qed

text \<open>
  C34. Two selected folders with the same base name write the same
  \<open><name>_results.txt\<close>: after both are processed, the file holds the table of the
  second folder only.
\<close>

theorem folders_loop_same_name:
  assumes "ls fpa = Some fnsa" "process_folder (b_fs st) fpa fnsa = Inr (Some ta, ea)"
    and "ls fpb = Some fnsb"
    and "process_folder (b_fs (save_results repr d (py_basename fpa) (clock 0) ta ea st)) fpb fnsb = Inr (Some tb, eb)"
    and "py_basename fpb = py_basename fpa" "fs_writable (b_fs st) (results_path d (py_basename fpa))"
    and "log_name d (py_basename fpa) (clock (Suc 0)) \<noteq> results_path d (py_basename fpa)"
  shows "snd (folders_loop repr ls d clock 0 [fpa, fpb] st) = Inr () \<and>
         fs_files (b_fs (fst (folders_loop repr ls d clock 0 [fpa, fpb] st))) (results_path d (py_basename fpa)) =
           Some (table_text repr tb)"
proof -
  let ?st1 = "save_results repr d (py_basename fpa) (clock 0) ta ea st"
  have s1: "folder_step repr ls d (clock 0) fpa st = (?st1, Inr ())"
    by (simp add: folder_step_def Let_def assms(1,2))
  have s2: "folder_step repr ls d (clock (Suc 0)) fpb ?st1 =
              (save_results repr d (py_basename fpa) (clock (Suc 0)) tb eb ?st1, Inr ())"
    by (simp add: folder_step_def Let_def assms(3,4,5))
  have "fs_writable (b_fs ?st1) (results_path d (py_basename fpa))"
    using assms(6) by simp
  from save_results_table [OF this assms(7)] s1 s2 show ?thesis
    by simp
qed

lemma folders_loop_same_name_witness:
  "snd (folders_loop (\<lambda>_. ''v'') (\<lambda>_. Some [''S2_B3_IDA_8.5MPa_barfiber1.out'']) ''out'' (\<lambda>_. ''t'') 0 [''x/d'', ''y/d'']
      \<lparr>b_fs = \<lparr>fs_files = [''x/d/S2_B3_IDA_8.5MPa_barfiber1.out'' \<mapsto> ''2'', ''y/d/S2_B3_IDA_8.5MPa_barfiber1.out'' \<mapsto> ''5''],
               fs_writable = \<lambda>_. True\<rparr>, b_msgs = []\<rparr>) = Inr () \<and>
   fs_files (b_fs (fst (folders_loop (\<lambda>_. ''v'') (\<lambda>_. Some [''S2_B3_IDA_8.5MPa_barfiber1.out'']) ''out'' (\<lambda>_. ''t'') 0 [''x/d'', ''y/d'']
      \<lparr>b_fs = \<lparr>fs_files = [''x/d/S2_B3_IDA_8.5MPa_barfiber1.out'' \<mapsto> ''2'', ''y/d/S2_B3_IDA_8.5MPa_barfiber1.out'' \<mapsto> ''5''],
               fs_writable = \<lambda>_. True\<rparr>, b_msgs = []\<rparr>))) ''out/d_results.txt'' =
     Some (table_text (\<lambda>_. ''v'') ([''b'' @ [CHR 0x5C] @ ''a'', ''B3''], [(Num (Fin 1), [TVal (Num (Fin 5000))])]))"
proof -
  have b1: "py_basename ''x/d'' = ''d''" and b2: "py_basename ''y/d'' = ''d''"
    by (simp_all add: py_basename_def last_idx_def)
  have rp: "results_path ''out'' ''d'' = ''out/d_results.txt''"
    by (simp add: results_path_def py_path_join_def)
  have ln: "log_name ''out'' ''d'' ''t'' \<noteq> results_path ''out'' ''d''"
    by (simp add: log_name_def results_path_def py_path_join_def)
  have p1: "process_folder \<lparr>fs_files = [''x/d/S2_B3_IDA_8.5MPa_barfiber1.out'' \<mapsto> ''2'', ''y/d/S2_B3_IDA_8.5MPa_barfiber1.out'' \<mapsto> ''5''],
               fs_writable = \<lambda>_. True\<rparr> ''x/d'' [''S2_B3_IDA_8.5MPa_barfiber1.out''] =
      Inr (Some ([''b'' @ [CHR 0x5C] @ ''a'', ''B3''], [(Num (Fin 1), [TVal (Num (Fin 2000))])]), [])"
    by (simp add: barfiber_eval py_eval)
  have sv: "save_results (\<lambda>_. ''v'') ''out'' ''d'' ''t'' ([''b'' @ [CHR 0x5C] @ ''a'', ''B3''], [(Num (Fin 1), [TVal (Num (Fin 2000))])]) []
      \<lparr>b_fs = \<lparr>fs_files = [''x/d/S2_B3_IDA_8.5MPa_barfiber1.out'' \<mapsto> ''2'', ''y/d/S2_B3_IDA_8.5MPa_barfiber1.out'' \<mapsto> ''5''],
               fs_writable = \<lambda>_. True\<rparr>, b_msgs = []\<rparr> =
      \<lparr>b_fs = \<lparr>fs_files = [''x/d/S2_B3_IDA_8.5MPa_barfiber1.out'' \<mapsto> ''2'', ''y/d/S2_B3_IDA_8.5MPa_barfiber1.out'' \<mapsto> ''5'',
                            ''out/d_results.txt'' \<mapsto> table_text (\<lambda>_. ''v'') ([''b'' @ [CHR 0x5C] @ ''a'', ''B3''], [(Num (Fin 1), [TVal (Num (Fin 2000))])])],
               fs_writable = \<lambda>_. True\<rparr>, b_msgs = []\<rparr>"
    by (simp add: save_results_def rp write_file_def)
  have p2: "process_folder \<lparr>fs_files = [''x/d/S2_B3_IDA_8.5MPa_barfiber1.out'' \<mapsto> ''2'', ''y/d/S2_B3_IDA_8.5MPa_barfiber1.out'' \<mapsto> ''5'',
                            ''out/d_results.txt'' \<mapsto> table_text (\<lambda>_. ''v'') ([''b'' @ [CHR 0x5C] @ ''a'', ''B3''], [(Num (Fin 1), [TVal (Num (Fin 2000))])])],
               fs_writable = \<lambda>_. True\<rparr> ''y/d'' [''S2_B3_IDA_8.5MPa_barfiber1.out''] =
      Inr (Some ([''b'' @ [CHR 0x5C] @ ''a'', ''B3''], [(Num (Fin 1), [TVal (Num (Fin 5000))])]), [])"
    by (simp add: barfiber_eval py_eval)
  have "snd (folders_loop (\<lambda>_. ''v'') (\<lambda>_. Some [''S2_B3_IDA_8.5MPa_barfiber1.out'']) ''out'' (\<lambda>_. ''t'') 0 [''x/d'', ''y/d'']
      \<lparr>b_fs = \<lparr>fs_files = [''x/d/S2_B3_IDA_8.5MPa_barfiber1.out'' \<mapsto> ''2'', ''y/d/S2_B3_IDA_8.5MPa_barfiber1.out'' \<mapsto> ''5''],
               fs_writable = \<lambda>_. True\<rparr>, b_msgs = []\<rparr>) = Inr () \<and>
   fs_files (b_fs (fst (folders_loop (\<lambda>_. ''v'') (\<lambda>_. Some [''S2_B3_IDA_8.5MPa_barfiber1.out'']) ''out'' (\<lambda>_. ''t'') 0 [''x/d'', ''y/d'']
      \<lparr>b_fs = \<lparr>fs_files = [''x/d/S2_B3_IDA_8.5MPa_barfiber1.out'' \<mapsto> ''2'', ''y/d/S2_B3_IDA_8.5MPa_barfiber1.out'' \<mapsto> ''5''],
               fs_writable = \<lambda>_. True\<rparr>, b_msgs = []\<rparr>))) (results_path ''out'' (py_basename ''x/d'')) =
     Some (table_text (\<lambda>_. ''v'') ([''b'' @ [CHR 0x5C] @ ''a'', ''B3''], [(Num (Fin 1), [TVal (Num (Fin 5000))])]))"
    by (rule folders_loop_same_name [where fnsa = "[''S2_B3_IDA_8.5MPa_barfiber1.out'']"
              and fnsb = "[''S2_B3_IDA_8.5MPa_barfiber1.out'']" and ea = "[]" and eb = "[]"
              and ta = "([''b'' @ [CHR 0x5C] @ ''a'', ''B3''], [(Num (Fin 1), [TVal (Num (Fin 2000))])])"])
       (insert p1 p2 sv b1 b2 ln, simp_all)
  then show ?thesis
    by (simp add: b1 rp)
qed

text \<open>
  C35. Reading the written table back line by line and splitting each line at tabs gives
  the header labels and, per b value, its text and cells, as long as no label or cell
  text contains a tab or a line break.
\<close>

theorem table_text_roundtrip:
  assumes "fst t \<noteq> []" "\<forall>r \<in> set (table_rows repr t). \<forall>w \<in> set r. TAB \<notin> set w \<and> LF \<notin> set w \<and> CR \<notin> set w"
  shows "map (\<lambda>l. py_split_sep TAB (butlast l)) (py_readlines (table_text repr t)) = table_rows repr t"
proof -
  have rows: "\<forall>r \<in> set (map (py_join [TAB]) (table_rows repr t)). LF \<notin> set r \<and> CR \<notin> set r"
    using assms(2) set_py_join [of "[TAB]"] by fastforce
  have "py_readlines (table_text repr t) = map (\<lambda>r. r @ [LF]) (map (py_join [TAB]) (table_rows repr t))"
    using py_readlines_rows [OF rows] by (simp add: table_text_rows comp_def)
  moreover have "\<forall>r \<in> set (table_rows repr t). r \<noteq> []"
    using assms(1) by (auto simp: table_rows_def)
  ultimately show ?thesis
    using assms(2) by (auto simp: py_split_sep_join intro!: map_idI)
qed

theorem table_text_roundtrip_witness:
  "map (\<lambda>l. py_split_sep TAB (butlast l))
       (py_readlines (table_text (\<lambda>_. ''v'') ([''b'', ''B3''], [(Num (Fin 1), [TErr])]))) =
     [[''b'', ''B3''], [''v'', ''error'']]"
proof -
  have "map (\<lambda>l. py_split_sep TAB (butlast l))
       (py_readlines (table_text (\<lambda>_. ''v'') ([''b'', ''B3''], [(Num (Fin 1), [TErr])]))) =
        table_rows (\<lambda>_. ''v'') ([''b'', ''B3''], [(Num (Fin 1), [TErr])])"
    by (rule table_text_roundtrip) (simp_all add: table_rows_def tcell_str_def)
  then show ?thesis by (simp add: table_rows_def tcell_str_def)
qed

text \<open>
  C36. The completion message of line 165 is shown exactly when the user selected at
  least one folder and an output folder and no folder raised an uncaught exception.
\<close>

theorem process_folders_finished:
  assumes "process_folders repr ls pick again d clock fs = Some (st, r)"
  shows "Finished d \<in> set (b_msgs st) \<longleftrightarrow> r = Inr () \<and> d \<noteq> [] \<and> select_folders pick again 0 [] \<noteq> Some []"
proof -
  obtain fps where s: "select_folders pick again 0 [] = Some fps"
    using assms by (auto simp: process_folders_def)
  show ?thesis
  proof (cases "fps = [] \<or> d = []")
    case True
    then show ?thesis using assms s by (auto simp: process_folders_def b_add_def Let_def split: if_splits)
  next
    case False
    obtain st1 r1 where l: "folders_loop repr ls d clock 0 fps \<lparr>b_fs = fs, b_msgs = []\<rparr> = (st1, r1)"
      by fastforce
    have "Finished d \<notin> set (b_msgs st1)"
      using folders_loop_finished [of d repr ls d clock 0 fps "\<lparr>b_fs = fs, b_msgs = []\<rparr>"] l by simp
    then show ?thesis
      using assms s False l by (cases r1) (auto simp: process_folders_def b_add_def Let_def)
  qed
qed

lemma process_folders_finished_witness:
  "process_folders (\<lambda>_. ''v'') (\<lambda>_. Some []) (\<lambda>i. if i = 0 then ''d'' else []) (\<lambda>_. True) ''out'' (\<lambda>_. ''t'')
      \<lparr>fs_files = Map.empty, fs_writable = \<lambda>_. True\<rparr> =
     Some (\<lparr>b_fs = \<lparr>fs_files = Map.empty, fs_writable = \<lambda>_. True\<rparr>, b_msgs = [NoResults ''d'', Finished ''out'']\<rparr>, Inr ()) \<and>
   Finished ''out'' \<in> set [NoResults ''d'', Finished ''out''] \<and>
   select_folders (\<lambda>i. if i = 0 then ''d'' else []) (\<lambda>_. True) 0 [] \<noteq> Some []"
proof -
  have s: "select_folders (\<lambda>i. if i = 0 then ''d'' else []) (\<lambda>_. True) 0 [] = Some [''d'']"
    by (simp add: select_folders.simps)
  have p: "process_folders (\<lambda>_. ''v'') (\<lambda>_. Some []) (\<lambda>i. if i = 0 then ''d'' else []) (\<lambda>_. True) ''out'' (\<lambda>_. ''t'')
      \<lparr>fs_files = Map.empty, fs_writable = \<lambda>_. True\<rparr> =
     Some (\<lparr>b_fs = \<lparr>fs_files = Map.empty, fs_writable = \<lambda>_. True\<rparr>, b_msgs = [NoResults ''d'', Finished ''out'']\<rparr>, Inr ())"
    by (simp add: process_folders_def s folder_step_def process_folder_def empty_facc_def b_add_def
                  py_basename_def last_idx_def)
  from process_folders_finished [OF p] p s show ?thesis
    by simp
qed

text \<open>
  C37. The numbered lines of the error log are exactly the errors reported, one per line
  and in the order of the files and of their lines, as long as the folder name, the
  file names and the logged lines hold no line break: no error is lost or split.
\<close>

theorem log_text_error_lines:
  assumes "LF \<notin> set n" "CR \<notin> set n"
    and "\<forall>fe \<in> set errors. LF \<notin> set (py_basename (fst fe)) \<and> CR \<notin> set (py_basename (fst fe)) \<and>
                          (\<forall>e \<in> set (snd fe). LF \<notin> set (snd e) \<and> CR \<notin> set (snd e))"
  shows "filter (\<lambda>l. take 4 l = line_label) (py_readlines (log_text n errors)) = map log_line (concat (map snd errors))"
proof -
  have "\<forall>r \<in> set (log_rows n errors). LF \<notin> set r \<and> CR \<notin> set r"
    using assms nat_str_no_break
    by (auto simp: log_rows_def log_entry_rows_def log_title_def file_label_def line_label_def split: if_splits)
  then have "py_readlines (log_text n errors) = map (\<lambda>r. r @ [LF]) (log_rows n errors)"
    unfolding log_text_rows by (rule py_readlines_rows)
  then show ?thesis by (simp add: log_rows_numbered)
qed

lemma log_text_error_lines_witness:
  "filter (\<lambda>l. take 4 l = line_label) (py_readlines (log_text ''d'' [(''x/d/f'', [(1, ''x''), (3, ''y'')])])) =
     [log_line (1, ''x''), log_line (3, ''y'')]"
proof -
  have "filter (\<lambda>l. take 4 l = line_label) (py_readlines (log_text ''d'' [(''x/d/f'', [(1, ''x''), (3, ''y'')])])) =
          map log_line (concat (map snd [(''x/d/f'', [(1::nat, ''x''), (3, ''y'')])]))"
    by (rule log_text_error_lines) (simp_all add: py_basename_def last_idx_def)
  then show ?thesis by simp
qed

end
