(* ===== verification/ResultsFile.thy ===== *)
theory ResultsFile
  imports StrainReduce PyIO
begin

text \<open>
  \<open>src/process_results.py\<close>: the constants of \<open>ResultProcessor.__init__\<close>
  (lines 13-14), \<open>read_results_file\<close> (lines 159-179) and the two output
  generators \<open>generate_function1_output\<close> (lines 244-272) and
  \<open>generate_function2_output\<close> (lines 274-310).  They run on a state \<open>gstate\<close> of
  the file system and the message boxes shown so far (\<open>msg\<close>); each returns the
  new state and whether it raised.  \<open>read_results_file\<close> catches every exception
  (an unreadable file, an empty file, a data line with fewer tab-separated fields than
  a B column index) and then shows an error box and returns \<open>(None, None)\<close>.
  A file opened with \<open>open(p, 'w')\<close> is truncated at once and receives the text
  written before the \<open>with\<close> block ends, also when the block ends by an exception;
  files read while it is open see it truncated (the writes are buffered).  The
  selected files \<open>selected_files\<close> are an association list with distinct keys.
  The output cell of a float is its \<open>str()\<close>, a parameter \<open>repr\<close> of the model.
\<close>

definition array_A :: "int list" where
  "array_A = [100, 200, 300, 400, 500, 600, 700]"

text \<open>\<open>f"{i/10:.1f}g"\<close> for \<open>i\<close> in 1..17: the quotient and the remainder by 10.\<close>

definition b_label :: "nat \<Rightarrow> string" where
  "b_label i = nat_str (i div 10) @ ''.'' @ nat_str (i mod 10) @ ''g''"

definition array_B :: "string list" where
  "array_B = map b_label [1..<18]"

datatype msg =
    ReadError path
  | AllPaired
  | WarnNoA
  | WarnFiles
  | WarnNoB
  | Success path
  | Failed py_error

record gstate =
  g_fs :: fsys
  g_msgs :: "msg list"

type_synonym results = "string list \<times> (string \<times> string list) list"

definition read_error :: "gstate \<Rightarrow> path \<Rightarrow> gstate \<times> results option" where
  "read_error g file_path = (g\<lparr>g_msgs := g_msgs g @ [ReadError file_path]\<rparr>, None)"

definition b_indices :: "string list \<Rightarrow> nat list" where
  "b_indices headers = filter (\<lambda>i. py_startswith (headers ! i) ''B'') [0..<length headers]"

definition read_results_file :: "gstate \<Rightarrow> path \<Rightarrow> gstate \<times> results option" where
  "read_results_file g file_path =
     (case fs_files (g_fs g) file_path of
        None \<Rightarrow> read_error g file_path
      | Some content \<Rightarrow>
          (case py_readlines content of
             [] \<Rightarrow> read_error g file_path
           | l0 # rest \<Rightarrow>
               let headers = py_split_sep TAB (py_strip l0);
                   first_column = map (\<lambda>line. hd (py_split_sep TAB line)) rest
               in (case rmap (\<lambda>col_idx. rmap (\<lambda>line. py_get (py_split_sep TAB (py_strip line)) (int col_idx)) rest)
                             (take (length array_B) (b_indices headers)) of
                     Inl _ \<Rightarrow> read_error g file_path
                   | Inr cols \<Rightarrow> (g, Some (first_column, zip array_B cols)))))"

definition b_column :: "results option \<Rightarrow> string \<Rightarrow> string list option" where
  "b_column r b = (case r of None \<Rightarrow> None | Some (_, b_data) \<Rightarrow> map_of b_data b)"

subsection \<open>Function 1\<close>

definition cons_res :: "'a \<Rightarrow> gstate \<times> ('e + 'a list) \<Rightarrow> gstate \<times> ('e + 'a list)" where
  "cons_res v gr = (fst gr, map_sum id (Cons v) (snd gr))"

fun f1_cells :: "gstate \<Rightarrow> (int \<times> path) list \<Rightarrow> string \<Rightarrow> nat \<Rightarrow> int list \<Rightarrow> gstate \<times> (py_error + string list)" where
  "f1_cells g sf b row_idx [] = (g, Inr [])"
| "f1_cells g sf b row_idx (a # as) =
     (case map_of sf a of
        None \<Rightarrow> (g, Inl KeyError)
      | Some file_path \<Rightarrow>
          let (g1, r) = read_results_file g file_path
          in (case b_column r b of
                None \<Rightarrow> cons_res ''error'' (f1_cells g1 sf b row_idx as)
              | Some col \<Rightarrow>
                  (case py_get col (int row_idx) of
                     Inl e \<Rightarrow> (g1, Inl e)
                   | Inr v \<Rightarrow> cons_res v (f1_cells g1 sf b row_idx as))))"

fun f1_rows ::
  "gstate \<Rightarrow> (int \<times> path) list \<Rightarrow> int list \<Rightarrow> string \<Rightarrow> nat \<Rightarrow> string list \<Rightarrow> gstate \<times> string \<times> (py_error + unit)"
where
  "f1_rows g sf sa b k [] = (g, [], Inr ())"
| "f1_rows g sf sa b k (row_label # ls) =
     (case f1_cells g sf b k sa of
        (g1, Inl e) \<Rightarrow> (g1, [], Inl e)
      | (g1, Inr cells) \<Rightarrow>
          (case f1_rows g1 sf sa b (Suc k) ls of
             (g2, txt, res) \<Rightarrow> (g2, py_join [TAB] (row_label # cells) @ [LF] @ txt, res)))"

definition header1 :: "int list \<Rightarrow> string" where
  "header1 selected_a = py_join [TAB] ((''b'' @ [CHR 0x5C] @ ''a'') # map int_str selected_a) @ [LF]"

definition f1_path :: "path \<Rightarrow> string \<Rightarrow> path" where
  "f1_path output_dir b = py_path_join output_dir (''strain_distribution_'' @ b @ ''.txt'')"

definition f1_file ::
  "gstate \<Rightarrow> (int \<times> path) list \<Rightarrow> int list \<Rightarrow> path \<Rightarrow> string list \<Rightarrow> string \<Rightarrow> gstate \<times> (py_error + unit)"
where
  "f1_file g sf sa output_dir first_column b =
     (let output_path = f1_path output_dir b
      in if \<not> fs_writable (g_fs g) output_path then (g, Inl OSError)
         else (case f1_rows (g\<lparr>g_fs := write_file (g_fs g) output_path []\<rparr>) sf sa b 0 first_column of
                 (g1, txt, res) \<Rightarrow> (g1\<lparr>g_fs := write_file (g_fs g1) output_path (header1 sa @ txt)\<rparr>, res)))"

fun f1_files ::
  "gstate \<Rightarrow> (int \<times> path) list \<Rightarrow> int list \<Rightarrow> path \<Rightarrow> string list \<Rightarrow> string list \<Rightarrow> gstate \<times> (py_error + unit)"
where
  "f1_files g sf sa d fc [] = (g, Inr ())"
| "f1_files g sf sa d fc (b # bs) =
     (case f1_file g sf sa d fc b of
        (g1, Inl e) \<Rightarrow> (g1, Inl e)
      | (g1, Inr _) \<Rightarrow> f1_files g1 sf sa d fc bs)"

definition generate_function1_output ::
  "gstate \<Rightarrow> (int \<times> path) list \<Rightarrow> int list \<Rightarrow> string list \<Rightarrow> path \<Rightarrow> gstate \<times> (py_error + unit)"
where
  "generate_function1_output g sf selected_a selected_b output_dir =
     (case py_get selected_a 0 of
        Inl e \<Rightarrow> (g, Inl e)
      | Inr a0 \<Rightarrow>
          (case map_of sf a0 of
             None \<Rightarrow> (g, Inl KeyError)
           | Some first_file \<Rightarrow>
               (case read_results_file g first_file of
                  (g1, Some (first_column, _)) \<Rightarrow>
                    if first_column = [] then (g1, Inr ())
                    else f1_files g1 sf selected_a output_dir first_column selected_b
                | (g1, None) \<Rightarrow> (g1, Inr ()))))"

subsection \<open>Function 2\<close>

definition cell_text :: "(pyfloat \<Rightarrow> string) \<Rightarrow> cell \<Rightarrow> string" where
  "cell_text repr c = (case c of Err \<Rightarrow> ''error'' | Val y \<Rightarrow> repr y)"

fun f2_columns :: "gstate \<Rightarrow> (int \<times> path) list \<Rightarrow> string \<Rightarrow> nat \<Rightarrow> int list \<Rightarrow> gstate \<times> (py_error + string list list)" where
  "f2_columns g sf b n [] = (g, Inr [])"
| "f2_columns g sf b n (a # as) =
     (case map_of sf a of
        None \<Rightarrow> (g, Inl KeyError)
      | Some file_path \<Rightarrow>
          (case read_results_file g file_path of
             (g1, r) \<Rightarrow>
               cons_res (case b_column r b of Some col \<Rightarrow> col | None \<Rightarrow> replicate n ''error'')
                 (f2_columns g1 sf b n as)))"

definition f2_text :: "(pyfloat \<Rightarrow> string) \<Rightarrow> int list \<Rightarrow> cell list \<Rightarrow> cell list \<Rightarrow> string" where
  "f2_text repr sa rc ecc =
     concat (map (\<lambda>(a, e, r). py_join [TAB] [int_str a, cell_text repr e, cell_text repr r] @ [LF])
                 (zip sa (zip ecc rc)))"

text \<open>
  One iteration of the loop over the b labels; \<open>Inr False\<close> is the
  \<open>return\<close> of line 285 that ends the whole function.
\<close>

definition f2_path :: "path \<Rightarrow> string \<Rightarrow> path" where
  "f2_path output_dir b = py_path_join output_dir (''max_strain_'' @ b @ ''.txt'')"

definition f2_file ::
  "gstate \<Rightarrow> (int \<times> path) list \<Rightarrow> int list \<Rightarrow> path \<Rightarrow> (pyfloat \<Rightarrow> string) \<Rightarrow> string \<Rightarrow> gstate \<times> (py_error + bool)"
where
  "f2_file g sf sa output_dir repr b =
     (case py_get sa 0 of
        Inl e \<Rightarrow> (g, Inl e)
      | Inr a0 \<Rightarrow>
          (case map_of sf a0 of
             None \<Rightarrow> (g, Inl KeyError)
           | Some first_file \<Rightarrow>
               (case read_results_file g first_file of
                  (g1, None) \<Rightarrow> (g1, Inr False)
                | (g1, Some (first_column, _)) \<Rightarrow>
                    if first_column = [] then (g1, Inr False)
                    else (case f2_columns g1 sf b (length first_column) sa of
                            (g2, Inl e) \<Rightarrow> (g2, Inl e)
                          | (g2, Inr cols) \<Rightarrow>
                              (case process_strain_data (first_column # cols) b sa of
                                 Inl e \<Rightarrow> (g2, Inl e)
                               | Inr (rc, ecc) \<Rightarrow>
                                   let output_path = f2_path output_dir b
                                   in if \<not> fs_writable (g_fs g2) output_path then (g2, Inl OSError)
                                      else (g2\<lparr>g_fs := write_file (g_fs g2) output_path (f2_text repr sa rc ecc)\<rparr>,
                                            Inr True))))))"

fun f2_files ::
  "gstate \<Rightarrow> (int \<times> path) list \<Rightarrow> int list \<Rightarrow> path \<Rightarrow> (pyfloat \<Rightarrow> string) \<Rightarrow> string list \<Rightarrow> gstate \<times> (py_error + unit)"
where
  "f2_files g sf sa d repr [] = (g, Inr ())"
| "f2_files g sf sa d repr (b # bs) =
     (case f2_file g sf sa d repr b of
        (g1, Inl e) \<Rightarrow> (g1, Inl e)
      | (g1, Inr False) \<Rightarrow> (g1, Inr ())
      | (g1, Inr True) \<Rightarrow> f2_files g1 sf sa d repr bs)"

definition generate_function2_output ::
  "gstate \<Rightarrow> (int \<times> path) list \<Rightarrow> int list \<Rightarrow> string list \<Rightarrow> path \<Rightarrow> (pyfloat \<Rightarrow> string) \<Rightarrow> gstate \<times> (py_error + unit)"
where
  "generate_function2_output g sf selected_a selected_b output_dir repr =
     f2_files g sf selected_a output_dir repr selected_b"

subsection \<open>The specification side\<close>

text \<open>
  The table of function 1: per row label of the first file, the label and the
  row's entry of every selected A value's column.
\<close>

definition table1_text :: "string list \<Rightarrow> (int \<Rightarrow> string list) \<Rightarrow> int list \<Rightarrow> string" where
  "table1_text fc col sa =
     concat (map (\<lambda>(k, lbl). py_join [TAB] (lbl # map (\<lambda>a. col a ! k) sa) @ [LF]) (zip [0..<length fc] fc))"

text \<open>
  The b column of A value \<open>a\<close>'s file, as \<open>b_data[b]\<close> after a successful
  read, is \<open>col a\<close> and has at least \<open>n\<close> entries.
\<close>

definition col_ok :: "gstate \<Rightarrow> (int \<times> path) list \<Rightarrow> string \<Rightarrow> (int \<Rightarrow> string list) \<Rightarrow> nat \<Rightarrow> int \<Rightarrow> bool" where
  "col_ok g sf b col n a \<longleftrightarrow>
     (\<exists>p. map_of sf a = Some p \<and> b_column (snd (read_results_file g p)) b = Some (col a) \<and> n \<le> length (col a))"

text \<open>
  The file of function 2: per selected A value the value, the ECC result and the RC
  result of \<open>process_strain_data\<close> on the thresholds and the column.
\<close>

definition table2_text :: "(pyfloat \<Rightarrow> string) \<Rightarrow> string list \<Rightarrow> (int \<Rightarrow> string list) \<Rightarrow> int list \<Rightarrow> string" where
  "table2_text repr fc col sa =
     concat (map (\<lambda>a. py_join [TAB]
                         [int_str a,
                          cell_text repr (extremum (upper_row a) (map threshold_val fc) (map cell_val (col a))),
                          cell_text repr (extremum (lower_row a) (map threshold_val fc) (map cell_val (col a)))] @ [LF]) sa)"

subsection \<open>Lemmas\<close>

lemma array_B_eq:
  "array_B = [''0.1g'', ''0.2g'', ''0.3g'', ''0.4g'', ''0.5g'', ''0.6g'', ''0.7g'', ''0.8g'', ''0.9g'',
              ''1.0g'', ''1.1g'', ''1.2g'', ''1.3g'', ''1.4g'', ''1.5g'', ''1.6g'', ''1.7g'']"
  by (simp add: array_B_def b_label_def upt_rec nat_str_digit digit_char_def)

lemma array_B_facts: "length array_B = 17" "distinct array_B"
  by (simp_all add: array_B_eq)

lemma map_of_zip_prefix:
  "distinct xs \<Longrightarrow> length ys \<le> length xs \<Longrightarrow> j < length ys \<Longrightarrow> map_of (zip xs ys) (xs ! j) = Some (ys ! j)"
proof (induction xs arbitrary: ys j)
  case Nil
  then show ?case by simp
next
  case (Cons x xs)
  then obtain y ys' where ys: "ys = y # ys'" by (cases ys) auto
  show ?case
  proof (cases j)
    case 0
    with ys show ?thesis by simp
  next
    case (Suc j')
    with Cons.prems have "xs ! j' \<noteq> x" by auto
    with Cons.IH [of ys' j'] Cons.prems ys Suc show ?thesis by simp
  qed
qed

lemma read_results_file_cases:
  "(\<exists>r. read_results_file g p = (g, Some r)) \<or> read_results_file g p = read_error g p"
  by (auto simp: read_results_file_def Let_def split: option.split list.split sum.split)

lemma read_results_file_state:
  "fst (read_results_file g p) = (if snd (read_results_file g p) = None then g\<lparr>g_msgs := g_msgs g @ [ReadError p]\<rparr> else g)"
  using read_results_file_cases [of g p] by (auto simp: read_error_def)

lemma read_results_file_fs:
  "fs_files (g_fs g) p = fs_files (g_fs g') p \<Longrightarrow> snd (read_results_file g p) = snd (read_results_file g' p)"
  by (simp add: read_results_file_def read_error_def Let_def split: option.split list.split sum.split)

lemma read_rows_ok:
  assumes "\<forall>line \<in> set rest. \<forall>i \<in> set idx. i < length (py_split_sep TAB (py_strip line))"
  shows "rmap (\<lambda>col_idx. rmap (\<lambda>line. py_get (py_split_sep TAB (py_strip line)) (int col_idx)) rest) idx =
           Inr (map (\<lambda>i. map (\<lambda>line. py_split_sep TAB (py_strip line) ! i) rest) idx)"
  using assms by (intro rmap_Inr_map) (auto intro: rmap_Inr_map)

lemma read_results_file_ok:
  assumes "fs_files (g_fs g) p = Some c" "py_readlines c = l0 # rest"
    and "\<forall>line \<in> set rest. \<forall>i \<in> set (take 17 (b_indices (py_split_sep TAB (py_strip l0)))).
           i < length (py_split_sep TAB (py_strip line))"
  shows "read_results_file g p =
           (g, Some (map (\<lambda>line. hd (py_split_sep TAB line)) rest,
                     zip array_B (map (\<lambda>i. map (\<lambda>line. py_split_sep TAB (py_strip line) ! i) rest)
                                      (take 17 (b_indices (py_split_sep TAB (py_strip l0)))))))"
  using assms read_rows_ok [of rest "take 17 (b_indices (py_split_sep TAB (py_strip l0)))"]
  by (simp add: read_results_file_def array_B_facts)

lemma read_results_file_Some:
  "b_column (snd (read_results_file g p)) b = Some c \<Longrightarrow> \<exists>r. read_results_file g p = (g, Some r) \<and> b_column (Some r) b = Some c"
  using read_results_file_cases [of g p] by (auto simp: read_error_def b_column_def)

lemma f1_cells_ok:
  "\<forall>a \<in> set as. col_ok g sf b col (Suc k) a \<Longrightarrow> f1_cells g sf b k as = (g, Inr (map (\<lambda>a. col a ! k) as))"
proof (induction as)
  case Nil
  then show ?case by simp
next
  case (Cons a as)
  then obtain p r where "map_of sf a = Some p" "read_results_file g p = (g, Some r)"
    "b_column (Some r) b = Some (col a)" "Suc k \<le> length (col a)"
    by (auto simp: col_ok_def dest: read_results_file_Some)
  with Cons show ?case
    by (simp add: cons_res_def)
qed

lemma f1_rows_ok:
  "\<forall>a \<in> set sa. col_ok g sf b col (k + length ls) a \<Longrightarrow>
   f1_rows g sf sa b k ls =
     (g, concat (map (\<lambda>(j, lbl). py_join [TAB] (lbl # map (\<lambda>a. col a ! j) sa) @ [LF]) (zip [k..<k + length ls] ls)), Inr ())"
proof (induction ls arbitrary: k)
  case Nil
  then show ?case by simp
next
  case (Cons l ls)
  have c: "f1_cells g sf b k sa = (g, Inr (map (\<lambda>a. col a ! k) sa))"
    using Cons.prems by (intro f1_cells_ok) (auto simp: col_ok_def)
  have r: "f1_rows g sf sa b (Suc k) ls =
     (g, concat (map (\<lambda>(j, lbl). py_join [TAB] (lbl # map (\<lambda>a. col a ! j) sa) @ [LF]) (zip [Suc k..<Suc k + length ls] ls)), Inr ())"
    using Cons.prems by (intro Cons.IH) simp
  have "[k..<k + length (l # ls)] = k # [Suc k..<Suc k + length ls]"
    by (simp del: upt_Suc add: upt_conv_Cons)
  with c r show ?case by simp
qed

lemma col_ok_fs:
  "col_ok g sf b col n a \<Longrightarrow> (\<And>p. map_of sf a = Some p \<Longrightarrow> fs_files (g_fs g') p = fs_files (g_fs g) p) \<Longrightarrow>
   col_ok g' sf b col n a"
  unfolding col_ok_def by (metis read_results_file_fs)

lemma f1_path_inj: "f1_path d b = f1_path d b' \<Longrightarrow> b = b'"
  by (auto simp: f1_path_def py_path_join_def split: if_splits)

lemma f1_file_ok:
  assumes "fs_writable (g_fs g) (f1_path d b)"
    and "\<forall>a \<in> set sa. col_ok g sf b col (length fc) a \<and> map_of sf a \<noteq> Some (f1_path d b)"
  shows "f1_file g sf sa d fc b = (g\<lparr>g_fs := write_file (g_fs g) (f1_path d b) (header1 sa @ table1_text fc col sa)\<rparr>, Inr ())"
proof -
  let ?g0 = "g\<lparr>g_fs := write_file (g_fs g) (f1_path d b) []\<rparr>"
  have "\<forall>a \<in> set sa. col_ok ?g0 sf b col (0 + length fc) a"
    using assms(2) by (auto elim!: col_ok_fs)
  then have "f1_rows ?g0 sf sa b 0 fc = (?g0, table1_text fc col sa, Inr ())"
    by (simp add: f1_rows_ok table1_text_def)
  with assms(1) show ?thesis
    by (simp add: f1_file_def)
qed

lemma f1_files_ok:
  assumes "\<forall>b \<in> set sb. fs_writable (g_fs g) (f1_path d b) \<and>
             (\<forall>a \<in> set sa. col_ok g sf b (col b) (length fc) a \<and> (\<forall>b' \<in> set sb. map_of sf a \<noteq> Some (f1_path d b')))"
  shows "\<exists>fs'. f1_files g sf sa d fc sb = (g\<lparr>g_fs := fs'\<rparr>, Inr ()) \<and> fs_writable fs' = fs_writable (g_fs g) \<and>
           (\<forall>b \<in> set sb. fs_files fs' (f1_path d b) = Some (header1 sa @ table1_text fc (col b) sa)) \<and>
           (\<forall>q. q \<notin> f1_path d ` set sb \<longrightarrow> fs_files fs' q = fs_files (g_fs g) q)"
  using assms
proof (induction sb arbitrary: g)
  case Nil
  then show ?case by (intro exI [of _ "g_fs g"]) simp
next
  case (Cons b bs)
  let ?g1 = "g\<lparr>g_fs := write_file (g_fs g) (f1_path d b) (header1 sa @ table1_text fc (col b) sa)\<rparr>"
  have f: "f1_file g sf sa d fc b = (?g1, Inr ())"
    using Cons.prems by (intro f1_file_ok) auto
  have "\<forall>b'' \<in> set bs. fs_writable (g_fs ?g1) (f1_path d b'') \<and>
          (\<forall>a \<in> set sa. col_ok ?g1 sf b'' (col b'') (length fc) a \<and> (\<forall>b' \<in> set bs. map_of sf a \<noteq> Some (f1_path d b')))"
  proof (intro ballI conjI)
    fix b'' assume "b'' \<in> set bs"
    then show "fs_writable (g_fs ?g1) (f1_path d b'')"
      using Cons.prems by simp
  next
    fix b'' a assume b'': "b'' \<in> set bs" and a: "a \<in> set sa"
    have "col_ok g sf b'' (col b'') (length fc) a" "map_of sf a \<noteq> Some (f1_path d b)"
      using Cons.prems a b'' by auto
    then show "col_ok ?g1 sf b'' (col b'') (length fc) a"
      by (elim col_ok_fs) auto
  next
    fix b'' a b' assume "b'' \<in> set bs" "a \<in> set sa" "b' \<in> set bs"
    then show "map_of sf a \<noteq> Some (f1_path d b')"
      using Cons.prems by simp
  qed
  from Cons.IH [OF this] obtain fs' where
    r: "f1_files ?g1 sf sa d fc bs = (?g1\<lparr>g_fs := fs'\<rparr>, Inr ())" "fs_writable fs' = fs_writable (g_fs ?g1)"
      "\<forall>b \<in> set bs. fs_files fs' (f1_path d b) = Some (header1 sa @ table1_text fc (col b) sa)"
      "\<forall>q. q \<notin> f1_path d ` set bs \<longrightarrow> fs_files fs' q = fs_files (g_fs ?g1) q"
    by blast
  have "fs_files fs' (f1_path d b) = Some (header1 sa @ table1_text fc (col b) sa)"
  proof (cases "b \<in> set bs")
    case True
    with r(3) show ?thesis by simp
  next
    case False
    then have "f1_path d b \<notin> f1_path d ` set bs"
      using f1_path_inj by blast
    with r(4) show ?thesis by simp
  qed
  with f r show ?case
    by (intro exI [of _ fs']) auto
qed

lemma read_results_file_moved:
  "read_results_file g p = (g, Some r) \<Longrightarrow> fs_files (g_fs g') p = fs_files (g_fs g) p \<Longrightarrow>
   read_results_file g' p = (g', Some r)"
  using read_results_file_fs [of g' p g] read_results_file_state [of g' p] by (metis prod.collapse option.distinct(1) snd_conv)

lemma f2_columns_ok:
  "\<forall>a \<in> set as. col_ok g sf b col 0 a \<Longrightarrow> f2_columns g sf b n as = (g, Inr (map col as))"
proof (induction as)
  case Nil
  then show ?case by simp
next
  case (Cons a as)
  then obtain p r where "map_of sf a = Some p" "read_results_file g p = (g, Some r)"
    "b_column (Some r) b = Some (col a)"
    by (auto simp: col_ok_def dest: read_results_file_Some)
  with Cons show ?case
    by (simp add: cons_res_def)
qed

lemma map2_map_self [simp]: "map2 f xs (map g xs) = map (\<lambda>x. f x (g x)) xs"
  by (induction xs) simp_all

lemma f2_text_map:
  "f2_text repr sa (map rc sa) (map ecc sa) =
   concat (map (\<lambda>a. py_join [TAB] [int_str a, cell_text repr (ecc a), cell_text repr (rc a)] @ [LF]) sa)"
  by (induction sa) (simp_all add: f2_text_def)

lemma f2_file_ok:
  assumes "sa \<noteq> []" "map_of sf (hd sa) = Some p0" "read_results_file g p0 = (g, Some (fc, d0))" "fc \<noteq> []"
    and "distinct sa" "\<forall>t \<in> set fc. \<not> isl (float_res t)"
    and "\<forall>a \<in> set sa. col_ok g sf b col 0 a \<and> (\<forall>x \<in> set (col a). \<not> isl (parse_cell x))"
    and "fs_writable (g_fs g) (f2_path d b)"
  shows "f2_file g sf sa d repr b = (g\<lparr>g_fs := write_file (g_fs g) (f2_path d b) (table2_text repr fc col sa)\<rparr>, Inr True)"
proof -
  have sa: "py_get sa 0 = Inr (hd sa)" using assms(1) by (cases sa) auto
  have c: "f2_columns g sf b (length fc) sa = (g, Inr (map col sa))"
    using assms(7) by (intro f2_columns_ok) simp
  have "process_strain_data (fc # map col sa) b sa =
          Inr (map (\<lambda>(a, col). extremum (lower_row a) (map threshold_val fc) (map cell_val col)) (zip sa (map col sa)),
               map (\<lambda>(a, col). extremum (upper_row a) (map threshold_val fc) (map cell_val col)) (zip sa (map col sa)))"
    using assms(5-7) by (intro process_strain_data_ok) auto
  with sa assms(2-4,8) c show ?thesis
    by (simp add: f2_file_def f2_text_map table2_text_def)
qed

lemma f2_path_inj: "f2_path d b = f2_path d b' \<Longrightarrow> b = b'"
  by (auto simp: f2_path_def py_path_join_def split: if_splits)

lemma f2_files_ok:
  assumes "sa \<noteq> []" "map_of sf (hd sa) = Some p0" "read_results_file g p0 = (g, Some (fc, d0))" "fc \<noteq> []"
    and "distinct sa" "\<forall>t \<in> set fc. \<not> isl (float_res t)"
    and "\<forall>b \<in> set sb. fs_writable (g_fs g) (f2_path d b) \<and>
           (\<forall>a \<in> set sa. col_ok g sf b (col b) 0 a \<and> (\<forall>x \<in> set (col b a). \<not> isl (parse_cell x)))"
    and "\<forall>a \<in> set sa. \<forall>b' \<in> set sb. map_of sf a \<noteq> Some (f2_path d b')"
  shows "\<exists>fs'. f2_files g sf sa d repr sb = (g\<lparr>g_fs := fs'\<rparr>, Inr ()) \<and>
           (\<forall>b \<in> set sb. fs_files fs' (f2_path d b) = Some (table2_text repr fc (col b) sa)) \<and>
           (\<forall>q. q \<notin> f2_path d ` set sb \<longrightarrow> fs_files fs' q = fs_files (g_fs g) q)"
  using assms(3,7,8)
proof (induction sb arbitrary: g)
  case Nil
  then show ?case by (intro exI [of _ "g_fs g"]) simp
next
  case (Cons b bs)
  let ?g1 = "g\<lparr>g_fs := write_file (g_fs g) (f2_path d b) (table2_text repr fc (col b) sa)\<rparr>"
  have f: "f2_file g sf sa d repr b = (?g1, Inr True)"
    using Cons.prems(2) by (intro f2_file_ok [OF assms(1,2) Cons.prems(1) assms(4,5,6)]) simp_all
  have "hd sa \<in> set sa" using assms(1) by simp
  with Cons.prems(3) have "map_of sf (hd sa) \<noteq> Some (f2_path d b)"
    by simp
  with assms(2) have p0: "p0 \<noteq> f2_path d b"
    by auto
  have r1: "read_results_file ?g1 p0 = (?g1, Some (fc, d0))"
    by (rule read_results_file_moved [OF Cons.prems(1)]) (simp add: p0)
  have h: "\<forall>b'' \<in> set bs. fs_writable (g_fs ?g1) (f2_path d b'') \<and>
          (\<forall>a \<in> set sa. col_ok ?g1 sf b'' (col b'') 0 a \<and> (\<forall>x \<in> set (col b'' a). \<not> isl (parse_cell x)))"
  proof (intro ballI conjI)
    fix b'' assume "b'' \<in> set bs"
    then show "fs_writable (g_fs ?g1) (f2_path d b'')"
      using Cons.prems by simp
  next
    fix b'' a assume b'': "b'' \<in> set bs" and a: "a \<in> set sa"
    have "col_ok g sf b'' (col b'') 0 a" "map_of sf a \<noteq> Some (f2_path d b)"
      using Cons.prems a b'' by auto
    then show "col_ok ?g1 sf b'' (col b'') 0 a"
      by (elim col_ok_fs) auto
  next
    fix b'' a x assume "b'' \<in> set bs" "a \<in> set sa" "x \<in> set (col b'' a)"
    then show "\<not> isl (parse_cell x)"
      using Cons.prems by simp
  qed
  have h3: "\<forall>a \<in> set sa. \<forall>b' \<in> set bs. map_of sf a \<noteq> Some (f2_path d b')"
    using Cons.prems(3) by simp
  obtain fs' where
    r: "f2_files ?g1 sf sa d repr bs = (?g1\<lparr>g_fs := fs'\<rparr>, Inr ())"
      "\<forall>b \<in> set bs. fs_files fs' (f2_path d b) = Some (table2_text repr fc (col b) sa)"
      "\<forall>q. q \<notin> f2_path d ` set bs \<longrightarrow> fs_files fs' q = fs_files (g_fs ?g1) q"
    using Cons.IH [OF r1 h h3] by blast
  have "fs_files fs' (f2_path d b) = Some (table2_text repr fc (col b) sa)"
  proof (cases "b \<in> set bs")
    case True
    with r(2) show ?thesis by simp
  next
    case False
    then have "f2_path d b \<notin> f2_path d ` set bs"
      using f2_path_inj by blast
    with r(3) show ?thesis by simp
  qed
  with f r show ?case
    by (intro exI [of _ fs'] conjI) simp_all
qed

lemma py_get_hd: "sa \<noteq> [] \<Longrightarrow> py_get sa 0 = Inr (hd sa)"
  by (cases sa) auto

subsection \<open>Properties\<close>

text \<open>
  C23. \<open>read_results_file\<close> maps the B columns by position: when every data line
  has the fields the first 17 B headers point to, the file is read without a message
  and the label \<open>array_B ! j\<close> receives the column of the j-th header that starts
  with \<open>B\<close>, whatever that header says.
\<close>

lemma read_results_file_columns:
  assumes "fs_files (g_fs g) p = Some c" "py_readlines c = l0 # rest"
    and "hs = b_indices (py_split_sep TAB (py_strip l0))"
    and "\<forall>line \<in> set rest. \<forall>i \<in> set (take 17 hs). i < length (py_split_sep TAB (py_strip line))"
    and "j < min 17 (length hs)"
  shows "fst (read_results_file g p) = g \<and>
         b_column (snd (read_results_file g p)) (array_B ! j) =
           Some (map (\<lambda>line. py_split_sep TAB (py_strip line) ! (hs ! j)) rest)"
proof -
  let ?cols = "map (\<lambda>i. map (\<lambda>line. py_split_sep TAB (py_strip line) ! i) rest) (take 17 hs)"
  have r: "read_results_file g p = (g, Some (map (\<lambda>line. hd (py_split_sep TAB line)) rest, zip array_B ?cols))"
    using read_results_file_ok [OF assms(1,2)] assms(3,4) by simp
  have "map_of (zip array_B ?cols) (array_B ! j) = Some (?cols ! j)"
    using assms(5) by (intro map_of_zip_prefix) (simp_all add: array_B_facts)
  with r assms(5) show ?thesis
    by (simp add: b_column_def)
qed

lemma read_results_file_columns_witness:
  "fs_files (g_fs \<lparr>g_fs = \<lparr>fs_files = [''r'' \<mapsto> ''C'' @ [TAB] @ ''B1'' @ [TAB] @ ''x'' @ [TAB] @ ''B2'' @ [LF] @ ''0'' @ [TAB] @ ''5'' @ [TAB] @ ''q'' @ [TAB] @ ''7'' @ [LF] @ ''3'' @ [TAB] @ ''6'' @ [TAB] @ ''q'' @ [TAB] @ ''8''], fs_writable = \<lambda>_. False\<rparr>, g_msgs = []\<rparr>) ''r'' = Some (''C'' @ [TAB] @ ''B1'' @ [TAB] @ ''x'' @ [TAB] @ ''B2'' @ [LF] @ ''0'' @ [TAB] @ ''5'' @ [TAB] @ ''q'' @ [TAB] @ ''7'' @ [LF] @ ''3'' @ [TAB] @ ''6'' @ [TAB] @ ''q'' @ [TAB] @ ''8'') \<and>
   b_indices (py_split_sep TAB (''C'' @ [TAB] @ ''B1'' @ [TAB] @ ''x'' @ [TAB] @ ''B2'')) = [1, 3] \<and>
   array_B ! 1 = ''0.2g'' \<and>
   b_column (snd (read_results_file \<lparr>g_fs = \<lparr>fs_files = [''r'' \<mapsto> ''C'' @ [TAB] @ ''B1'' @ [TAB] @ ''x'' @ [TAB] @ ''B2'' @ [LF] @ ''0'' @ [TAB] @ ''5'' @ [TAB] @ ''q'' @ [TAB] @ ''7'' @ [LF] @ ''3'' @ [TAB] @ ''6'' @ [TAB] @ ''q'' @ [TAB] @ ''8''], fs_writable = \<lambda>_. False\<rparr>, g_msgs = []\<rparr> ''r'')) ''0.2g'' = Some [''7'', ''8'']"
proof -
  have l: "py_readlines (''C'' @ [TAB] @ ''B1'' @ [TAB] @ ''x'' @ [TAB] @ ''B2'' @ [LF] @ ''0'' @ [TAB] @ ''5'' @ [TAB] @ ''q'' @ [TAB] @ ''7'' @ [LF] @ ''3'' @ [TAB] @ ''6'' @ [TAB] @ ''q'' @ [TAB] @ ''8'') =
     [''C'' @ [TAB] @ ''B1'' @ [TAB] @ ''x'' @ [TAB] @ ''B2'' @ [LF], ''0'' @ [TAB] @ ''5'' @ [TAB] @ ''q'' @ [TAB] @ ''7'' @ [LF],
      ''3'' @ [TAB] @ ''6'' @ [TAB] @ ''q'' @ [TAB] @ ''8'']"
    by (simp add: py_eval)
  have h: "b_indices (py_split_sep TAB (py_strip (''C'' @ [TAB] @ ''B1'' @ [TAB] @ ''x'' @ [TAB] @ ''B2'' @ [LF]))) = [1, 3]"
    by (simp add: b_indices_def py_eval upt_rec)
  have b: "array_B ! 1 = ''0.2g''"
    by (simp add: array_B_eq)
  have fs: "fs_files (g_fs \<lparr>g_fs = \<lparr>fs_files = [''r'' \<mapsto> ''C'' @ [TAB] @ ''B1'' @ [TAB] @ ''x'' @ [TAB] @ ''B2'' @ [LF] @ ''0'' @ [TAB] @ ''5'' @ [TAB] @ ''q'' @ [TAB] @ ''7'' @ [LF] @ ''3'' @ [TAB] @ ''6'' @ [TAB] @ ''q'' @ [TAB] @ ''8''], fs_writable = \<lambda>_. False\<rparr>, g_msgs = []\<rparr>) ''r'' = Some (''C'' @ [TAB] @ ''B1'' @ [TAB] @ ''x'' @ [TAB] @ ''B2'' @ [LF] @ ''0'' @ [TAB] @ ''5'' @ [TAB] @ ''q'' @ [TAB] @ ''7'' @ [LF] @ ''3'' @ [TAB] @ ''6'' @ [TAB] @ ''q'' @ [TAB] @ ''8'')"
    by simp
  have all: "\<forall>line \<in> set [''0'' @ [TAB] @ ''5'' @ [TAB] @ ''q'' @ [TAB] @ ''7'' @ [LF], ''3'' @ [TAB] @ ''6'' @ [TAB] @ ''q'' @ [TAB] @ ''8''].
               \<forall>i \<in> set (take 17 [1, 3]). i < length (py_split_sep TAB (py_strip line))"
    by (simp add: py_eval)
  from read_results_file_columns [OF fs l h [symmetric] all, of 1] h b fs show ?thesis
    by (simp add: py_eval)
qed

text \<open>
  C24. One data line with fewer tab-separated fields than a used B column index (a
  trailing blank line is one) makes \<open>read_results_file\<close> show an error box and
  return nothing for the whole file.
\<close>

lemma read_results_file_short_line:
  assumes "fs_files (g_fs g) p = Some c" "py_readlines c = l0 # rest"
    and "line \<in> set rest" "i \<in> set (take 17 (b_indices (py_split_sep TAB (py_strip l0))))"
    and "length (py_split_sep TAB (py_strip line)) \<le> i"
  shows "read_results_file g p = (g\<lparr>g_msgs := g_msgs g @ [ReadError p]\<rparr>, None)"
proof -
  have "isl (rmap (\<lambda>col_idx. rmap (\<lambda>line. py_get (py_split_sep TAB (py_strip line)) (int col_idx)) rest)
                  (take (length array_B) (b_indices (py_split_sep TAB (py_strip l0)))))"
    using assms(3-5) by (auto simp: rmap_isl_iff array_B_facts not_less)
  then show ?thesis
    using assms(1,2) by (auto simp: read_results_file_def read_error_def split: sum.split)
qed

lemma read_results_file_short_line_witness:
  "fs_files (g_fs \<lparr>g_fs = \<lparr>fs_files = [''r'' \<mapsto> ''C'' @ [TAB] @ ''B1'' @ [LF] @ ''0'' @ [TAB] @ ''1'' @ [LF] @ [LF]], fs_writable = \<lambda>_. False\<rparr>, g_msgs = []\<rparr>) ''r'' = Some (''C'' @ [TAB] @ ''B1'' @ [LF] @ ''0'' @ [TAB] @ ''1'' @ [LF] @ [LF]) \<and>
   py_readlines (''C'' @ [TAB] @ ''B1'' @ [LF] @ ''0'' @ [TAB] @ ''1'' @ [LF] @ [LF]) = [''C'' @ [TAB] @ ''B1'' @ [LF], ''0'' @ [TAB] @ ''1'' @ [LF], [LF]] \<and>
   b_indices (py_split_sep TAB (py_strip (''C'' @ [TAB] @ ''B1'' @ [LF]))) = [1] \<and>
   length (py_split_sep TAB (py_strip [LF])) \<le> 1 \<and>
   read_results_file \<lparr>g_fs = \<lparr>fs_files = [''r'' \<mapsto> ''C'' @ [TAB] @ ''B1'' @ [LF] @ ''0'' @ [TAB] @ ''1'' @ [LF] @ [LF]], fs_writable = \<lambda>_. False\<rparr>, g_msgs = []\<rparr> ''r'' = (\<lparr>g_fs = \<lparr>fs_files = [''r'' \<mapsto> ''C'' @ [TAB] @ ''B1'' @ [LF] @ ''0'' @ [TAB] @ ''1'' @ [LF] @ [LF]], fs_writable = \<lambda>_. False\<rparr>, g_msgs = []\<rparr>\<lparr>g_msgs := [ReadError ''r'']\<rparr>, None)"
proof -
  have l: "py_readlines (''C'' @ [TAB] @ ''B1'' @ [LF] @ ''0'' @ [TAB] @ ''1'' @ [LF] @ [LF]) = [''C'' @ [TAB] @ ''B1'' @ [LF], ''0'' @ [TAB] @ ''1'' @ [LF], [LF]]"
    by (simp add: py_eval)
  have h: "b_indices (py_split_sep TAB (py_strip (''C'' @ [TAB] @ ''B1'' @ [LF]))) = [1]"
    by (simp add: b_indices_def py_eval upt_rec)
  have s: "length (py_split_sep TAB (py_strip [LF])) \<le> 1"
    by (simp add: py_eval)
  have fs: "fs_files (g_fs \<lparr>g_fs = \<lparr>fs_files = [''r'' \<mapsto> ''C'' @ [TAB] @ ''B1'' @ [LF] @ ''0'' @ [TAB] @ ''1'' @ [LF] @ [LF]], fs_writable = \<lambda>_. False\<rparr>, g_msgs = []\<rparr>) ''r'' = Some (''C'' @ [TAB] @ ''B1'' @ [LF] @ ''0'' @ [TAB] @ ''1'' @ [LF] @ [LF])"
    by simp
  have m: "[LF] \<in> set [''0'' @ [TAB] @ ''1'' @ [LF], [LF]]" "(1::nat) \<in> set (take 17 [1])"
    by simp_all
  from read_results_file_short_line [OF fs l m(1) m(2) [folded h] s] h s l fs show ?thesis
    by simp
qed

text \<open>
  C25. When the first selected file has row labels and every selected A value's
  file has the b column with at least as many entries, \<open>generate_function1_output\<close>
  returns normally and writes, for every selected b, the header (b, backslash, a, then the A
  values) followed by one line per row label holding the label and the row's entry of
  every A value's column.
\<close>

lemma generate_function1_output_tables:
  assumes "sa \<noteq> []" "map_of sf (hd sa) = Some p0" "read_results_file g p0 = (g, Some (fc, d0))" "fc \<noteq> []"
    and "\<forall>b \<in> set sb. fs_writable (g_fs g) (f1_path d b) \<and>
           (\<forall>a \<in> set sa. col_ok g sf b (col b) (length fc) a \<and> (\<forall>b' \<in> set sb. map_of sf a \<noteq> Some (f1_path d b')))"
  shows "snd (generate_function1_output g sf sa sb d) = Inr () \<and>
         (\<forall>b \<in> set sb. fs_files (g_fs (fst (generate_function1_output g sf sa sb d))) (f1_path d b) =
                        Some (header1 sa @ table1_text fc (col b) sa))"
proof -
  obtain fs' where "f1_files g sf sa d fc sb = (g\<lparr>g_fs := fs'\<rparr>, Inr ())"
    "\<forall>b \<in> set sb. fs_files fs' (f1_path d b) = Some (header1 sa @ table1_text fc (col b) sa)"
    using f1_files_ok [OF assms(5)] by blast
  with assms(1-4) show ?thesis
    by (simp add: generate_function1_output_def py_get_hd)
qed

lemma generate_function1_output_tables_witness:
  "map_of [(100 :: int, ''r'')] (hd [100]) = Some ''r'' \<and>
   read_results_file \<lparr>g_fs = \<lparr>fs_files = [''r'' \<mapsto> ''C'' @ [TAB] @ ''B1'' @ [TAB] @ ''x'' @ [TAB] @ ''B2'' @ [LF] @ ''0'' @ [TAB] @ ''5'' @ [TAB] @ ''q'' @ [TAB] @ ''7'' @ [LF] @ ''3'' @ [TAB] @ ''6'' @ [TAB] @ ''q'' @ [TAB] @ ''8''], fs_writable = \<lambda>_. True\<rparr>, g_msgs = []\<rparr> ''r'' = (\<lparr>g_fs = \<lparr>fs_files = [''r'' \<mapsto> ''C'' @ [TAB] @ ''B1'' @ [TAB] @ ''x'' @ [TAB] @ ''B2'' @ [LF] @ ''0'' @ [TAB] @ ''5'' @ [TAB] @ ''q'' @ [TAB] @ ''7'' @ [LF] @ ''3'' @ [TAB] @ ''6'' @ [TAB] @ ''q'' @ [TAB] @ ''8''], fs_writable = \<lambda>_. True\<rparr>, g_msgs = []\<rparr>, Some ([''0'', ''3''], [(''0.1g'', [''5'', ''6'']), (''0.2g'', [''7'', ''8''])])) \<and>
   col_ok \<lparr>g_fs = \<lparr>fs_files = [''r'' \<mapsto> ''C'' @ [TAB] @ ''B1'' @ [TAB] @ ''x'' @ [TAB] @ ''B2'' @ [LF] @ ''0'' @ [TAB] @ ''5'' @ [TAB] @ ''q'' @ [TAB] @ ''7'' @ [LF] @ ''3'' @ [TAB] @ ''6'' @ [TAB] @ ''q'' @ [TAB] @ ''8''], fs_writable = \<lambda>_. True\<rparr>, g_msgs = []\<rparr> [(100, ''r'')] ''0.1g'' (\<lambda>a. [''5'', ''6'']) 2 100 \<and>
   fs_files (g_fs (fst (generate_function1_output \<lparr>g_fs = \<lparr>fs_files = [''r'' \<mapsto> ''C'' @ [TAB] @ ''B1'' @ [TAB] @ ''x'' @ [TAB] @ ''B2'' @ [LF] @ ''0'' @ [TAB] @ ''5'' @ [TAB] @ ''q'' @ [TAB] @ ''7'' @ [LF] @ ''3'' @ [TAB] @ ''6'' @ [TAB] @ ''q'' @ [TAB] @ ''8''], fs_writable = \<lambda>_. True\<rparr>, g_msgs = []\<rparr> [(100, ''r'')] [100] [''0.1g''] ''out''))) (f1_path ''out'' ''0.1g'') =
     Some (header1 [100] @ table1_text [''0'', ''3''] (\<lambda>a. [''5'', ''6'']) [100])"
proof -
  have l: "py_readlines (''C'' @ [TAB] @ ''B1'' @ [TAB] @ ''x'' @ [TAB] @ ''B2'' @ [LF] @ ''0'' @ [TAB] @ ''5'' @ [TAB] @ ''q'' @ [TAB] @ ''7'' @ [LF] @ ''3'' @ [TAB] @ ''6'' @ [TAB] @ ''q'' @ [TAB] @ ''8'') =
     [''C'' @ [TAB] @ ''B1'' @ [TAB] @ ''x'' @ [TAB] @ ''B2'' @ [LF], ''0'' @ [TAB] @ ''5'' @ [TAB] @ ''q'' @ [TAB] @ ''7'' @ [LF],
      ''3'' @ [TAB] @ ''6'' @ [TAB] @ ''q'' @ [TAB] @ ''8'']"
    by (simp add: py_eval)
  have h: "b_indices (py_split_sep TAB (py_strip (''C'' @ [TAB] @ ''B1'' @ [TAB] @ ''x'' @ [TAB] @ ''B2'' @ [LF]))) = [1, 3]"
    by (simp add: b_indices_def py_eval upt_rec)
  have fs: "fs_files (g_fs \<lparr>g_fs = \<lparr>fs_files = [''r'' \<mapsto> ''C'' @ [TAB] @ ''B1'' @ [TAB] @ ''x'' @ [TAB] @ ''B2'' @ [LF] @ ''0'' @ [TAB] @ ''5'' @ [TAB] @ ''q'' @ [TAB] @ ''7'' @ [LF] @ ''3'' @ [TAB] @ ''6'' @ [TAB] @ ''q'' @ [TAB] @ ''8''], fs_writable = \<lambda>_. True\<rparr>, g_msgs = []\<rparr>) ''r'' = Some (''C'' @ [TAB] @ ''B1'' @ [TAB] @ ''x'' @ [TAB] @ ''B2'' @ [LF] @ ''0'' @ [TAB] @ ''5'' @ [TAB] @ ''q'' @ [TAB] @ ''7'' @ [LF] @ ''3'' @ [TAB] @ ''6'' @ [TAB] @ ''q'' @ [TAB] @ ''8'')"
    by simp
  have all: "\<forall>line \<in> set [''0'' @ [TAB] @ ''5'' @ [TAB] @ ''q'' @ [TAB] @ ''7'' @ [LF], ''3'' @ [TAB] @ ''6'' @ [TAB] @ ''q'' @ [TAB] @ ''8''].
               \<forall>i \<in> set (take 17 [1, 3]). i < length (py_split_sep TAB (py_strip line))"
    by (simp add: py_eval)
  have r: "read_results_file \<lparr>g_fs = \<lparr>fs_files = [''r'' \<mapsto> ''C'' @ [TAB] @ ''B1'' @ [TAB] @ ''x'' @ [TAB] @ ''B2'' @ [LF] @ ''0'' @ [TAB] @ ''5'' @ [TAB] @ ''q'' @ [TAB] @ ''7'' @ [LF] @ ''3'' @ [TAB] @ ''6'' @ [TAB] @ ''q'' @ [TAB] @ ''8''], fs_writable = \<lambda>_. True\<rparr>, g_msgs = []\<rparr> ''r'' = (\<lparr>g_fs = \<lparr>fs_files = [''r'' \<mapsto> ''C'' @ [TAB] @ ''B1'' @ [TAB] @ ''x'' @ [TAB] @ ''B2'' @ [LF] @ ''0'' @ [TAB] @ ''5'' @ [TAB] @ ''q'' @ [TAB] @ ''7'' @ [LF] @ ''3'' @ [TAB] @ ''6'' @ [TAB] @ ''q'' @ [TAB] @ ''8''], fs_writable = \<lambda>_. True\<rparr>, g_msgs = []\<rparr>, Some ([''0'', ''3''], [(''0.1g'', [''5'', ''6'']), (''0.2g'', [''7'', ''8''])]))"
    using read_results_file_ok [OF fs l] h all by (simp add: array_B_eq py_eval)
  have c: "col_ok \<lparr>g_fs = \<lparr>fs_files = [''r'' \<mapsto> ''C'' @ [TAB] @ ''B1'' @ [TAB] @ ''x'' @ [TAB] @ ''B2'' @ [LF] @ ''0'' @ [TAB] @ ''5'' @ [TAB] @ ''q'' @ [TAB] @ ''7'' @ [LF] @ ''3'' @ [TAB] @ ''6'' @ [TAB] @ ''q'' @ [TAB] @ ''8''], fs_writable = \<lambda>_. True\<rparr>, g_msgs = []\<rparr> [(100, ''r'')] ''0.1g'' (\<lambda>a. [''5'', ''6'']) 2 100"
    using r by (simp add: col_ok_def b_column_def)
  have p: "map_of [(100 :: int, ''r'')] a \<noteq> Some (f1_path ''out'' ''0.1g'')" for a
    by (simp add: f1_path_def py_path_join_def)
  have p': "''r'' \<noteq> f1_path ''out'' ''0.1g''"
    by (simp add: f1_path_def py_path_join_def)
  have c2: "col_ok \<lparr>g_fs = \<lparr>fs_files = [''r'' \<mapsto> ''C'' @ [TAB] @ ''B1'' @ [TAB] @ ''x'' @ [TAB] @ ''B2'' @ [LF] @ ''0'' @ [TAB] @ ''5'' @ [TAB] @ ''q'' @ [TAB] @ ''7'' @ [LF] @ ''3'' @ [TAB] @ ''6'' @ [TAB] @ ''q'' @ [TAB] @ ''8''], fs_writable = \<lambda>_. True\<rparr>, g_msgs = []\<rparr> [(100, ''r'')] ''0.1g'' (\<lambda>a. [''5'', ''6'']) (Suc (Suc 0)) 100"
    using c by (simp add: numeral_2_eq_2)
  from generate_function1_output_tables [of "[100]" "[(100, ''r'')]" "''r''" "\<lparr>g_fs = \<lparr>fs_files = [''r'' \<mapsto> ''C'' @ [TAB] @ ''B1'' @ [TAB] @ ''x'' @ [TAB] @ ''B2'' @ [LF] @ ''0'' @ [TAB] @ ''5'' @ [TAB] @ ''q'' @ [TAB] @ ''7'' @ [LF] @ ''3'' @ [TAB] @ ''6'' @ [TAB] @ ''q'' @ [TAB] @ ''8''], fs_writable = \<lambda>_. True\<rparr>, g_msgs = []\<rparr>" "[''0'', ''3'']" _ "[''0.1g'']" "''out''"
      "\<lambda>b a. [''5'', ''6'']"] r c c2 p p'
  show ?thesis by simp
qed


text \<open>
  C26. When the files are readable, the thresholds of the first file are floats and
  every selected A value's b column holds floats or \<open>"error"\<close>,
  \<open>generate_function2_output\<close> writes for every selected b one line per A value
  holding the value, then the ECC result (the extremum over the rows with
  \<open>a <= c*10\<close>), then the RC result (the rows with \<open>c*10 <= a\<close>).
\<close>

lemma generate_function2_output_tables:
  assumes "sa \<noteq> []" "map_of sf (hd sa) = Some p0" "read_results_file g p0 = (g, Some (fc, d0))" "fc \<noteq> []"
    and "distinct sa" "\<forall>t \<in> set fc. \<not> isl (float_res t)"
    and "\<forall>b \<in> set sb. fs_writable (g_fs g) (f2_path d b) \<and>
           (\<forall>a \<in> set sa. col_ok g sf b (col b) 0 a \<and> (\<forall>x \<in> set (col b a). \<not> isl (parse_cell x)))"
    and "\<forall>a \<in> set sa. \<forall>b' \<in> set sb. map_of sf a \<noteq> Some (f2_path d b')"
  shows "snd (generate_function2_output g sf sa sb d repr) = Inr () \<and>
         (\<forall>b \<in> set sb. fs_files (g_fs (fst (generate_function2_output g sf sa sb d repr))) (f2_path d b) =
                        Some (table2_text repr fc (col b) sa))"
proof -
  obtain fs' where "f2_files g sf sa d repr sb = (g\<lparr>g_fs := fs'\<rparr>, Inr ())"
    "\<forall>b \<in> set sb. fs_files fs' (f2_path d b) = Some (table2_text repr fc (col b) sa)"
    using f2_files_ok [OF assms] by blast
  then show ?thesis
    by (simp add: generate_function2_output_def)
qed

lemma generate_function2_output_tables_witness:
  "map_of [(100 :: int, ''r'')] (hd [100]) = Some ''r'' \<and>
   read_results_file \<lparr>g_fs = \<lparr>fs_files = [''r'' \<mapsto> ''C'' @ [TAB] @ ''B1'' @ [TAB] @ ''x'' @ [TAB] @ ''B2'' @ [LF] @ ''0'' @ [TAB] @ ''5'' @ [TAB] @ ''q'' @ [TAB] @ ''7'' @ [LF] @ ''3'' @ [TAB] @ ''6'' @ [TAB] @ ''q'' @ [TAB] @ ''8''], fs_writable = \<lambda>_. True\<rparr>, g_msgs = []\<rparr> ''r'' = (\<lparr>g_fs = \<lparr>fs_files = [''r'' \<mapsto> ''C'' @ [TAB] @ ''B1'' @ [TAB] @ ''x'' @ [TAB] @ ''B2'' @ [LF] @ ''0'' @ [TAB] @ ''5'' @ [TAB] @ ''q'' @ [TAB] @ ''7'' @ [LF] @ ''3'' @ [TAB] @ ''6'' @ [TAB] @ ''q'' @ [TAB] @ ''8''], fs_writable = \<lambda>_. True\<rparr>, g_msgs = []\<rparr>, Some ([''0'', ''3''], [(''0.1g'', [''5'', ''6'']), (''0.2g'', [''7'', ''8''])])) \<and>
   col_ok \<lparr>g_fs = \<lparr>fs_files = [''r'' \<mapsto> ''C'' @ [TAB] @ ''B1'' @ [TAB] @ ''x'' @ [TAB] @ ''B2'' @ [LF] @ ''0'' @ [TAB] @ ''5'' @ [TAB] @ ''q'' @ [TAB] @ ''7'' @ [LF] @ ''3'' @ [TAB] @ ''6'' @ [TAB] @ ''q'' @ [TAB] @ ''8''], fs_writable = \<lambda>_. True\<rparr>, g_msgs = []\<rparr> [(100, ''r'')] ''0.1g'' (\<lambda>a. [''5'', ''6'']) 0 100 \<and>
   fs_files (g_fs (fst (generate_function2_output \<lparr>g_fs = \<lparr>fs_files = [''r'' \<mapsto> ''C'' @ [TAB] @ ''B1'' @ [TAB] @ ''x'' @ [TAB] @ ''B2'' @ [LF] @ ''0'' @ [TAB] @ ''5'' @ [TAB] @ ''q'' @ [TAB] @ ''7'' @ [LF] @ ''3'' @ [TAB] @ ''6'' @ [TAB] @ ''q'' @ [TAB] @ ''8''], fs_writable = \<lambda>_. True\<rparr>, g_msgs = []\<rparr> [(100, ''r'')] [100] [''0.1g''] ''out'' (\<lambda>_. ''v'')))) (f2_path ''out'' ''0.1g'') =
     Some (table2_text (\<lambda>_. ''v'') [''0'', ''3''] (\<lambda>a. [''5'', ''6'']) [100])"
proof -
  have l: "py_readlines (''C'' @ [TAB] @ ''B1'' @ [TAB] @ ''x'' @ [TAB] @ ''B2'' @ [LF] @ ''0'' @ [TAB] @ ''5'' @ [TAB] @ ''q'' @ [TAB] @ ''7'' @ [LF] @ ''3'' @ [TAB] @ ''6'' @ [TAB] @ ''q'' @ [TAB] @ ''8'') =
     [''C'' @ [TAB] @ ''B1'' @ [TAB] @ ''x'' @ [TAB] @ ''B2'' @ [LF], ''0'' @ [TAB] @ ''5'' @ [TAB] @ ''q'' @ [TAB] @ ''7'' @ [LF],
      ''3'' @ [TAB] @ ''6'' @ [TAB] @ ''q'' @ [TAB] @ ''8'']"
    by (simp add: py_eval)
  have h: "b_indices (py_split_sep TAB (py_strip (''C'' @ [TAB] @ ''B1'' @ [TAB] @ ''x'' @ [TAB] @ ''B2'' @ [LF]))) = [1, 3]"
    by (simp add: b_indices_def py_eval upt_rec)
  have fs: "fs_files (g_fs \<lparr>g_fs = \<lparr>fs_files = [''r'' \<mapsto> ''C'' @ [TAB] @ ''B1'' @ [TAB] @ ''x'' @ [TAB] @ ''B2'' @ [LF] @ ''0'' @ [TAB] @ ''5'' @ [TAB] @ ''q'' @ [TAB] @ ''7'' @ [LF] @ ''3'' @ [TAB] @ ''6'' @ [TAB] @ ''q'' @ [TAB] @ ''8''], fs_writable = \<lambda>_. True\<rparr>, g_msgs = []\<rparr>) ''r'' = Some (''C'' @ [TAB] @ ''B1'' @ [TAB] @ ''x'' @ [TAB] @ ''B2'' @ [LF] @ ''0'' @ [TAB] @ ''5'' @ [TAB] @ ''q'' @ [TAB] @ ''7'' @ [LF] @ ''3'' @ [TAB] @ ''6'' @ [TAB] @ ''q'' @ [TAB] @ ''8'')"
    by simp
  have all: "\<forall>line \<in> set [''0'' @ [TAB] @ ''5'' @ [TAB] @ ''q'' @ [TAB] @ ''7'' @ [LF], ''3'' @ [TAB] @ ''6'' @ [TAB] @ ''q'' @ [TAB] @ ''8''].
               \<forall>i \<in> set (take 17 [1, 3]). i < length (py_split_sep TAB (py_strip line))"
    by (simp add: py_eval)
  have r: "read_results_file \<lparr>g_fs = \<lparr>fs_files = [''r'' \<mapsto> ''C'' @ [TAB] @ ''B1'' @ [TAB] @ ''x'' @ [TAB] @ ''B2'' @ [LF] @ ''0'' @ [TAB] @ ''5'' @ [TAB] @ ''q'' @ [TAB] @ ''7'' @ [LF] @ ''3'' @ [TAB] @ ''6'' @ [TAB] @ ''q'' @ [TAB] @ ''8''], fs_writable = \<lambda>_. True\<rparr>, g_msgs = []\<rparr> ''r'' = (\<lparr>g_fs = \<lparr>fs_files = [''r'' \<mapsto> ''C'' @ [TAB] @ ''B1'' @ [TAB] @ ''x'' @ [TAB] @ ''B2'' @ [LF] @ ''0'' @ [TAB] @ ''5'' @ [TAB] @ ''q'' @ [TAB] @ ''7'' @ [LF] @ ''3'' @ [TAB] @ ''6'' @ [TAB] @ ''q'' @ [TAB] @ ''8''], fs_writable = \<lambda>_. True\<rparr>, g_msgs = []\<rparr>, Some ([''0'', ''3''], [(''0.1g'', [''5'', ''6'']), (''0.2g'', [''7'', ''8''])]))"
    using read_results_file_ok [OF fs l] h all by (simp add: array_B_eq py_eval)
  have c: "col_ok \<lparr>g_fs = \<lparr>fs_files = [''r'' \<mapsto> ''C'' @ [TAB] @ ''B1'' @ [TAB] @ ''x'' @ [TAB] @ ''B2'' @ [LF] @ ''0'' @ [TAB] @ ''5'' @ [TAB] @ ''q'' @ [TAB] @ ''7'' @ [LF] @ ''3'' @ [TAB] @ ''6'' @ [TAB] @ ''q'' @ [TAB] @ ''8''], fs_writable = \<lambda>_. True\<rparr>, g_msgs = []\<rparr> [(100, ''r'')] ''0.1g'' (\<lambda>a. [''5'', ''6'']) 0 100"
    using r by (simp add: col_ok_def b_column_def)
  have p: "map_of [(100 :: int, ''r'')] a \<noteq> Some (f2_path ''out'' ''0.1g'')" for a
    by (simp add: f2_path_def py_path_join_def)
  have p': "''r'' \<noteq> f2_path ''out'' ''0.1g''"
    by (simp add: f2_path_def py_path_join_def)
  have n: "\<not> isl (float_res ''0'')" "\<not> isl (float_res ''3'')" "\<not> isl (parse_cell ''5'')" "\<not> isl (parse_cell ''6'')"
    by (simp_all add: parse_cell_def py_eval)
  from generate_function2_output_tables [of "[100]" "[(100, ''r'')]" "''r''" "\<lparr>g_fs = \<lparr>fs_files = [''r'' \<mapsto> ''C'' @ [TAB] @ ''B1'' @ [TAB] @ ''x'' @ [TAB] @ ''B2'' @ [LF] @ ''0'' @ [TAB] @ ''5'' @ [TAB] @ ''q'' @ [TAB] @ ''7'' @ [LF] @ ''3'' @ [TAB] @ ''6'' @ [TAB] @ ''q'' @ [TAB] @ ''8''], fs_writable = \<lambda>_. True\<rparr>, g_msgs = []\<rparr>" "[''0'', ''3'']" _ "[''0.1g'']" "''out''"
      "\<lambda>b a. [''5'', ''6'']" "\<lambda>_. ''v''"] r c p p' n
  show ?thesis by simp
qed

end
