(* ===== verification/Dialog.thy ===== *)
theory Dialog
  imports ResultsFile "HOL-Library.AList"
begin

text \<open>
  The dialog state of \<open>ResultProcessor\<close> (src/process_results.py) as a record
  \<open>ui\<close> and the button clicks as \<open>event\<close>s: \<open>start_function1/2\<close> (lines
  312-322) with the fresh check boxes of \<open>create_processing_ui\<close> (lines 75-101),
  a click on an A or b check box, \<open>select_file\<close> (lines 135-152) with the answer of
  the file dialog (the empty string when cancelled), \<open>reset_selection\<close> (lines
  154-157), \<open>generate_output\<close> (lines 210-242) with the answer of the directory
  dialog, and \<open>return_to_main\<close> (lines 120-123).  \<open>processing\<close> says whether the
  processing window is shown; the main window is withdrawn meanwhile, so its buttons
  act only when \<open>processing\<close> is false and the others only when it is true.
  \<open>selected_files\<close> belongs to the object, not to the window: it survives a return
  to the main window.  \<open>update_file_list\<close> is the view \<open>file_list\<close>.  The
  window-manager close button of the processing window is \<open>CloseProcessing\<close>
  (\<open>on_processing_window_closing\<close>, lines 116-118); that of the main window is
  \<open>CloseMain ok\<close> with the answer of the confirmation box (\<open>on_closing\<close> and
  \<open>cleanup\<close>, lines 34-44), after which the process has exited (\<open>exited\<close>).
\<close>

record ui =
  ui_g :: gstate
  current_function :: nat
  selected_files :: "(int \<times> path) list"
  a_vars :: "bool list"
  b_vars :: "bool list"
  processing :: bool
  exited :: bool

datatype event =
    StartFunction nat
  | ToggleA nat
  | ToggleB nat
  | SelectFile path
  | ResetSelection
  | GenerateOutput path
  | ReturnToMain
  | CloseProcessing
  | CloseMain bool

definition selected_a :: "ui \<Rightarrow> int list" where
  "selected_a st = map fst (filter snd (zip array_A (a_vars st)))"

definition selected_b :: "ui \<Rightarrow> string list" where
  "selected_b st = map fst (filter snd (zip array_B (b_vars st)))"

definition add_msg :: "msg \<Rightarrow> ui \<Rightarrow> ui" where
  "add_msg m st = st\<lparr>ui_g := (ui_g st)\<lparr>g_msgs := g_msgs (ui_g st) @ [m]\<rparr>\<rparr>"

text \<open>The buttons of the main window (\<open>create_main_ui\<close>, lines 46-56).\<close>

definition create_main_ui :: "event list" where
  "create_main_ui = [StartFunction 1, StartFunction 2]"

text \<open>
  \<open>create_processing_ui\<close> (lines 58-114): the processing window is shown with one
  fresh unchecked box per A value and per b label; \<open>selected_files\<close> is kept.
\<close>

definition create_processing_ui :: "ui \<Rightarrow> ui" where
  "create_processing_ui st =
     st\<lparr>processing := True, a_vars := replicate (length array_A) False, b_vars := replicate (length array_B) False\<rparr>"

definition start_function :: "nat \<Rightarrow> ui \<Rightarrow> ui" where
  "start_function n st = create_processing_ui (st\<lparr>current_function := n\<rparr>)"

definition return_to_main :: "ui \<Rightarrow> ui" where
  "return_to_main st = st\<lparr>processing := False\<rparr>"

definition on_processing_window_closing :: "ui \<Rightarrow> ui" where
  "on_processing_window_closing st = return_to_main st"

text \<open>
  \<open>cleanup\<close> (lines 39-44) destroys both windows and ends the process with
  \<open>os._exit(0)\<close>; \<open>on_closing\<close> (lines 34-37) calls it when the user confirms.
\<close>

definition cleanup :: "ui \<Rightarrow> ui" where
  "cleanup st = st\<lparr>processing := False, exited := True\<rparr>"

definition on_closing :: "bool \<Rightarrow> ui \<Rightarrow> ui" where
  "on_closing ok st = (if ok then cleanup st else st)"

definition select_file :: "path \<Rightarrow> ui \<Rightarrow> ui" where
  "select_file file_path st =
     (case filter (\<lambda>a. a \<notin> set (map fst (selected_files st))) (selected_a st) of
        [] \<Rightarrow> add_msg AllPaired st
      | a # _ \<Rightarrow> if file_path = [] then st
                else st\<lparr>selected_files := AList.update a file_path (selected_files st)\<rparr>)"

definition reset_selection :: "ui \<Rightarrow> ui" where
  "reset_selection st = st\<lparr>selected_files := []\<rparr>"

definition run_generator :: "(pyfloat \<Rightarrow> string) \<Rightarrow> ui \<Rightarrow> path \<Rightarrow> gstate \<times> (py_error + unit)" where
  "run_generator repr st output_dir =
     (if current_function st = 2
      then generate_function2_output (ui_g st) (selected_files st) (selected_a st) (selected_b st) output_dir repr
      else generate_function1_output (ui_g st) (selected_files st) (selected_a st) (selected_b st) output_dir)"

definition generate_output :: "(pyfloat \<Rightarrow> string) \<Rightarrow> path \<Rightarrow> ui \<Rightarrow> ui" where
  "generate_output repr output_dir st =
     (if selected_a st = [] then add_msg WarnNoA st
      else if length (selected_a st) \<noteq> length (selected_files st) then add_msg WarnFiles st
      else if selected_b st = [] then add_msg WarnNoB st
      else if output_dir = [] then st
      else (case run_generator repr st output_dir of
              (g, Inl e) \<Rightarrow> add_msg (Failed e) (st\<lparr>ui_g := g\<rparr>)
            | (g, Inr _) \<Rightarrow> return_to_main (add_msg (Success output_dir) (st\<lparr>ui_g := g\<rparr>))))"

definition toggle :: "nat \<Rightarrow> bool list \<Rightarrow> bool list" where
  "toggle i vs = vs[i := \<not> vs ! i]"

fun step :: "(pyfloat \<Rightarrow> string) \<Rightarrow> ui \<Rightarrow> event \<Rightarrow> ui" where
  "step repr st (StartFunction n) =
     (if \<not> processing st \<and> \<not> exited st \<and> StartFunction n \<in> set create_main_ui then start_function n st else st)"
| "step repr st (ToggleA i) =
     (if processing st \<and> i < length (a_vars st) then st\<lparr>a_vars := toggle i (a_vars st)\<rparr> else st)"
| "step repr st (ToggleB i) =
     (if processing st \<and> i < length (b_vars st) then st\<lparr>b_vars := toggle i (b_vars st)\<rparr> else st)"
| "step repr st (SelectFile p) = (if processing st then select_file p st else st)"
| "step repr st ResetSelection = (if processing st then reset_selection st else st)"
| "step repr st (GenerateOutput d) = (if processing st then generate_output repr d st else st)"
| "step repr st ReturnToMain = (if processing st then return_to_main st else st)"
| "step repr st CloseProcessing = (if processing st then on_processing_window_closing st else st)"
| "step repr st (CloseMain ok) = (if \<not> processing st \<and> \<not> exited st then on_closing ok st else st)"

definition init_ui :: "fsys \<Rightarrow> ui" where
  "init_ui fs =
     \<lparr>ui_g = \<lparr>g_fs = fs, g_msgs = []\<rparr>, current_function = 0, selected_files = [],
      a_vars = [], b_vars = [], processing = False, exited = False\<rparr>"

definition run :: "(pyfloat \<Rightarrow> string) \<Rightarrow> ui \<Rightarrow> event list \<Rightarrow> ui" where
  "run repr st es = foldl (step repr) st es"

text \<open>\<open>ResultProcessor().run()\<close> of lines 327-329 on a sequence of user events.\<close>

definition results_main :: "(pyfloat \<Rightarrow> string) \<Rightarrow> fsys \<Rightarrow> event list \<Rightarrow> ui" where
  "results_main repr fs es = run repr (init_ui fs) es"

datatype file_status = NotSelected | SelectedAs string

definition file_list :: "ui \<Rightarrow> (int \<times> file_status) list" where
  "file_list st =
     map (\<lambda>a. (a, case map_of (selected_files st) a of None \<Rightarrow> NotSelected | Some p \<Rightarrow> SelectedAs (py_basename p)))
         (selected_a st)"

inductive reachable :: "(pyfloat \<Rightarrow> string) \<Rightarrow> fsys \<Rightarrow> ui \<Rightarrow> bool" for repr fs0 where
  reachable_init: "reachable repr fs0 (init_ui fs0)"
| reachable_step: "reachable repr fs0 st \<Longrightarrow> reachable repr fs0 (step repr st e)"

definition unpaired :: "ui \<Rightarrow> int list" where
  "unpaired st = filter (\<lambda>a. a \<notin> set (map fst (selected_files st))) (selected_a st)"

subsection \<open>The invariant\<close>

text \<open>
  Every A value has at most one file, only A values of \<open>array_A\<close> have one, no
  file name is empty, the processing window has one check box per A value and per b
  label, and after the main window was closed no window is shown.
\<close>

definition ui_inv :: "ui \<Rightarrow> bool" where
  "ui_inv st \<longleftrightarrow>
     distinct (map fst (selected_files st)) \<and> set (map fst (selected_files st)) \<subseteq> set array_A \<and>
     [] \<notin> set (map snd (selected_files st)) \<and>
     (processing st \<longrightarrow> length (a_vars st) = length array_A \<and> length (b_vars st) = length array_B) \<and>
     (exited st \<longrightarrow> \<not> processing st)"

subsection \<open>Lemmas\<close>

lemma selected_a_sub: "set (selected_a st) \<subseteq> set array_A"
  by (auto simp: selected_a_def dest: set_zip_leftD)

lemma distinct_selected_a: "distinct (selected_a st)"
proof -
  have "distinct (map fst (zip array_A (a_vars st)))"
    by (simp add: array_A_def distinct_take [of _ "length (a_vars st)"] map_fst_zip_take)
  then show ?thesis
    unfolding selected_a_def by (metis distinct_map_filter)
qed

lemma ui_inv_init: "ui_inv (init_ui fs)"
  by (simp add: ui_inv_def init_ui_def)

lemma ui_inv_add_msg [simp]: "ui_inv (add_msg m st) = ui_inv st"
  by (simp add: ui_inv_def add_msg_def)

lemma update_subset: "set (AList.update k v al) \<subseteq> insert (k, v) (set al)"
  by (induction al) auto

lemma ui_inv_update:
  assumes "ui_inv st" "a \<in> set array_A" "p \<noteq> []"
  shows "ui_inv (st\<lparr>selected_files := AList.update a p (selected_files st)\<rparr>)"
proof -
  have "set (AList.update a p (selected_files st)) \<subseteq> insert (a, p) (set (selected_files st))"
    by (rule update_subset)
  with assms show ?thesis
    by (auto simp: ui_inv_def distinct_update dom_update)
qed

lemma ui_inv_select_file: "ui_inv st \<Longrightarrow> ui_inv (select_file p st)"
proof (cases "unpaired st")
  case Nil
  then show "ui_inv st \<Longrightarrow> ?thesis" by (simp add: select_file_def unpaired_def)
next
  case (Cons a as)
  then have "a \<in> set (unpaired st)" by simp
  then have "a \<in> set (selected_a st)" by (simp add: unpaired_def)
  then have "a \<in> set array_A" using selected_a_sub by blast
  with Cons show "ui_inv st \<Longrightarrow> ?thesis"
    by (auto simp: select_file_def unpaired_def intro: ui_inv_update)
qed

lemma ui_inv_generate_output: "ui_inv st \<Longrightarrow> ui_inv (generate_output repr d st)"
  by (auto simp: generate_output_def return_to_main_def add_msg_def ui_inv_def split: prod.split sum.split)

lemma ui_inv_step: "ui_inv st \<Longrightarrow> ui_inv (step repr st e)"
proof (cases e)
  case (SelectFile p)
  then show "ui_inv st \<Longrightarrow> ?thesis" by (simp add: ui_inv_select_file)
next
  case (GenerateOutput d)
  then show "ui_inv st \<Longrightarrow> ?thesis" by (simp add: ui_inv_generate_output)
qed (auto simp: ui_inv_def start_function_def create_processing_ui_def toggle_def reset_selection_def
                return_to_main_def on_processing_window_closing_def on_closing_def cleanup_def)

lemma reachable_run: "reachable repr fs0 st \<Longrightarrow> reachable repr fs0 (run repr st es)"
  by (induction es arbitrary: st) (auto simp: run_def intro: reachable_step)

lemma run_Cons: "run repr st (e # es) = run repr (step repr st e) es"
  by (simp add: run_def)

lemma run_Nil: "run repr st [] = st"
  by (simp add: run_def)

lemma ui_g_self [simp]: "st\<lparr>ui_g := ui_g st\<rparr> = st"
  by (cases st) simp

lemma generate_function1_output_key_error:
  "sa \<noteq> [] \<Longrightarrow> map_of sf (hd sa) = None \<Longrightarrow> generate_function1_output g sf sa sb d = (g, Inl KeyError)"
  by (simp add: generate_function1_output_def py_get_hd)

lemma generate_function2_output_key_error:
  "sa \<noteq> [] \<Longrightarrow> sb \<noteq> [] \<Longrightarrow> map_of sf (hd sa) = None \<Longrightarrow> generate_function2_output g sf sa sb d repr = (g, Inl KeyError)"
  by (cases sb) (simp_all add: generate_function2_output_def f2_file_def py_get_hd)

lemma read_results_file_missing:
  "fs_files (g_fs g) p = None \<Longrightarrow> read_results_file g p = (g\<lparr>g_msgs := g_msgs g @ [ReadError p]\<rparr>, None)"
  by (simp add: read_results_file_def read_error_def)

lemma generate_function1_output_missing:
  "sa \<noteq> [] \<Longrightarrow> map_of sf (hd sa) = Some p \<Longrightarrow> fs_files (g_fs g) p = None \<Longrightarrow>
   generate_function1_output g sf sa sb d = (g\<lparr>g_msgs := g_msgs g @ [ReadError p]\<rparr>, Inr ())"
  by (simp add: generate_function1_output_def py_get_hd read_results_file_missing)

lemma generate_function2_output_missing:
  "sa \<noteq> [] \<Longrightarrow> sb \<noteq> [] \<Longrightarrow> map_of sf (hd sa) = Some p \<Longrightarrow> fs_files (g_fs g) p = None \<Longrightarrow>
   generate_function2_output g sf sa sb d repr = (g\<lparr>g_msgs := g_msgs g @ [ReadError p]\<rparr>, Inr ())"
  by (cases sb) (simp_all add: generate_function2_output_def f2_file_def py_get_hd read_results_file_missing)

lemma processing_select_file [simp]: "processing (select_file p st) = processing st"
  by (auto simp: select_file_def add_msg_def split: list.split)

lemma distinct_unpaired: "distinct (unpaired st)"
  by (simp add: unpaired_def distinct_selected_a)

lemma select_file_next:
  assumes "processing st" "unpaired st = a # us" "p \<noteq> []"
  shows "processing (step repr st (SelectFile p)) \<and> unpaired (step repr st (SelectFile p)) = us \<and>
         selected_files (step repr st (SelectFile p)) = AList.update a p (selected_files st)"
proof -
  have st': "step repr st (SelectFile p) = st\<lparr>selected_files := AList.update a p (selected_files st)\<rparr>"
  proof -
    have u: "filter (\<lambda>a. a \<notin> set (map fst (selected_files st))) (selected_a st) = a # us"
      using assms(2) unfolding unpaired_def .
    show ?thesis
      using assms(1,3) unfolding step.simps select_file_def u by simp
  qed
  have "a \<notin> set us" using distinct_unpaired [of st] assms(2) by simp
  then have "filter (\<lambda>x. x \<noteq> a) us = us" by (auto simp: filter_id_conv)
  moreover have "unpaired (st\<lparr>selected_files := AList.update a p (selected_files st)\<rparr>) =
                   filter (\<lambda>x. x \<noteq> a) (unpaired st)"
    by (simp add: unpaired_def selected_a_def dom_update filter_filter conj_commute)
  ultimately show ?thesis
    using assms st' by simp
qed

lemma exited_final:
  assumes "ui_inv st" "exited st"
  shows "step repr st e = st"
proof -
  have "\<not> processing st" using assms by (simp add: ui_inv_def)
  with assms(2) show ?thesis by (cases e) simp_all
qed

lemma run_exited:
  "ui_inv st \<Longrightarrow> exited st \<Longrightarrow> run repr st es = st"
  by (induction es) (simp_all add: run_def exited_final)

subsection \<open>Properties\<close>

text \<open>
  C27. In every state the dialog can reach, each A value has at most one file, only
  values of \<open>array_A\<close> have one, no file name is empty, the processing window
  has one check box per A value and per b label, and once the main window was closed
  no window is shown (so no later event changes the state, \<open>run_exited\<close>).
\<close>

lemma reachable_ui_inv: "reachable repr fs0 st \<Longrightarrow> ui_inv st"
  by (induction rule: reachable.induct) (simp_all add: ui_inv_init ui_inv_step)

lemma reachable_ui_inv_witness:
  "distinct (map fst (selected_files (run (\<lambda>_. ''v'') (init_ui \<lparr>fs_files = Map.empty, fs_writable = \<lambda>_. True\<rparr>) [StartFunction 1, ToggleA 0, SelectFile ''r'', SelectFile ''s'']))) \<and>
   length (a_vars (run (\<lambda>_. ''v'') (init_ui \<lparr>fs_files = Map.empty, fs_writable = \<lambda>_. True\<rparr>) [StartFunction 1, ToggleA 0, SelectFile ''r'', SelectFile ''s''])) = length array_A"
proof -
  have "reachable (\<lambda>_. ''v'') \<lparr>fs_files = Map.empty, fs_writable = \<lambda>_. True\<rparr> (run (\<lambda>_. ''v'') (init_ui \<lparr>fs_files = Map.empty, fs_writable = \<lambda>_. True\<rparr>) [StartFunction 1, ToggleA 0, SelectFile ''r'', SelectFile ''s''])"
    by (intro reachable_run reachable_init)
  then have i: "ui_inv (run (\<lambda>_. ''v'') (init_ui \<lparr>fs_files = Map.empty, fs_writable = \<lambda>_. True\<rparr>) [StartFunction 1, ToggleA 0, SelectFile ''r'', SelectFile ''s''])"
    by (rule reachable_ui_inv)
  have "processing (run (\<lambda>_. ''v'') (init_ui \<lparr>fs_files = Map.empty, fs_writable = \<lambda>_. True\<rparr>) [StartFunction 1, ToggleA 0, SelectFile ''r'', SelectFile ''s''])"
    by (simp add: run_Cons run_Nil start_function_def create_processing_ui_def create_main_ui_def toggle_def init_ui_def array_A_def)
  with i show ?thesis
    by (simp add: ui_inv_def)
qed

text \<open>
  C28. The guard of \<open>generate_output\<close> compares counts, not A values: when the
  first checked A value has no file although there are as many files as checked A
  values (files chosen for an A value that was unchecked since, possibly before a
  return to the main window), both functions raise \<open>KeyError\<close>, which is reported as
  a failure.
\<close>

lemma generate_output_key_error:
  assumes "processing st" "selected_a st \<noteq> []" "length (selected_a st) = length (selected_files st)"
    and "selected_b st \<noteq> []" "d \<noteq> []" "hd (selected_a st) \<notin> set (map fst (selected_files st))"
  shows "step repr st (GenerateOutput d) = add_msg (Failed KeyError) st"
proof -
  have "map_of (selected_files st) (hd (selected_a st)) = None"
    using assms(6) by (simp add: map_of_eq_None_iff)
  then have "run_generator repr st d = (ui_g st, Inl KeyError)"
    using assms(2,4) by (simp add: run_generator_def generate_function1_output_key_error generate_function2_output_key_error)
  with assms show ?thesis
    by (simp add: generate_output_def)
qed

lemma generate_output_key_error_witness:
  "selected_a (run (\<lambda>_. ''v'') (init_ui \<lparr>fs_files = Map.empty, fs_writable = \<lambda>_. True\<rparr>) [StartFunction 1, ToggleA 0, SelectFile ''r'', ReturnToMain, StartFunction 1, ToggleA 1, ToggleB 0]) = [200] \<and>
   selected_files (run (\<lambda>_. ''v'') (init_ui \<lparr>fs_files = Map.empty, fs_writable = \<lambda>_. True\<rparr>) [StartFunction 1, ToggleA 0, SelectFile ''r'', ReturnToMain, StartFunction 1, ToggleA 1, ToggleB 0]) = [(100, ''r'')] \<and>
   g_msgs (ui_g (run (\<lambda>_. ''v'') (init_ui \<lparr>fs_files = Map.empty, fs_writable = \<lambda>_. True\<rparr>) [StartFunction 1, ToggleA 0, SelectFile ''r'', ReturnToMain, StartFunction 1, ToggleA 1, ToggleB 0,
                                       GenerateOutput ''out''])) = [Failed KeyError]"
proof -
  let ?st = "run (\<lambda>_. ''v'') (init_ui \<lparr>fs_files = Map.empty, fs_writable = \<lambda>_. True\<rparr>) [StartFunction 1, ToggleA 0, SelectFile ''r'', ReturnToMain, StartFunction 1, ToggleA 1, ToggleB 0]"
  have s: "selected_a ?st = [200]" "selected_b ?st = [''0.1g'']" "selected_files ?st = [(100, ''r'')]"
    "processing ?st" "g_msgs (ui_g ?st) = []"
    by (simp_all add: run_Cons run_Nil init_ui_def start_function_def create_processing_ui_def create_main_ui_def toggle_def select_file_def selected_a_def
                      selected_b_def return_to_main_def array_A_def array_B_eq add_msg_def)
  have "step (\<lambda>_. ''v'') ?st (GenerateOutput ''out'') = add_msg (Failed KeyError) ?st"
    by (rule generate_output_key_error) (insert s, simp_all)
  moreover have "run (\<lambda>_. ''v'') (init_ui \<lparr>fs_files = Map.empty, fs_writable = \<lambda>_. True\<rparr>)
      [StartFunction 1, ToggleA 0, SelectFile ''r'', ReturnToMain, StartFunction 1, ToggleA 1, ToggleB 0, GenerateOutput ''out''] =
    step (\<lambda>_. ''v'') ?st (GenerateOutput ''out'')"
    by (simp add: run_def)
  ultimately show ?thesis
    using s by (simp add: add_msg_def)
qed

text \<open>
  C29. When the first selected A value is paired with a file that does not exist,
  both generators log the read error and return early without writing a table; the
  dialog still reports success and closes the processing window.
\<close>

lemma generate_output_silent_success:
  assumes "processing st" "selected_a st \<noteq> []" "length (selected_a st) = length (selected_files st)"
    and "selected_b st \<noteq> []" "d \<noteq> []" "map_of (selected_files st) (hd (selected_a st)) = Some p"
    and "fs_files (g_fs (ui_g st)) p = None"
  shows "step repr st (GenerateOutput d) = return_to_main (add_msg (Success d) (add_msg (ReadError p) st))"
proof -
  have "run_generator repr st d = ((ui_g st)\<lparr>g_msgs := g_msgs (ui_g st) @ [ReadError p]\<rparr>, Inr ())"
    using assms(2,4,6,7)
    by (simp add: run_generator_def generate_function1_output_missing generate_function2_output_missing)
  with assms(1-5) show ?thesis
    by (simp add: generate_output_def add_msg_def)
qed

lemma generate_output_silent_success_witness:
  "g_msgs (ui_g (run (\<lambda>_. ''v'') (init_ui \<lparr>fs_files = Map.empty, fs_writable = \<lambda>_. True\<rparr>)
      [StartFunction 1, ToggleA 0, ToggleB 0, SelectFile ''r'', GenerateOutput ''out''])) = [ReadError ''r'', Success ''out''] \<and>
   \<not> processing (run (\<lambda>_. ''v'') (init_ui \<lparr>fs_files = Map.empty, fs_writable = \<lambda>_. True\<rparr>)
      [StartFunction 1, ToggleA 0, ToggleB 0, SelectFile ''r'', GenerateOutput ''out''])"
proof -
  let ?st = "run (\<lambda>_. ''v'') (init_ui \<lparr>fs_files = Map.empty, fs_writable = \<lambda>_. True\<rparr>) [StartFunction 1, ToggleA 0, ToggleB 0, SelectFile ''r'']"
  have s: "selected_a ?st = [100]" "selected_b ?st = [''0.1g'']" "selected_files ?st = [(100, ''r'')]"
    "processing ?st" "g_msgs (ui_g ?st) = []" "fs_files (g_fs (ui_g ?st)) = Map.empty"
    by (simp_all add: run_Cons run_Nil init_ui_def start_function_def create_processing_ui_def create_main_ui_def toggle_def select_file_def selected_a_def
                      selected_b_def array_A_def array_B_eq add_msg_def)
  have "step (\<lambda>_. ''v'') ?st (GenerateOutput ''out'') = return_to_main (add_msg (Success ''out'') (add_msg (ReadError ''r'') ?st))"
    by (rule generate_output_silent_success) (insert s, simp_all)
  moreover have "run (\<lambda>_. ''v'') (init_ui \<lparr>fs_files = Map.empty, fs_writable = \<lambda>_. True\<rparr>)
      [StartFunction 1, ToggleA 0, ToggleB 0, SelectFile ''r'', GenerateOutput ''out''] =
    step (\<lambda>_. ''v'') ?st (GenerateOutput ''out'')"
    by (simp add: run_def)
  ultimately show ?thesis
    using s by (simp add: add_msg_def return_to_main_def)
qed

text \<open>
  C30. In the processing window, selecting one non-empty file per unpaired A value
  pairs every selected A value, and pairs the values in their order with the files in
  the order they were chosen, leaving earlier pairs as they were.
\<close>

theorem select_files_pair_all:
  "processing st \<Longrightarrow> length ps = length (unpaired st) \<Longrightarrow> [] \<notin> set ps \<Longrightarrow>
   unpaired (run repr st (map SelectFile ps)) = [] \<and>
   map_of (selected_files (run repr st (map SelectFile ps))) = map_of (selected_files st) ++ map_of (zip (unpaired st) ps)"
proof (induction ps arbitrary: st)
  case Nil
  then show ?case by (simp add: run_Nil)
next
  case (Cons p ps)
  then obtain a us where u: "unpaired st = a # us" by (cases "unpaired st") auto
  let ?st' = "step repr st (SelectFile p)"
  have n: "processing ?st'" "unpaired ?st' = us" "selected_files ?st' = AList.update a p (selected_files st)"
  proof -
    have "p \<noteq> []" using Cons.prems(3) by auto
    from select_file_next [OF Cons.prems(1) u this, of repr]
    show "processing ?st'" "unpaired ?st' = us" "selected_files ?st' = AList.update a p (selected_files st)"
      by blast+
  qed
  have ih: "unpaired (run repr ?st' (map SelectFile ps)) = [] \<and>
      map_of (selected_files (run repr ?st' (map SelectFile ps))) = map_of (selected_files ?st') ++ map_of (zip us ps)"
    using Cons.IH [OF n(1)] Cons.prems(2,3) u n(2) by simp
  have "a \<notin> dom (map_of (zip us ps))"
    using distinct_unpaired [of st] u Cons.prems(2) by simp
  then have eq: "map_of (AList.update a p (selected_files st)) ++ map_of (zip us ps) =
      map_of (selected_files st) ++ map_of (zip (a # us) (p # ps))"
    by (simp add: update_conv' map_add_upd_left)
  have r: "run repr st (map SelectFile (p # ps)) = run repr ?st' (map SelectFile ps)"
    by (simp add: run_Cons)
  show ?case
    using ih by (simp only: r u n(3) eq)
qed

lemma select_files_pair_all_witness:
  "unpaired (run (\<lambda>_. ''v'') (run (\<lambda>_. ''v'') (init_ui \<lparr>fs_files = Map.empty, fs_writable = \<lambda>_. True\<rparr>)
      [StartFunction 1, ToggleA 0, ToggleA 1]) (map SelectFile [''x'', ''y''])) = [] \<and>
   map_of (selected_files (run (\<lambda>_. ''v'') (run (\<lambda>_. ''v'') (init_ui \<lparr>fs_files = Map.empty, fs_writable = \<lambda>_. True\<rparr>)
      [StartFunction 1, ToggleA 0, ToggleA 1]) (map SelectFile [''x'', ''y'']))) 200 = Some ''y''"
proof -
  let ?st = "run (\<lambda>_. ''v'') (init_ui \<lparr>fs_files = Map.empty, fs_writable = \<lambda>_. True\<rparr>) [StartFunction 1, ToggleA 0, ToggleA 1]"
  have s: "processing ?st" "unpaired ?st = [100, 200]" "selected_files ?st = []"
    by (simp_all add: run_Cons run_Nil init_ui_def start_function_def create_processing_ui_def create_main_ui_def toggle_def unpaired_def selected_a_def array_A_def)
  show ?thesis
    using select_files_pair_all [of ?st "[''x'', ''y'']" "\<lambda>_. ''v''"] s by simp
qed

end
