(* ===== verification/Spec2Isabelle.thy ===== *)
theory Spec2Isabelle
  imports StrainReduce ColumnExtractor BarfiberOutput Dialog
begin

text \<open>
  \<^bold>\<open>A verification library for ops_PostProcessing.\<close>

  The repository holds three independent Tk utilities that post-process the text
  output of a structural simulation:
  \<^item> \<open>src/process_results.py\<close>, class \<open>ResultProcessor\<close>: reads one tab-separated
    results file per selected A value (100..700), extracts the columns whose headers
    start with \<open>B\<close> (mapped positionally onto the labels 0.1g..1.7g), and either
    tabulates them (function 1, \<open>generate_function1_output\<close>) or reduces them to
    the strain extremum per A value (function 2, \<open>generate_function2_output\<close> and
    \<open>process_strain_data\<close>);
  \<^item> \<open>src/process_barfiber.py\<close>: for every file \<open>S2_B*_IDA_8.5MPa_barfiber*.out\<close> of
    the chosen folders, the maximum absolute value of the last column (times 1000),
    tabulated by the two numbers in the file name, with an error log of the lines
    whose last field is not a float;
  \<^item> \<open>src/column_extractor.py\<close>: copies one whitespace-separated column of each
    input file to an output file, \<open>"error"\<close> for lines that are too short.
  The scripts share no state; each is a pipeline of file reading, string splitting,
  \<open>float()\<close> conversion, a numeric reduction and file writing, driven by dialogs.

  \<^bold>\<open>Theories.\<close>
  \<^item> \<open>Prelude\<close>: Python exceptions as the values of \<open>py_error\<close> and computations
    that may raise as \<open>py_error + 'a\<close> (\<open>rbind\<close>, \<open>rmap\<close> for a comprehension whose
    element function raises, \<open>py_get\<close> for \<open>xs[i]\<close>, \<open>py_index\<close> for
    \<open>list.index\<close>), the \<open>py_eval\<close> collection of evaluation rules, and list
    lemmas for consistent row reorderings (\<open>reorder\<close>).
  \<^item> \<open>PyStr\<close>: the Python \<open>str\<close> operations the scripts call (\<open>strip\<close>,
    \<open>split()\<close>, \<open>split(sep)\<close>, \<open>join\<close>, \<open>startswith\<close>) and text-mode line
    reading with universal newlines, over strings of Latin-1 code points; with the
    round trip \<open>py_split (py_join sep ws) = ws\<close>.
  \<^item> \<open>PyFloat\<close>: Python floats as \<open>NaN\<close> or a point of the extended real line
    \<open>xfloat\<close> (an instance of \<open>linorder\<close>), IEEE comparisons, the builtin
    \<open>max(a, b)\<close>, and \<open>float(s)\<close> as CPython parses it (whitespace, sign,
    \<open>inf\<close>/\<open>infinity\<close>/\<open>nan\<close> in any case, digits with underscores, fraction,
    exponent).  Finite values are exact reals: rounding to double precision is not
    modelled, overflow to \<open>inf\<close> beyond \<open>2^1024 - 2^970\<close> is.
  \<^item> \<open>StrainReduce\<close>: \<open>ResultProcessor.process_strain_data\<close>
    (process_results.py 181-208) with its parts \<open>parse_cell\<close> (line 191),
    \<open>lower_row\<close>/\<open>upper_row\<close> (the conditions of lines 196 and 202),
    \<open>scan_max\<close> (one loop), \<open>render\<close> (lines 205-206), \<open>extremum\<close> and
    \<open>strain_rows\<close> (the loop over labels); the specification's
    ThresholdExtremumReducer contract as \<open>threshold_extremum\<close>.
  \<^item> \<open>PyIO\<close>: a file system as a record of readable contents and writable paths
    (\<open>write_file\<close> is open-for-writing plus close), \<open>os.path\<close> helpers,
    \<open>f.readline()\<close>, \<open>int(s)\<close> and \<open>str(n)\<close>.
  \<^item> \<open>ColumnExtractor\<close>: \<open>extract_column\<close> (column_extractor.py 6-21) threading
    the file system in the code's order (output truncated before the input is read),
    the entry check \<open>validate_column\<close>, one batch iteration \<open>batch_file\<close> and the
    loop \<open>batch_run\<close> of \<open>on_confirm\<close> (lines 47-113, the dialogs' answers as
    inputs), the confirm button clicked on the entry's text any number of times
    (\<open>gui_clicks\<close>, default \<open>"2"\<close>) and \<open>gui_mode\<close> (lines 23-35, 116-117) with
    its two ends (\<open>os._exit\<close> after a batch, a hidden \<open>mainloop\<close> otherwise), the
    command-line branch \<open>cli_main\<close> (lines 119-131) and the dispatch
    \<open>column_main\<close> of \<open>__main__\<close>.
  \<^item> \<open>Barfiber\<close>: process_barfiber.py.  \<open>process_file\<close> (lines 8-29) with the
    line scan \<open>scan_lines\<close>; \<open>extract_numbers\<close> (31-45) with the regular
    expression \<open>barfiber([-.0-9]+)\.out$\<close> as the leftmost-match scan
    \<open>search_barfiber\<close>; the folder pattern of line 110 as \<open>folder_pattern\<close>; one
    iteration of the folder loop as \<open>process_entry\<close> over the accumulator record
    \<open>facc\<close> (the nested dict as association lists, the sets as lists), the loop as
    \<open>process_entries\<close>, the sorting and table of lines 133-153 as
    \<open>folder_table\<close>, one folder as \<open>process_folder\<close> (100-135).  The specification
    side: \<open>last_floats\<close> and \<open>bad_lines\<close> (what the scan must find),
    \<open>max_abs_spec\<close>, the file names of the convention \<open>canon_name\<close>, and the
    accumulator invariant \<open>facc_inv\<close>.
  \<^item> \<open>BarfiberOutput\<close>: the rest of process_barfiber.py.  \<open>write_error_log\<close>
    (lines 47-61) with the log text \<open>log_text\<close> (literal text as UTF-8 bytes, the time
    stamp an input); the table text \<open>table_text\<close> and the \<open>try\<close> block of lines
    137-163 as \<open>save_results\<close>; one folder of the loop of lines 100-163 as
    \<open>folder_step\<close> and the loop as \<open>folders_loop\<close>, over a state \<open>bstate\<close> of
    the file system and the messages shown (\<open>bmsg\<close>); the \<open>while True\<close> folder
    selection of lines 69-83 as \<open>select_folders\<close>, a \<open>partial_function (option)\<close>
    over the dialog answers; the program \<open>process_folders\<close> (63-166).  An uncaught
    exception ends the run with the state reached.
  \<^item> \<open>ResultsFile\<close>: process_results.py 13-14 and 159-179, 244-310.  The
    constants \<open>array_A\<close>, \<open>array_B\<close>; \<open>read_results_file\<close> over a state
    \<open>gstate\<close> of the file system and the message boxes shown (\<open>msg\<close>), every
    exception caught into \<open>ReadError\<close> and \<open>None\<close>; function 1 as
    \<open>f1_cells\<close> (one row's cells, one read per A value as in the code),
    \<open>f1_rows\<close>, \<open>f1_file\<close> (one output file, truncated at \<open>open\<close> and
    written at the end of the \<open>with\<close> block) and \<open>f1_files\<close>; function 2 as
    \<open>f2_columns\<close> (the matrix \<open>X\<close>), \<open>f2_file\<close> (one b label, \<open>Inr False\<close>
    the early \<open>return\<close>) and \<open>f2_files\<close>, calling \<open>process_strain_data\<close> of
    \<open>StrainReduce\<close>.  The specification side: the expected tables
    \<open>table1_text\<close>, \<open>table2_text\<close> and the column condition \<open>col_ok\<close>.
  \<^item> \<open>Dialog\<close>: the instance state of \<open>ResultProcessor\<close> as the record
    \<open>ui\<close> (\<open>selected_files\<close> as an association list with distinct keys, the check
    boxes as \<open>bool list\<close>s, \<open>processing\<close> for the processing window being
    shown) and every button as an \<open>event\<close> of \<open>step\<close>: \<open>start_function\<close>
    (312-322 with the fresh check boxes of \<open>create_processing_ui\<close>),
    \<open>select_file\<close> (135-152, the chosen path an argument of the event),
    \<open>reset_selection\<close>, \<open>generate_output\<close> (210-242) with its guards and
    \<open>run_generator\<close>, \<open>return_to_main\<close>, the close buttons of the processing
    window (116-118) and of the main window (\<open>on_closing\<close>, \<open>cleanup\<close>, 34-44,
    after which the process has \<open>exited\<close>); \<open>create_main_ui\<close> (46-56) lists the
    main window's buttons and \<open>create_processing_ui\<close> (58-114) is the effect of
    opening the processing window; \<open>run\<close> folds \<open>step\<close> over a sequence of events,
    \<open>results_main\<close> (327-329) runs it from the initial state, and \<open>reachable\<close> is
    the inductive set of reachable states.

  \<^bold>\<open>What is proved.\<close>  In \<open>StrainReduce\<close>: the implementation refines the
  abstract contract on well-formed input (C1); the result is invariant under a
  consistent reordering of rows, errors included, on columns without zero cells
  (C2, the model having a single zero); all-error columns give
  \<open>"error"\<close> results (C3); a non-numeric cell or threshold raises
  \<open>ValueError\<close> (C4); NaN cells (C5) and \<open>-inf\<close> cells (C6) behave exactly like
  \<open>"error"\<close> cells (a row with \<open>c * 10 = a\<close> counts for both results, as
  the contract of C1 says); one result per label (C7).  The proofs go through a characterisation of the scan as
  the maximum of a set (\<open>scan_max_Max\<close>, \<open>extremum_eff_set\<close>) that depends only
  on the set of effective (threshold, value) pairs.
  In \<open>ColumnExtractor\<close>: the output is the requested column of the non-blank
  lines, \<open>"error"\<close> for short lines (C8); extracting column k of space-joined rows
  gives back their k-th fields (C9); extracting a file onto itself empties it and
  still reports success (C10); an unreadable input or unwritable output gives
  \<open>False\<close> and changes no file (C11); the command line exits 0 whether or not the
  extraction succeeded (C12); the batch counters agree with the messages (C13); a
  file with a blank first line is skipped, whatever its other lines (C14).
  In \<open>Barfiber\<close>: \<open>process_file\<close> returns the largest absolute value (C15) and
  logs exactly the unparsable non-blank lines with their numbers (C16); with a NaN among
  the values, NaN is the result exactly when it comes first, and is skipped
  otherwise (C17); canonical file names are matched and
  parsed back into their two numbers (C18); a malformed barfiber number (C19) or a
  non-integer B label (C20) makes the folder raise \<open>ValueError\<close>, whatever the
  other files; every table has sorted, duplicate-free labels and one cell per label
  (C21); of two files whose numbers are different texts of the same float, the one listed
  last fills the shared cell (C22).  The
  folder theorems rest on the elimination rule \<open>process_entry_Inr\<close> (an iteration
  either only logs errors or also records one result), the invariant
  \<open>facc_inv\<close> and the monotonicity \<open>process_entries_mono\<close>.
  In \<open>BarfiberOutput\<close>: the folder selection returns exactly when the user
  cancels or declines to continue in some round (C31, with the non-termination lemma
  \<open>select_folders_forever\<close> proved by fixpoint induction) and then yields the folders
  of the rounds before (C32); a
  folder in which no file yields a value loses its error log (C33); two folders with
  the same base name overwrite one table file (C34); the table text reads back into
  its cells (C35); the
  completion message is shown exactly when a folder and an output folder were chosen
  and nothing raised (C36); the numbered lines of the log read back as exactly the
  reported errors, in order (C37).
  In \<open>ResultsFile\<close>: the B columns are taken by position, not by header text
  (C23); one short data line, a trailing blank line included, discards the whole
  file (C24); function 1 writes, per selected b, the header and one row per label of
  the first file (C25); function 2 writes one line per A value, ECC before RC, with
  the extrema of \<open>StrainReduce\<close> (C26).  These rest on \<open>read_results_file_ok\<close>
  and the loop lemmas \<open>f1_files_ok\<close> and \<open>f2_files_ok\<close>, which also show that
  the reads are not disturbed by the files written (the output paths are not
  selected files).
  In \<open>Dialog\<close>: every reachable state satisfies \<open>ui_inv\<close> (C27, by rule
  induction over \<open>reachable\<close>); the guard of \<open>generate_output\<close> counts files
  instead of checking that every ticked value has one, so a stale pairing leads to a
  \<open>KeyError\<close> failure (C28); an unreadable first file is reported as success
  (C29); selecting one file per unpaired value pairs them all, in order (C30).  After
  the main window is closed no event changes the state (\<open>run_exited\<close>).  In
  \<open>ColumnExtractor\<close> the lemmas \<open>gui_mode_cancel\<close> and \<open>gui_mode_done\<close> show the
  two ends of the GUI: a cancelled file or folder dialog leaves the process running
  with no window and no file touched, a valid click with both answers runs the batch.

  \<^bold>\<open>Bounds and fuel.\<close>  No fuel is used.  Every loop over data (lines,
  labels, files, folders) is structural recursion or \<open>foldl\<close>, and \<open>nat_str\<close>
  recurses on \<open>n div 10\<close>.  The one loop driven by the user, the \<open>while True\<close>
  folder selection of process_barfiber.py, need not end: it is a
  \<open>partial_function (option)\<close> whose \<open>None\<close> is the run in which the user never
  stops, and C31 says exactly when it returns.

  \<^bold>\<open>Plan.\<close>  Every function and handler of the three scripts now has a
  model.  What would come next is proof rather than modelling: a refinement of the
  results dialog onto an abstract request object (the selected pairs and labels), as
  the specification's design notes suggest, and the text of the column extractor's
  summary box, which the model keeps as the counters and messages it is built from.

  \<^bold>\<open>Not modelled.\<close>  Widget construction, geometry, labels and window
  centring (presentation only: the lines left out of the map are these and the
  imports), dialogs and message boxes (their outcomes enter the models as inputs),
  the textual \<open>repr\<close> of
  floats (an output cell \<open>Val y\<close> or \<open>TVal y\<close> stands for \<open>str(y)\<close>), the
  rounding of finite floats, the sign of a zero (one zero: \<open>-0.0\<close> and \<open>0.0\<close>
  are the same value, so C2 is stated for columns without zero cells), text decoding errors and the encoding of non-ASCII file
  names, and the clock (the time stamp in the name of the barfiber error log is an
  input).  Directory listings are an input \<open>ls\<close> fixed for the run: files written
  into a selected folder do not appear in its listing (they could not match the
  folder pattern anyway).  In the dialog, the file and directory pickers are the
  arguments of the events, a message box is an entry of the message log, and a
  cancelled picker is the empty path.
\<close>

end
